(* ===== verification/Prelude.thy ===== *)
theory Prelude
  imports Main "HOL-Library.Word"
begin

text \<open>
  Shared vocabulary of the goIPP development: bytes as 8-bit words, Go's
  fixed-width integers as words of their width, Go runtime panics as the left
  side of a sum type, the big-endian byte layouts that \<open>encoding/binary\<close>
  produces for \<open>int16\<close>/\<open>uint16\<close>/\<open>int32\<close>, and Go slicing with its bounds
  check.  The theorem collections declared here gather the evaluation rules
  that the component theories contribute.
\<close>

unbundle bit_operations_syntax

named_theorems wire_defs "definitions of byte-level helpers, unfolded when a concrete encoding is evaluated"
named_theorems go_simps "evaluation rules of the Go model's helpers"

section \<open>Bytes and Go integers\<close>

type_synonym byte = "8 word"
type_synonym bytes = "byte list"

text \<open>Go's \<open>int8\<close>, \<open>int16\<close>, \<open>uint16\<close> and \<open>int32\<close> keep their width; signedness is
  a matter of reading (\<open>sint\<close> against \<open>unat\<close>), so one word type per width serves both.\<close>

type_synonym int8 = "8 word"
type_synonym int16 = "16 word"
type_synonym uint16 = "16 word"
type_synonym int32 = "32 word"
type_synonym int64 = "64 word"
type_synonym uint64 = "64 word"

text \<open>A Go string literal as the bytes of its (ASCII) characters.\<close>

definition bstr :: "string \<Rightarrow> bytes" where
  "bstr s = map of_char s"

lemma length_bstr [simp]: "length (bstr s) = length s"
  by (simp add: bstr_def)

lemma bstr_Nil [simp]: "bstr [] = []"
  by (simp add: bstr_def)

section \<open>Go panics as values\<close>

text \<open>The runtime panics the source can raise: calling a nil function value (an
  unset closure field), a failed type assertion \<open>x.(T)\<close> (including one on a nil
  interface), a nil dereference inside the reflection-based encoder, and a slice
  or index expression out of range.\<close>

datatype go_panic =
    NilFuncCall
  | InterfaceConversion
  | NilDereference
  | SliceOutOfRange
  | IndexOutOfRange

type_synonym 'a go = "go_panic + 'a"

definition go_bind :: "'a go \<Rightarrow> ('a \<Rightarrow> 'b go) \<Rightarrow> 'b go" where
  "go_bind r f = (case r of Inl e \<Rightarrow> Inl e | Inr x \<Rightarrow> f x)"

lemma go_bind_Inl [simp, go_simps]: "go_bind (Inl e) f = Inl e"
  by (simp add: go_bind_def)

lemma go_bind_Inr [simp, go_simps]: "go_bind (Inr x) f = f x"
  by (simp add: go_bind_def)

lemma go_bind_eq_Inr:
  "go_bind r f = Inr y \<longleftrightarrow> (\<exists>x. r = Inr x \<and> f x = Inr y)"
  by (cases r) (auto simp: go_bind_def)

lemma go_bind_eq_Inl:
  "go_bind r f = Inl e \<longleftrightarrow> r = Inl e \<or> (\<exists>x. r = Inr x \<and> f x = Inl e)"
  by (cases r) (auto simp: go_bind_def)

text \<open>Writing a sequence of pieces into one buffer, stopping at the first panic.\<close>

fun go_concat_map :: "('a \<Rightarrow> bytes go) \<Rightarrow> 'a list \<Rightarrow> bytes go" where
  "go_concat_map f [] = Inr []"
| "go_concat_map f (x # xs) = go_bind (f x) (\<lambda>b. go_bind (go_concat_map f xs) (\<lambda>bs. Inr (b @ bs)))"

lemma go_concat_map_Inr:
  "(\<forall>x \<in> set xs. f x = Inr (g x)) \<Longrightarrow> go_concat_map f xs = Inr (concat (map g xs))"
  by (induction xs) auto

lemma go_concat_map_append:
  "go_concat_map f (xs @ ys) =
     go_bind (go_concat_map f xs) (\<lambda>a. go_bind (go_concat_map f ys) (\<lambda>b. Inr (a @ b)))"
  by (induction xs) (auto simp: go_bind_def split: sum.splits)

lemma go_concat_map_map: "go_concat_map f (map g xs) = go_concat_map (\<lambda>x. f (g x)) xs"
  by (induction xs) auto

lemma go_concat_map_cong:
  "(\<And>x. x \<in> set xs \<Longrightarrow> f x = g x) \<Longrightarrow> go_concat_map f xs = go_concat_map g xs"
  by (induction xs) auto

lemma go_concat_map_Inl_single:
  assumes f: "\<And>x e. f x = Inl e \<longleftrightarrow> e = E \<and> P x"
  shows "go_concat_map f xs = Inl e \<longleftrightarrow> e = E \<and> (\<exists>x \<in> set xs. P x)"
proof (induction xs)
  case Nil
  then show ?case by simp
next
  case (Cons x xs)
  show ?case
  proof (cases "P x")
    case True
    then have "f x = Inl E" using f by blast
    then show ?thesis using True by auto
  next
    case False
    then obtain b where b: "f x = Inr b"
      using f by (cases "f x") auto
    show ?thesis
    proof (cases "go_concat_map f xs")
      case (Inl e')
      with Cons.IH b False show ?thesis by auto
    next
      case (Inr bs)
      with Cons.IH b False show ?thesis by auto
    qed
  qed
qed

text \<open>Go's slice expression \<open>s[a:b]\<close>: it panics unless \<open>0 \<le> a \<le> b \<le> cap s\<close>.
  The slices the model takes are of freshly read buffers, whose capacity is
  their length.\<close>

definition go_slice :: "'a list \<Rightarrow> int \<Rightarrow> int \<Rightarrow> 'a list go" where
  "go_slice xs a b =
     (if 0 \<le> a \<and> a \<le> b \<and> b \<le> int (length xs)
      then Inr (take (nat (b - a)) (drop (nat a) xs)) else Inl SliceOutOfRange)"

text \<open>A Go slice whose capacity may exceed its length: the elements of its
  backing array from its start up to its capacity, and its length.  Reslicing
  \<open>s[a:b]\<close> checks \<open>b\<close> against the capacity, not the length, and the result
  keeps the backing elements from \<open>a\<close> on.  \<open>sl_of xs\<close> is a slice whose
  capacity is its length.\<close>

record 'a go_sl =
  sl_backing :: "'a list"
  sl_len :: nat

definition sl_elems :: "'a go_sl \<Rightarrow> 'a list" where
  "sl_elems s = take (sl_len s) (sl_backing s)"

definition sl_cap :: "'a go_sl \<Rightarrow> nat" where
  "sl_cap s = length (sl_backing s)"

definition sl_of :: "'a list \<Rightarrow> 'a go_sl" where
  "sl_of xs = \<lparr>sl_backing = xs, sl_len = length xs\<rparr>"

definition go_reslice :: "'a go_sl \<Rightarrow> int \<Rightarrow> int \<Rightarrow> 'a go_sl go" where
  "go_reslice s a b =
     (if 0 \<le> a \<and> a \<le> b \<and> b \<le> int (sl_cap s)
      then Inr \<lparr>sl_backing = drop (nat a) (sl_backing s), sl_len = nat (b - a)\<rparr>
      else Inl SliceOutOfRange)"

lemma go_reslice_elems:
  "go_reslice s a b = Inr s' \<Longrightarrow> sl_elems s' = take (nat (b - a)) (drop (nat a) (sl_backing s))"
  by (auto simp: go_reslice_def sl_elems_def split: if_splits)

text \<open>On a slice whose capacity is its length, reslicing is \<open>go_slice\<close>.\<close>

lemma go_reslice_sl_of:
  "map_sum id sl_elems (go_reslice (sl_of xs) a b) = go_slice xs a b"
  by (simp add: go_reslice_def go_slice_def sl_of_def sl_cap_def sl_elems_def)

lemma go_slice_ok [go_simps]:
  "0 \<le> a \<Longrightarrow> a \<le> b \<Longrightarrow> b \<le> int (length xs) \<Longrightarrow>
   go_slice xs a b = Inr (take (nat (b - a)) (drop (nat a) xs))"
  by (simp add: go_slice_def)

section \<open>Big-endian layouts of encoding/binary\<close>

text \<open>\<open>binary.Write(b, binary.BigEndian, x)\<close> for a 16- and a 32-bit integer,
  and \<open>binary.Read(buf, binary.BigEndian, &xx)\<close> into an \<open>int16\<close>.\<close>

definition be16 :: "16 word \<Rightarrow> bytes" where
  [wire_defs]: "be16 w = [ucast (drop_bit 8 w), ucast w]"

definition be32 :: "32 word \<Rightarrow> bytes" where
  [wire_defs]: "be32 w = [ucast (drop_bit 24 w), ucast (drop_bit 16 w), ucast (drop_bit 8 w), ucast w]"

definition dec16 :: "bytes \<Rightarrow> 16 word" where
  [wire_defs]: "dec16 bs = push_bit 8 (ucast (bs ! 0)) OR ucast (bs ! 1)"

lemma length_be16 [simp]: "length (be16 w) = 2"
  by (simp add: be16_def)

lemma length_be32 [simp]: "length (be32 w) = 4"
  by (simp add: be32_def)

lemma dec16_be16 [simp]: "dec16 (be16 w) = w"
  unfolding dec16_def be16_def
  by (rule bit_word_eqI) (auto simp: bit_simps)

lemma be16_0 [simp]: "be16 0 = [0, 0]"
  by (simp add: be16_def)

lemma dec16_be16_append [simp]: "dec16 (be16 w @ rest) = w"
proof -
  have "dec16 (be16 w @ rest) = dec16 (be16 w)"
    by (simp add: dec16_def be16_def)
  then show ?thesis by simp
qed

lemma in_set_tl: "x \<in> set (tl xs) \<Longrightarrow> x \<in> set xs"
  by (cases xs) auto

lemma concat_map_concat:
  "concat (map f (concat xss)) = concat (map (\<lambda>xs. concat (map f xs)) xss)"
  by (induction xss) auto

lemma sint_of_nat_small:
  "n < 2 ^ 15 \<Longrightarrow> sint (of_nat n :: 16 word) = int n"
  by (simp add: signed_of_nat signed_take_bit_int_eq_self)

end
