(* ===== verification/Tags.thy ===== *)
theory Tags
  imports Prelude
begin

text \<open>
  The tag registry of \<^verbatim>\<open>src/ipp/constants.go\<close>: the protocol version the
  client writes, the delimiter tags (\<open>0x00\<close>--\<open>0x09\<close>) and the value tags
  (\<open>0x10\<close>--\<open>0x4a\<close>), and the classifier \<open>checkGroupTag\<close> of
  \<^verbatim>\<open>src/ipp/unMarshall.go\<close> that the decoder uses to tell a group boundary from a
  value.  Each constant is a definition declared \<open>[simp]\<close>, so that proofs see the
  byte it stands for.
\<close>

section \<open>Constants\<close>

definition MAJOR_VERSION :: int8 where [simp]: "MAJOR_VERSION = 0x02"
definition MINOR_VERSION :: int8 where [simp]: "MINOR_VERSION = 0x01"

subsection \<open>Delimiter tags\<close>

definition TAG_ZERO :: byte where [simp]: "TAG_ZERO = 0x00"
definition TAG_OPERATION :: byte where [simp]: "TAG_OPERATION = 0x01"
definition TAG_JOB :: byte where [simp]: "TAG_JOB = 0x02"
definition TAG_END :: byte where [simp]: "TAG_END = 0x03"
definition TAG_PRINTER :: byte where [simp]: "TAG_PRINTER = 0x04"
definition TAG_UNSUPPORTED_GROUP :: byte where [simp]: "TAG_UNSUPPORTED_GROUP = 0x05"
definition TAG_SUBSCRIPTION :: byte where [simp]: "TAG_SUBSCRIPTION = 0x06"
definition TAG_EVENT_NOTIFICATION :: byte where [simp]: "TAG_EVENT_NOTIFICATION = 0x07"
definition TAG_DOCUMENT_ATTRIBUTES :: byte where [simp]: "TAG_DOCUMENT_ATTRIBUTES = 0x09"

subsection \<open>Value tags\<close>

definition TAG_UNSUPPORTED_VALUE :: byte where [simp]: "TAG_UNSUPPORTED_VALUE = 0x10"
definition TAG_DEFAULT :: byte where [simp]: "TAG_DEFAULT = 0x11"
definition TAG_UNKNOWN :: byte where [simp]: "TAG_UNKNOWN = 0x12"
definition TAG_NOVALUE :: byte where [simp]: "TAG_NOVALUE = 0x13"
definition TAG_NOTSETTABLE :: byte where [simp]: "TAG_NOTSETTABLE = 0x15"
definition TAG_DELETEATTR :: byte where [simp]: "TAG_DELETEATTR = 0x16"
definition TAG_ADMINDEFINE :: byte where [simp]: "TAG_ADMINDEFINE = 0x17"
definition TAG_INTEGER :: byte where [simp]: "TAG_INTEGER = 0x21"
definition TAG_BOOLEAN :: byte where [simp]: "TAG_BOOLEAN = 0x22"
definition TAG_ENUM :: byte where [simp]: "TAG_ENUM = 0x23"
definition TAG_STRING :: byte where [simp]: "TAG_STRING = 0x30"
definition TAG_DATE :: byte where [simp]: "TAG_DATE = 0x31"
definition TAG_RESOLUTION :: byte where [simp]: "TAG_RESOLUTION = 0x32"
definition TAG_RANGE :: byte where [simp]: "TAG_RANGE = 0x33"
definition TAG_BEGIN_COLLECTION :: byte where [simp]: "TAG_BEGIN_COLLECTION = 0x34"
definition TAG_TEXTLANG :: byte where [simp]: "TAG_TEXTLANG = 0x35"
definition TAG_NAMELANG :: byte where [simp]: "TAG_NAMELANG = 0x36"
definition TAG_END_COLLECTION :: byte where [simp]: "TAG_END_COLLECTION = 0x37"
definition TAG_TEXT :: byte where [simp]: "TAG_TEXT = 0x41"
definition TAG_NAME :: byte where [simp]: "TAG_NAME = 0x42"
definition TAG_KEYWORD :: byte where [simp]: "TAG_KEYWORD = 0x44"
definition TAG_URI :: byte where [simp]: "TAG_URI = 0x45"
definition TAG_URISCHEME :: byte where [simp]: "TAG_URISCHEME = 0x46"
definition TAG_CHARSET :: byte where [simp]: "TAG_CHARSET = 0x47"
definition TAG_LANGUAGE :: byte where [simp]: "TAG_LANGUAGE = 0x48"
definition TAG_MIMETYPE :: byte where [simp]: "TAG_MIMETYPE = 0x49"
definition TAG_MEMBERNAME :: byte where [simp]: "TAG_MEMBERNAME = 0x4a"

section \<open>Operation ids and status codes\<close>

text \<open>The \<open>Operation-Ids\<close>, the CUPS operation ids and the \<open>Status Codes\<close>
  blocks of \<^verbatim>\<open>src/ipp/constants.go\<close>, each constant with its name.\<close>

definition operation_ids :: "(string \<times> uint16) list" where
  "operation_ids =
    [(''PRINT_JOB'', 0x0002),
     (''PRINT_URI'', 0x0003),
     (''VALIDATE_JOB'', 0x0004),
     (''CREATE_JOB'', 0x0005),
     (''SEND_DOCUMENT'', 0x0006),
     (''SEND_URI'', 0x0007),
     (''CANCEL_JOB'', 0x0008),
     (''GET_JOB_ATTRIBUTES'', 0x0009),
     (''GET_JOBS'', 0x000a),
     (''GET_PRINTER_ATTRIBUTES'', 0x000b),
     (''HOLD_JOB'', 0x000c),
     (''RELEASE_JOB'', 0x000d),
     (''RESTART_JOB'', 0x000e),
     (''PAUSE_PRINTER'', 0x0010),
     (''RESUME_PRINTER'', 0x0011),
     (''PURGE_JOBS'', 0x0012),
     (''SET_PRINTER_ATTRIBUTES'', 0x0013),
     (''SET_JOB_ATTRIBUTES'', 0x0014),
     (''GET_PRINTER_SUPPORTED_VALUES'', 0x0015),
     (''CREATE_PRINTER_SUBSCRIPTION'', 0x0016),
     (''CREATE_JOB_SUBSCRIPTION'', 0x0017),
     (''GET_SUBSCRIPTION_ATTRIBUTES'', 0x0018),
     (''GET_SUBSCRIPTIONS'', 0x0019),
     (''RENEW_SUBSCRIPTION'', 0x001a),
     (''CANCEL_SUBSCRIPTION'', 0x001b),
     (''GET_NOTIFICATIONS'', 0x001c),
     (''SEND_NOTIFICATIONS'', 0x001d),
     (''GET_PRINT_SUPPORT_FILES'', 0x0021),
     (''ENABLE_PRINTER'', 0x0022),
     (''DISABLE_PRINTER'', 0x0023),
     (''PAUSE_PRINTER_AFTER_CURRENT_JOB'', 0x0024),
     (''HOLD_NEW_JOBS'', 0x0025),
     (''RELEASE_HELD_NEW_JOBS'', 0x0026),
     (''DEACTIVATE_PRINTER'', 0x0027),
     (''ACTIVATE_PRINTER'', 0x0028),
     (''RESTART_PRINTER'', 0x0029),
     (''SHUTDOWN_PRINTER'', 0x002a),
     (''STARTUP_PRINTER'', 0x002b),
     (''REPROCESS_JOB'', 0x002c),
     (''CANCEL_CURRENT_JOB'', 0x002d),
     (''SUSPEND_CURRENT_JOB'', 0x002e),
     (''RESUME_JOB'', 0x002f),
     (''PROMOTE_JOB'', 0x0030),
     (''SCHEDULE_JOB_AFTER'', 0x0031),
     (''PRIVATE'', 0x4000)]"

definition cups_operation_ids :: "(string \<times> uint16) list" where
  "cups_operation_ids =
    [(''CUPS_GET_DEFAULT'', 0x4001),
     (''CUPS_GET_PRINTERS'', 0x4002),
     (''CUPS_ADD_PRINTER'', 0x4003),
     (''CUPS_DELETE_PRINTER'', 0x4004),
     (''CUPS_GET_CLASSES'', 0x4005),
     (''CUPS_ADD_CLASS'', 0x4006),
     (''CUPS_DELETE_CLASS'', 0x4007),
     (''CUPS_ACCEPT_JOBS'', 0x4008),
     (''CUPS_REJECT_JOBS'', 0x4009),
     (''CUPS_SET_DEFAULT'', 0x400a),
     (''CUPS_GET_DEVICES'', 0x400b),
     (''CUPS_GET_PPDS'', 0x400c),
     (''CUPS_MOVE_JOB'', 0x400d),
     (''CUPS_AUTHENTICATE_JOB'', 0x400e)]"

definition status_codes :: "(string \<times> uint16) list" where
  "status_codes =
    [(''OK'', 0x0000),
     (''OK_SUBST'', 0x0001),
     (''OK_CONFLICT'', 0x0002),
     (''OK_IGNORED_SUBSCRIPTIONS'', 0x0003),
     (''OK_IGNORED_NOTIFICATIONS'', 0x0004),
     (''OK_TOO_MANY_EVENTS'', 0x0005),
     (''OK_BUT_CANCEL_SUBSCRIPTION'', 0x0006),
     (''REDIRECTION_OTHER_SITE'', 0x0300),
     (''BAD_REQUEST'', 0x0400),
     (''FORBIDDEN'', 0x0401),
     (''NOT_AUTHENTICATED'', 0x0402),
     (''NOT_AUTHORIZED'', 0x0403),
     (''NOT_POSSIBLE'', 0x0404),
     (''TIMEOUT'', 0x0405),
     (''NOT_FOUND'', 0x0406),
     (''GONE'', 0x0407),
     (''REQUEST_ENTITY'', 0x0408),
     (''REQUEST_VALUE'', 0x0409),
     (''DOCUMENT_FORMAT'', 0x040a),
     (''ATTRIBUTES'', 0x040b),
     (''URI_SCHEME'', 0x040c),
     (''CHARSET'', 0x040d),
     (''CONFLICT'', 0x040e),
     (''COMPRESSION_NOT_SUPPORTED'', 0x040f),
     (''COMPRESSION_ERROR'', 0x0410),
     (''DOCUMENT_FORMAT_ERROR'', 0x0411),
     (''DOCUMENT_ACCESS_ERROR'', 0x0412),
     (''ATTRIBUTES_NOT_SETTABLE'', 0x0413),
     (''IGNORED_ALL_SUBSCRIPTIONS'', 0x0414),
     (''TOO_MANY_SUBSCRIPTIONS'', 0x0415),
     (''IGNORED_ALL_NOTIFICATIONS'', 0x0416),
     (''PRINT_SUPPORT_FILE_NOT_FOUND'', 0x0417),
     (''INTERNAL_ERROR'', 0x0500),
     (''OPERATION_NOT_SUPPORTED'', 0x0501),
     (''SERVICE_UNAVAILABLE'', 0x0502),
     (''VERSION_NOT_SUPPORTED'', 0x0503),
     (''DEVICE_ERROR'', 0x0504),
     (''TEMPORARY_ERROR'', 0x0505),
     (''NOT_ACCEPTING'', 0x0506),
     (''PRINTER_BUSY'', 0x0507),
     (''ERROR_JOB_CANCELLED'', 0x0508),
     (''MULTIPLE_JOBS_NOT_SUPPORTED'', 0x0509),
     (''PRINTER_IS_DEACTIVATED'', 0x50a)]"

section \<open>Enumerations, parser states and CUPS printer flags\<close>

text \<open>The remaining blocks of untyped integer constants: the \<open>finishings\<close>,
  \<open>orientation-requested\<close>, \<open>print-quality\<close>, \<open>job-state\<close> and
  \<open>printer-state\<close> enum values, the parser states, and the CUPS printer-type
  flags, each constant with its name, as Go \<open>int\<close>s.\<close>

definition finishings :: "(string \<times> int) list" where
  "finishings =
    [(''FINISHINGS_NONE'', 3),
     (''FINISHINGS_STAPLE'', 4),
     (''FINISHINGS_PUNCH'', 5),
     (''FINISHINGS_COVER'', 6),
     (''FINISHINGS_BIND'', 7),
     (''FINISHINGS_SADDLE_STITCH'', 8),
     (''FINISHINGS_EDGE_STITCH'', 9),
     (''FINISHINGS_FOLD'', 10),
     (''FINISHINGS_TRIM'', 11),
     (''FINISHINGS_BALE'', 12),
     (''FINISHINGS_BOOKLET_MAKER'', 13),
     (''FINISHINGS_JOB_OFFSET'', 14),
     (''FINISHINGS_STAPLE_TOP_LEFT'', 20),
     (''FINISHINGS_STAPLE_BOTTOM_LEFT'', 21),
     (''FINISHINGS_STAPLE_TOP_RIGHT'', 22),
     (''FINISHINGS_STAPLE_BOTTOM_RIGHT'', 23),
     (''FINISHINGS_EDGE_STITCH_LEFT'', 24),
     (''FINISHINGS_EDGE_STITCH_TOP'', 25),
     (''FINISHINGS_EDGE_STITCH_RIGHT'', 26),
     (''FINISHINGS_EDGE_STITCH_BOTTOM'', 27),
     (''FINISHINGS_STAPLE_DUAL_LEFT'', 28),
     (''FINISHINGS_STAPLE_DUAL_TOP'', 29),
     (''FINISHINGS_STAPLE_DUAL_RIGHT'', 30),
     (''FINISHINGS_STAPLE_DUAL_BOTTOM'', 31),
     (''FINISHINGS_BIND_LEFT'', 50),
     (''FINISHINGS_BIND_TOP'', 51),
     (''FINISHINGS_BIND_RIGHT'', 52),
     (''FINISHINGS_BIND_BOTTO'', 53)]"

definition orientations :: "(string \<times> int) list" where
  "orientations =
    [(''PORTRAIT'', 3),
     (''LANDSCAPE'', 4),
     (''REVERSE_LANDSCAPE'', 5),
     (''REVERSE_PORTRAIT'', 6)]"

definition qualities :: "(string \<times> int) list" where
  "qualities =
    [(''QUALITY_DRAFT'', 3),
     (''QUALITY_NORMAL'', 4),
     (''QUALITY_HIGH'', 5)]"

definition job_states :: "(string \<times> int) list" where
  "job_states =
    [(''JOB_PENDING'', 3),
     (''JOB_HELD'', 4),
     (''JOB_PROCESSING'', 5),
     (''JOB_STOPPED'', 6),
     (''JOB_CANCELLED'', 7),
     (''JOB_ABORTED'', 8),
     (''JOB_COMPLETE'', 9)]"

definition printer_states :: "(string \<times> int) list" where
  "printer_states =
    [(''PRINTER_IDLE'', 3),
     (''PRINTER_PROCESSING'', 4),
     (''PRINTER_STOPPED'', 5)]"

definition parser_states :: "(string \<times> int) list" where
  "parser_states =
    [(''ERROR'', - 1),
     (''IDLE'', 0),
     (''HEADER'', 1),
     (''ATTRIBUTE'', 2),
     (''DATA'', 3)]"

definition cups_printer_flags :: "(string \<times> int) list" where
  "cups_printer_flags =
    [(''CUPS_PRINTER_LOCAL'', 0x0000),
     (''CUPS_PRINTER_CLASS'', 0x0001),
     (''CUPS_PRINTER_REMOTE'', 0x0002),
     (''CUPS_PRINTER_BW'', 0x0004),
     (''CUPS_PRINTER_COLOR'', 0x0008),
     (''CUPS_PRINTER_DUPLEX'', 0x0010),
     (''CUPS_PRINTER_STAPLE'', 0x0020),
     (''CUPS_PRINTER_COPIES'', 0x0040),
     (''CUPS_PRINTER_COLLATE'', 0x0080),
     (''CUPS_PRINTER_PUNCH'', 0x0100),
     (''CUPS_PRINTER_COVER'', 0x0200),
     (''CUPS_PRINTER_BIND'', 0x0400),
     (''CUPS_PRINTER_SORT'', 0x0800),
     (''CUPS_PRINTER_SMALL'', 0x1000),
     (''CUPS_PRINTER_MEDIUM'', 0x2000),
     (''CUPS_PRINTER_LARGE'', 0x4000),
     (''CUPS_PRINTER_VARIABLE'', 0x8000),
     (''CUPS_PRINTER_IMPLICIT'', 0x1000),
     (''CUPS_PRINTER_DEFAULT'', 0x2000),
     (''CUPS_PRINTER_FAX'', 0x4000),
     (''CUPS_PRINTER_REJECTING'', 0x8000),
     (''CUPS_PRINTER_DELETE'', 0x1000),
     (''CUPS_PRINTER_NOT_SHARED'', 0x2000),
     (''CUPS_PRINTER_AUTHENTICATED'', 0x4000),
     (''CUPS_PRINTER_COMMANDS'', 0x8000),
     (''CUPS_PRINTER_OPTIONS'', 0xe6ff)]"

text \<open>The single constants of the file: the port, the name and value limits,
  the resolution units and CUPS's tag mask and copy bit.\<close>

definition PORT :: int where "PORT = 631"

definition MAX_NAME :: int where "MAX_NAME = 256"

definition MAX_VALUES :: int where "MAX_VALUES = 8"

definition RES_PER_INCH :: int where "RES_PER_INCH = 3"

definition RES_PER_CM :: int where "RES_PER_CM = 4"

definition TAG_MASK :: int where "TAG_MASK = 0x7fffffff"

definition TAG_COPY :: int where "TAG_COPY = - 0x7fffffff - 1"

section \<open>Classifying a tag byte\<close>

text \<open>\<open>checkGroupTag\<close> returns the delimiter's name and \<open>true\<close> for the nine
  assigned delimiters \<open>0x01\<close>--\<open>0x09\<close> (the reserved \<open>0x08\<close> included), and
  \<open>("", false)\<close> for every other byte: \<open>0x00\<close> and the unassigned delimiters
  \<open>0x0A\<close>--\<open>0x0F\<close> are not recognised as delimiters.\<close>

definition checkGroupTag :: "byte \<Rightarrow> string \<times> bool" where
  "checkGroupTag b =
     (if b = 0x01 then (''TAG_OPERATION'', True)
      else if b = 0x02 then (''TAG_JOB'', True)
      else if b = 0x03 then (''TAG_END'', True)
      else if b = 0x04 then (''TAG_PRINTER'', True)
      else if b = 0x05 then (''TAG_UNSUPPORTED_GROUP'', True)
      else if b = 0x06 then (''TAG_SUBSCRIPTION'', True)
      else if b = 0x07 then (''TAG_EVENT_NOTIFICATION'', True)
      else if b = 0x08 then (''0x08'', True)
      else if b = 0x09 then (''TAG_DOCUMENT_ATTRIBUTES'', True)
      else ('''', False))"

abbreviation isDelimiter :: "byte \<Rightarrow> bool" where
  "isDelimiter b \<equiv> snd (checkGroupTag b)"

section \<open>Properties\<close>

lemma byte_cases_1_9:
  "(1 \<le> unat (b :: byte) \<and> unat b \<le> 9) \<longleftrightarrow> b \<in> {1, 2, 3, 4, 5, 6, 7, 8, 9}"
  by (auto simp: word_unat_eq_iff)

text \<open>C34. A byte is classified as a delimiter exactly when its value lies in
  \<open>1..9\<close>; the reserved delimiter \<open>0x00\<close> and the unassigned delimiters
  \<open>0x0A\<close>--\<open>0x0F\<close> of the protocol are not recognised.\<close>

theorem checkGroupTag_delimiter_iff:
  "isDelimiter b \<longleftrightarrow> 1 \<le> unat b \<and> unat b \<le> 9"
  unfolding byte_cases_1_9 by (auto simp: checkGroupTag_def)

end
