(* ===== verification/Values.thy ===== *)
theory Values
  imports Tags
begin

text \<open>
  The value codecs of \<^verbatim>\<open>src/ipp/ippParser.go\<close>.  The source stores an
  attribute's value in an \<open>interface{}\<close> field; its dynamic Go type is the
  datatype \<open>gvalue\<close>, one constructor per type the package declares and \<open>GNil\<close>
  for the nil interface.  Over it the theory defines
  \<^item> \<open>go_write\<close>: the bytes \<open>binary.Write(b, binary.BigEndian, v.value)\<close> appends in
    \<open>marshallAtrib\<close> (reflection: byte slices raw, fixed-size integers and structs
    big-endian field by field, structs with a slice field rejected with an error
    the caller ignores, nil panicking);
  \<^item> the \<open>len\<close>/\<open>length\<close> methods of the composite types and \<open>refer_Length\<close>, the
    \<open>Length\<close> closure \<open>refer()\<close> installs for a tag (a missing case leaves it nil,
    and calling it panics; a value of another type fails the type assertion);
  \<^item> \<open>Uvarint\<close>/\<open>Varint\<close> of \<open>encoding/binary\<close> (modelled from the Go library) and
    the \<open>UnMarshall\<close> methods of \<open>signedByte\<close> and \<open>signedInteger\<close> built on them.
\<close>

section \<open>The Go value types\<close>

text \<open>\<open>octetString\<close> and its renamings \<open>textWithLanguage\<close>/\<open>nameWithLanguage\<close>:
  two \<open>signedShort\<close> lengths and two byte strings.\<close>

record octetString =
  os_nameLength :: int16
  os_name :: bytes
  os_valueLength :: int16
  os_value :: bytes

record dateTime =
  year :: int16
  month :: int8
  day :: int8
  hour :: int8
  minutes :: int8
  seconds :: int8
  deciSeconds :: int8
  UTC :: int8
  hoursFrUTC :: int8

record resolution =
  crossFeedDirection :: int32
  feedDirection :: int32
  units :: int8

record rangeOfInteger =
  lowerBound :: int32
  upperBound :: int32

datatype gvalue =
    GNil
  | GCharset bytes
  | GNaturalLanguage bytes
  | GMimeMediaType bytes
  | GKeyword bytes
  | GUri bytes
  | GUriScheme bytes
  | GTextWithoutLanguage bytes
  | GNameWithoutLanguage bytes
  | GOctetString octetString
  | GTextWithLanguage octetString
  | GNameWithLanguage octetString
  | GBoolean int8
  | GInteger int32
  | GEnum int32
  | GDateTime dateTime
  | GResolution resolution
  | GRangeOfInteger rangeOfInteger

section \<open>binary.Write of a value\<close>

definition dateTime_bytes :: "dateTime \<Rightarrow> bytes" where
  [wire_defs]: "dateTime_bytes d =
     be16 (year d) @ [month d, day d, hour d, minutes d, seconds d, deciSeconds d, UTC d, hoursFrUTC d]"

definition resolution_bytes :: "resolution \<Rightarrow> bytes" where
  [wire_defs]: "resolution_bytes r = be32 (crossFeedDirection r) @ be32 (feedDirection r) @ [units r]"

definition rangeOfInteger_bytes :: "rangeOfInteger \<Rightarrow> bytes" where
  [wire_defs]: "rangeOfInteger_bytes r = be32 (lowerBound r) @ be32 (upperBound r)"

fun go_write :: "gvalue \<Rightarrow> bytes go" where
  "go_write GNil = Inl NilDereference"
| "go_write (GCharset b) = Inr b"
| "go_write (GNaturalLanguage b) = Inr b"
| "go_write (GMimeMediaType b) = Inr b"
| "go_write (GKeyword b) = Inr b"
| "go_write (GUri b) = Inr b"
| "go_write (GUriScheme b) = Inr b"
| "go_write (GTextWithoutLanguage b) = Inr b"
| "go_write (GNameWithoutLanguage b) = Inr b"
| "go_write (GOctetString s) = Inr []"
| "go_write (GTextWithLanguage s) = Inr []"
| "go_write (GNameWithLanguage s) = Inr []"
| "go_write (GBoolean b) = Inr [b]"
| "go_write (GInteger i) = Inr (be32 i)"
| "go_write (GEnum i) = Inr (be32 i)"
| "go_write (GDateTime d) = Inr (dateTime_bytes d)"
| "go_write (GResolution r) = Inr (resolution_bytes r)"
| "go_write (GRangeOfInteger r) = Inr (rangeOfInteger_bytes r)"

section \<open>Lengths\<close>

text \<open>\<open>octetString.len()\<close>: each \<open>signedShort\<close> field counts the 2 bytes of its
  little-endian encoding, each byte field its length; the sum is converted to
  \<open>uint16\<close>.\<close>

definition octetString_len :: "octetString \<Rightarrow> uint16" where
  "octetString_len s = of_nat (2 + 2 + length (os_name s) + length (os_value s))"

text \<open>\<open>textWithLanguage.length()\<close> and \<open>nameWithLanguage.length()\<close> add the
  stored length fields in \<open>int16\<close> arithmetic (wrapping) and convert to \<open>uint16\<close>;
  the actual lengths of the byte fields play no part.\<close>

definition textWithLanguage_length :: "octetString \<Rightarrow> uint16" where
  "textWithLanguage_length s = 4 + os_nameLength s + os_valueLength s"

definition nameWithLanguage_length :: "octetString \<Rightarrow> uint16" where
  "nameWithLanguage_length s = 4 + os_nameLength s + os_valueLength s"

text \<open>The \<open>Length\<close> closure that \<open>refer()\<close> installs for a tag, applied to the
  value: tags without a case leave the closure nil, and the cases that assert the
  value's type panic on a value of another type.\<close>

definition refer_Length :: "byte \<Rightarrow> gvalue \<Rightarrow> uint16 go" where
  "refer_Length t v =
     (if t = TAG_STRING then
        (case v of GOctetString s \<Rightarrow> Inr (octetString_len s) | _ \<Rightarrow> Inl InterfaceConversion)
      else if t = TAG_DATE then Inr 9
      else if t = TAG_RESOLUTION then Inr 11
      else if t = TAG_RANGE then Inr 8
      else if t = TAG_TEXTLANG then
        (case v of GTextWithLanguage s \<Rightarrow> Inr (textWithLanguage_length s) | _ \<Rightarrow> Inl InterfaceConversion)
      else if t = TAG_LANGUAGE then
        (case v of GNaturalLanguage b \<Rightarrow> Inr (of_nat (length b)) | _ \<Rightarrow> Inl InterfaceConversion)
      else if t = TAG_KEYWORD then
        (case v of GKeyword b \<Rightarrow> Inr (of_nat (length b)) | _ \<Rightarrow> Inl InterfaceConversion)
      else if t = TAG_NAMELANG then
        (case v of GNameWithLanguage s \<Rightarrow> Inr (nameWithLanguage_length s) | _ \<Rightarrow> Inl InterfaceConversion)
      else if t = TAG_INTEGER then Inr 4
      else if t = TAG_BOOLEAN then Inr 1
      else if t = TAG_ENUM then Inr 4
      else if t = TAG_CHARSET then
        (case v of GCharset b \<Rightarrow> Inr (of_nat (length b)) | _ \<Rightarrow> Inl InterfaceConversion)
      else if t = TAG_URI then
        (case v of GUri b \<Rightarrow> Inr (of_nat (length b)) | _ \<Rightarrow> Inl InterfaceConversion)
      else Inl NilFuncCall)"

text \<open>The value tag that names each Go value type (\<^verbatim>\<open>src/ipp/constants.go\<close>);
  nil has none.\<close>

fun type_tag :: "gvalue \<Rightarrow> byte option" where
  "type_tag GNil = None"
| "type_tag (GCharset _) = Some TAG_CHARSET"
| "type_tag (GNaturalLanguage _) = Some TAG_LANGUAGE"
| "type_tag (GMimeMediaType _) = Some TAG_MIMETYPE"
| "type_tag (GKeyword _) = Some TAG_KEYWORD"
| "type_tag (GUri _) = Some TAG_URI"
| "type_tag (GUriScheme _) = Some TAG_URISCHEME"
| "type_tag (GTextWithoutLanguage _) = Some TAG_TEXT"
| "type_tag (GNameWithoutLanguage _) = Some TAG_NAME"
| "type_tag (GOctetString _) = Some TAG_STRING"
| "type_tag (GTextWithLanguage _) = Some TAG_TEXTLANG"
| "type_tag (GNameWithLanguage _) = Some TAG_NAMELANG"
| "type_tag (GBoolean _) = Some TAG_BOOLEAN"
| "type_tag (GInteger _) = Some TAG_INTEGER"
| "type_tag (GEnum _) = Some TAG_ENUM"
| "type_tag (GDateTime _) = Some TAG_DATE"
| "type_tag (GResolution _) = Some TAG_RESOLUTION"
| "type_tag (GRangeOfInteger _) = Some TAG_RANGE"

section \<open>Varint decoding of encoding/binary\<close>

text \<open>\<open>binary.Uvarint\<close> reads little-endian base-128 groups until a byte below
  \<open>0x80\<close>; it answers \<open>(0, 0)\<close> when the buffer ends first and \<open>(0, -(i+1))\<close> on
  overflow of 64 bits.  \<open>binary.Varint\<close> undoes the zig-zag encoding:
  \<open>x = ux >> 1\<close>, complemented when the low bit of \<open>ux\<close> is set.\<close>

fun uvarint_aux :: "nat \<Rightarrow> uint64 \<Rightarrow> nat \<Rightarrow> bytes \<Rightarrow> uint64 \<times> int" where
  "uvarint_aux i x s [] = (0, 0)"
| "uvarint_aux i x s (b # bs) =
     (if i = 10 then (0, - int (i + 1))
      else if b < 0x80 then
        (if i = 9 \<and> b > 1 then (0, - int (i + 1)) else (x OR push_bit s (ucast b), int (i + 1)))
      else uvarint_aux (i + 1) (x OR push_bit s (ucast (b AND 0x7f))) (s + 7) bs)"

definition Uvarint :: "bytes \<Rightarrow> uint64 \<times> int" where
  "Uvarint bs = uvarint_aux 0 0 0 bs"

definition Varint :: "bytes \<Rightarrow> int64 \<times> int" where
  "Varint bs = (let (ux, n) = Uvarint bs; x = drop_bit 1 ux in (if bit ux 0 then NOT x else x, n))"

text \<open>\<open>signedByte.UnMarshall\<close> and \<open>signedInteger.UnMarshall\<close> truncate the
  \<open>int64\<close> from \<open>Varint\<close> to 8 and 32 bits.\<close>

definition signedByte_UnMarshall :: "bytes \<Rightarrow> int8" where
  "signedByte_UnMarshall b = ucast (fst (Varint b))"

definition signedInteger_UnMarshall :: "bytes \<Rightarrow> int32" where
  "signedInteger_UnMarshall b = ucast (fst (Varint b))"

section \<open>Varints of one byte\<close>

text \<open>A byte below \<open>0x80\<close> is a complete varint; \<open>binary.Varint\<close> then halves
  it and complements the result when the byte is odd (zig-zag), so that the bytes
  \<open>0, 1, 2, 3\<close> decode to \<open>0, -1, 1, -2\<close>.  A larger byte starts an unfinished
  varint and decodes to 0.\<close>

lemma Uvarint_Cons_small: "b < 0x80 \<Longrightarrow> Uvarint (b # bs) = (ucast b, 1)"
  by (simp add: Uvarint_def)

lemma Uvarint_single: "Uvarint [b] = (if b < 0x80 then (ucast b, 1) else (0, 0))"
  by (simp add: Uvarint_def)

lemma Varint_single:
  "(ucast (fst (Varint [b])) :: byte) =
     (if b < 0x80 then (if bit b 0 then NOT (drop_bit 1 b) else drop_bit 1 b) else 0)"
  by (rule bit_word_eqI) (auto simp: Varint_def Uvarint_single bit_simps)

lemma Varint_Cons_0: "Varint (0 # bs) = (0, 1)"
  by (simp add: Varint_def Uvarint_Cons_small)

section \<open>Lengths against the bytes written\<close>

lemma unat_of_nat_16: "n < 2 ^ 16 \<Longrightarrow> unat (of_nat n :: uint16) = n"
  by (simp add: unsigned_of_nat take_bit_nat_eq_self)

text \<open>C25. The Length closures of refer() against the bytes binary.Write
  appends for the value: for a value of the type its tag names they agree on
  every tag except octetString, dateTime, resolution and the two with-language
  types; they give 9 for the 10 bytes of a dateTime, 11 for the 9 bytes of a
  resolution, and the sum of the stored lengths plus 4 for a textWithLanguage,
  of which binary.Write writes nothing (its fields are slices).\<close>

theorem refer_Length_against_write:
  "(type_tag v = Some t \<and> t \<notin> {0x30, 0x31, 0x32, 0x35, 0x36} \<and> go_write v = Inr bs \<and>
    length bs < 2 ^ 16 \<and> refer_Length t v = Inr l \<longrightarrow> unat l = length bs) \<and>
   refer_Length TAG_DATE (GDateTime d) = Inr 9 \<and> go_write (GDateTime d) = Inr (dateTime_bytes d) \<and>
     length (dateTime_bytes d) = 10 \<and>
   refer_Length TAG_RESOLUTION (GResolution r) = Inr 11 \<and>
     go_write (GResolution r) = Inr (resolution_bytes r) \<and> length (resolution_bytes r) = 9 \<and>
   refer_Length TAG_TEXTLANG (GTextWithLanguage s) = Inr (4 + os_nameLength s + os_valueLength s) \<and>
     go_write (GTextWithLanguage s) = Inr []"
proof (intro conjI impI)
  assume "type_tag v = Some t \<and> t \<notin> {0x30, 0x31, 0x32, 0x35, 0x36} \<and> go_write v = Inr bs \<and>
    length bs < 2 ^ 16 \<and> refer_Length t v = Inr l"
  then show "unat l = length bs"
    by (cases v) (auto simp: refer_Length_def unat_of_nat_16 rangeOfInteger_bytes_def be32_def)
qed (simp_all add: refer_Length_def textWithLanguage_length_def wire_defs)

theorem refer_Length_against_write_witness:
  "type_tag (GKeyword [111, 107]) = Some 0x44 \<and> (0x44 :: byte) \<notin> {0x30, 0x31, 0x32, 0x35, 0x36} \<and>
   go_write (GKeyword [111, 107]) = Inr [111, 107] \<and> length [111 :: byte, 107] < 2 ^ 16 \<and>
   refer_Length 0x44 (GKeyword [111, 107]) = Inr 2 \<and> unat (2 :: uint16) = length [111 :: byte, 107]"
proof -
  have h: "type_tag (GKeyword [111, 107]) = Some 0x44 \<and> (0x44 :: byte) \<notin> {0x30, 0x31, 0x32, 0x35, 0x36} \<and>
    go_write (GKeyword [111, 107]) = Inr [111, 107] \<and> length [111 :: byte, 107] < 2 ^ 16 \<and>
    refer_Length 0x44 (GKeyword [111, 107]) = Inr 2"
    by (simp add: refer_Length_def)
  then show ?thesis
    using refer_Length_against_write [where v = "GKeyword [111, 107]" and t = "0x44" and bs = "[111, 107]" and l = "2"] by simp
qed

lemma refer_Length_NilFuncCall:
  "refer_Length t v = Inl NilFuncCall \<longleftrightarrow>
     t \<notin> {0x21, 0x22, 0x23, 0x30, 0x31, 0x32, 0x33, 0x35, 0x36, 0x44, 0x45, 0x47, 0x48}"
  by (cases v) (auto simp: refer_Length_def)

end
