(* ===== verification/Model.thy ===== *)
theory Model
  imports Values
begin

text \<open>
  The in-memory message of \<^verbatim>\<open>src/ipp/ippMsg.go\<close> and \<^verbatim>\<open>src/ipp/ipp.go\<close>:
  the structs \<open>attributeValue\<close>, \<open>attribute\<close>, \<open>attributeGroup\<close> and \<open>Message\<close>
  as records (the Go names \<open>attribute\<close>, \<open>values\<close> and \<open>value\<close> are Isabelle
  keywords and carry the suffix \<open>_go\<close>), and the builders that mutate them, each
  taking the receiver and returning it updated.  A builder that calls the
  \<open>Length\<close> closure can panic, so it returns a \<open>go\<close> result.  The closure
  fields \<open>Marshal\<close>, \<open>UnMarshal\<close>, \<open>Length\<close> and \<open>String\<close> are not stored:
  they are determined by the tag (\<open>refer_Length\<close>), and the encoder never calls
  them.  The theory also holds \<open>Str\<close> and \<open>UUID4\<close>, with the Go library's
  hexadecimal formatting and \<open>strconv.Atoi\<close> it calls, and proves that
  \<open>UUID4\<close> always fails.
\<close>

section \<open>Records\<close>

record attributeValue =
  valueTag :: byte
  valueTagStr :: string
  nameLength :: int16
  name :: bytes
  valueLength :: uint16
  value_go :: gvalue

record attribute_go =
  values_go :: "attributeValue list"

record attributeGroup =
  beginAttributeGroupTag :: byte
  attributes :: "attribute_go list"

record Message =
  majorVer :: int8
  minorVer :: int8
  operationIdStatusCode :: uint16
  operationOrStatusCode :: byte
  requestId :: int32
  attributeGroups :: "attributeGroup list"
  endAttributeTag :: byte
  Data :: bytes
  IsResponse :: bool

text \<open>The zero value of \<open>attributeValue\<close>, the starting point of \<open>var v attributeValue\<close>.\<close>

definition zero_attributeValue :: attributeValue where
  "zero_attributeValue =
     \<lparr>valueTag = 0, valueTagStr = [], nameLength = 0, name = [], valueLength = 0, value_go = GNil\<rparr>"

section \<open>Messages\<close>

definition newID :: int32 where
  "newID = 1"

definition typeCheck :: "uint16 \<Rightarrow> bool" where
  "typeCheck i = (0 \<le> i \<and> i \<le> 0x7FFF)"

definition newMessage :: "uint16 \<Rightarrow> Message" where
  "newMessage idStatusCode =
     \<lparr>majorVer = MAJOR_VERSION, minorVer = MINOR_VERSION, operationIdStatusCode = idStatusCode,
      operationOrStatusCode = 0, requestId = newID, attributeGroups = [], endAttributeTag = TAG_END,
      Data = [], IsResponse = False\<rparr>"

definition NewMessage :: "uint16 \<Rightarrow> Message" where
  "NewMessage idStatusCode = newMessage idStatusCode"

definition NewRequest :: "uint16 \<Rightarrow> Message" where
  "NewRequest idStatusCode = newMessage idStatusCode"

definition NewResponse :: "uint16 \<Rightarrow> Message" where
  "NewResponse idStatusCode = newMessage idStatusCode"

section \<open>Attributes\<close>

definition NewAttribute :: attribute_go where
  "NewAttribute = \<lparr>values_go = []\<rparr>"

definition newAg :: "attribute_go \<Rightarrow> attributeGroup" where
  "newAg a = \<lparr>beginAttributeGroupTag = TAG_OPERATION, attributes = [a]\<rparr>"

definition appendValue :: "attribute_go \<Rightarrow> attributeValue \<Rightarrow> attribute_go" where
  "appendValue i av = i\<lparr>values_go := values_go i @ [av]\<rparr>"

text \<open>\<open>addValue\<close>: on an attribute that already holds a value the new value is an
  additional value, its name forced empty and its name length 0; on a fresh
  attribute it keeps the name, with \<open>nameLength = int16(len(name))\<close>.  Either way
  \<open>refer()\<close> installs the closures and \<open>valueLength\<close> is set from \<open>Length()\<close>.\<close>

definition addValue :: "attribute_go \<Rightarrow> byte \<Rightarrow> bytes \<Rightarrow> gvalue \<Rightarrow> attribute_go go" where
  "addValue i tag nm value =
     (if length (values_go i) > 0 then
        (let v = zero_attributeValue\<lparr>valueTag := tag, nameLength := 0, value_go := value\<rparr>
         in go_bind (refer_Length tag value)
              (\<lambda>l. Inr (i\<lparr>values_go := values_go i @ [v\<lparr>valueLength := l\<rparr>]\<rparr>)))
      else
        (let vv = zero_attributeValue\<lparr>valueTag := tag, name := nm,
                    nameLength := of_nat (length nm), value_go := value\<rparr>
         in go_bind (refer_Length tag value)
              (\<lambda>l. Inr (i\<lparr>values_go := values_go i @ [vv\<lparr>valueLength := l\<rparr>]\<rparr>))))"

definition AddValue :: "attribute_go \<Rightarrow> byte \<Rightarrow> bytes \<Rightarrow> gvalue \<Rightarrow> attribute_go go" where
  "AddValue i tag nm value = addValue i tag nm value"

definition addAttribute :: "Message \<Rightarrow> byte \<Rightarrow> bytes \<Rightarrow> gvalue \<Rightarrow> Message go" where
  "addAttribute im tag nm value =
     go_bind (addValue NewAttribute tag nm value)
       (\<lambda>attrib. Inr (im\<lparr>attributeGroups := attributeGroups im @ [newAg attrib]\<rparr>))"

definition AddAttribute :: "Message \<Rightarrow> byte \<Rightarrow> bytes \<Rightarrow> gvalue \<Rightarrow> Message go" where
  "AddAttribute im tag nm value = addAttribute im tag nm value"

definition AppendAttribute :: "Message \<Rightarrow> attribute_go \<Rightarrow> Message" where
  "AppendAttribute im attrib = im\<lparr>attributeGroups := attributeGroups im @ [newAg attrib]\<rparr>"

text \<open>A sequence of \<open>AddValue\<close> calls on one attribute, as the request builders
  make them; the first panic ends the sequence.\<close>

fun addValues :: "attribute_go \<Rightarrow> (byte \<times> bytes \<times> gvalue) list \<Rightarrow> attribute_go go" where
  "addValues a [] = Inr a"
| "addValues a ((t, n, v) # cs) = go_bind (AddValue a t n v) (\<lambda>a'. addValues a' cs)"

section \<open>Display and identifiers\<close>

text \<open>\<open>attributeValue.Str()\<close>: the tag's name and the value's name, each followed
  by a dash.\<close>

definition attributeValue_Str :: "attributeValue \<Rightarrow> bytes" where
  "attributeValue_Str a = bstr (valueTagStr a) @ bstr '' - '' @ name a @ bstr '' - ''"

text \<open>\<open>fmt.Sprintf("%x", b)\<close> of a byte slice: two lower-case hexadecimal digits per
  byte.\<close>

definition hex_digit :: "nat \<Rightarrow> char" where
  "hex_digit n = (if n < 10 then char_of (48 + n) else char_of (87 + n))"

definition hex_bytes :: "bytes \<Rightarrow> string" where
  "hex_bytes b = concat (map (\<lambda>w. [hex_digit (unat w div 16), hex_digit (unat w mod 16)]) b)"

text \<open>\<open>strconv.Atoi\<close> of the Go library on a 64-bit platform: an optional sign and
  at least one decimal digit, else a syntax error with result 0; a value out of
  the \<open>int64\<close> range gives the nearest bound and a range error.\<close>

datatype num_error = ErrSyntax | ErrRange

definition is_digit :: "char \<Rightarrow> bool" where
  "is_digit c \<longleftrightarrow> 48 \<le> (of_char c :: nat) \<and> (of_char c :: nat) \<le> 57"

definition digits_val :: "string \<Rightarrow> int" where
  "digits_val ds = foldl (\<lambda>acc c. 10 * acc + (int (of_char c) - 48)) 0 ds"

definition Atoi :: "string \<Rightarrow> int \<times> num_error option" where
  "Atoi s =
     (let (neg, ds) = (case s of [] \<Rightarrow> (False, [])
                        | c # cs \<Rightarrow> if c = CHR ''-'' then (True, cs)
                                   else if c = CHR ''+'' then (False, cs) else (False, s))
      in if ds = [] \<or> \<not> list_all is_digit ds then (0, Some ErrSyntax)
         else let v = (if neg then - digits_val ds else digits_val ds) in
           if v < - (2 ^ 63) then (- (2 ^ 63), Some ErrRange)
           else if 2 ^ 63 - 1 < v then (2 ^ 63 - 1, Some ErrRange)
           else (v, None))"

text \<open>\<open>UUID4()\<close> on the 16 bytes \<open>r\<close> read from \<open>crypto/rand\<close> (a failed read ends
  the process through \<open>log.Fatal\<close>): the version and variant bits are set, the
  bytes are formatted in the five dash-separated groups of a UUID, and the
  string is converted with \<open>strconv.Atoi\<close> and truncated to \<open>int32\<close>.\<close>

definition UUID4 :: "bytes \<Rightarrow> int32 \<times> num_error option" where
  "UUID4 r =
     (let b = r[6 := (r ! 6 AND 0x0F) OR 0x40, 8 := (r ! 8 AND NOT 0x40) OR 0x80];
          str = hex_bytes (take 4 b) @ ''-'' @ hex_bytes (take 2 (drop 4 b)) @ ''-'' @
                hex_bytes (take 2 (drop 6 b)) @ ''-'' @ hex_bytes (take 2 (drop 8 b)) @ ''-'' @
                hex_bytes (drop 10 b);
          (uid, err) = Atoi str
      in (word_of_int uid, err))"

section \<open>The multi-value naming rule\<close>

text \<open>An attribute is well formed when every value after the first is an
  additional value: empty name, name length 0.\<close>

definition attr_wf :: "attribute_go \<Rightarrow> bool" where
  "attr_wf a \<longleftrightarrow> (\<forall>v \<in> set (tl (values_go a)). name v = [] \<and> nameLength v = 0)"

lemma addValue_Inr:
  "addValue i t n x = Inr i' \<longleftrightarrow>
     (\<exists>l. refer_Length t x = Inr l \<and>
          values_go i' = values_go i @
            [zero_attributeValue\<lparr>valueTag := t,
               name := (if values_go i = [] then n else []),
               nameLength := (if values_go i = [] then of_nat (length n) else 0),
               valueLength := l, value_go := x\<rparr>] \<and> i' = i\<lparr>values_go := values_go i'\<rparr>)"
  by (cases "refer_Length t x")
     (auto simp: addValue_def zero_attributeValue_def Let_def)

lemma addValue_Inl: "addValue i t n x = Inl e \<longleftrightarrow> refer_Length t x = Inl e"
  by (cases "refer_Length t x") (auto simp: addValue_def Let_def)

lemma attr_wf_NewAttribute: "attr_wf NewAttribute"
  by (simp add: attr_wf_def NewAttribute_def)

text \<open>C33. Every call of addValue keeps an attribute well formed: whatever name is
  passed, a value added after the first has an empty name and name length 0.\<close>

theorem addValue_keeps_attr_wf:
  assumes "attr_wf a" and "addValue a t n x = Inr a'"
  shows "attr_wf a'"
  using assms by (cases "values_go a") (auto simp: attr_wf_def addValue_Inr zero_attributeValue_def)

theorem addValue_keeps_attr_wf_witness:
  "attr_wf \<lparr>values_go = [zero_attributeValue\<lparr>valueTag := 0x44, name := [65], nameLength := 1\<rparr>]\<rparr> \<and>
   addValue \<lparr>values_go = [zero_attributeValue\<lparr>valueTag := 0x44, name := [65], nameLength := 1\<rparr>]\<rparr>
     0x44 [66] (GKeyword [67]) =
   Inr \<lparr>values_go = [zero_attributeValue\<lparr>valueTag := 0x44, name := [65], nameLength := 1\<rparr>,
                     zero_attributeValue\<lparr>valueTag := 0x44, valueLength := 1, value_go := GKeyword [67]\<rparr>]\<rparr> \<and>
   attr_wf \<lparr>values_go = [zero_attributeValue\<lparr>valueTag := 0x44, name := [65], nameLength := 1\<rparr>,
                     zero_attributeValue\<lparr>valueTag := 0x44, valueLength := 1, value_go := GKeyword [67]\<rparr>]\<rparr>"
proof -
  have h: "attr_wf \<lparr>values_go = [zero_attributeValue\<lparr>valueTag := 0x44, name := [65], nameLength := 1\<rparr>]\<rparr>"
    by (simp add: attr_wf_def)
  have r: "addValue \<lparr>values_go = [zero_attributeValue\<lparr>valueTag := 0x44, name := [65], nameLength := 1\<rparr>]\<rparr>
     0x44 [66] (GKeyword [67]) =
   Inr \<lparr>values_go = [zero_attributeValue\<lparr>valueTag := 0x44, name := [65], nameLength := 1\<rparr>,
                     zero_attributeValue\<lparr>valueTag := 0x44, valueLength := 1, value_go := GKeyword [67]\<rparr>]\<rparr>"
    by (simp add: addValue_def refer_Length_def zero_attributeValue_def)
  from addValue_keeps_attr_wf [OF h r] h r show ?thesis by blast
qed

lemma addValues_names_nonempty:
  "values_go a \<noteq> [] \<Longrightarrow> addValues a cs = Inr a' \<Longrightarrow>
     map (\<lambda>v. (name v, nameLength v)) (values_go a') =
     map (\<lambda>v. (name v, nameLength v)) (values_go a) @ replicate (length cs) ([], 0)"
proof (induction a cs rule: addValues.induct)
  case (1 a)
  then show ?case by simp
next
  case (2 a t n v cs)
  from "2.prems" obtain a1 where a1: "addValue a t n v = Inr a1" and rest: "addValues a1 cs = Inr a'"
    by (auto simp: AddValue_def go_bind_eq_Inr)
  from a1 "2.prems"(1) have vals: "map (\<lambda>v. (name v, nameLength v)) (values_go a1) =
      map (\<lambda>v. (name v, nameLength v)) (values_go a) @ [([], 0)]" and ne: "values_go a1 \<noteq> []"
    by (auto simp: addValue_Inr zero_attributeValue_def)
  have "map (\<lambda>v. (name v, nameLength v)) (values_go a') =
      map (\<lambda>v. (name v, nameLength v)) (values_go a1) @ replicate (length cs) ([], 0)"
    using "2.IH" a1 ne rest by (simp add: AddValue_def)
  then show ?case using vals by (simp add: replicate_append_same)
qed

text \<open>C32. A fresh attribute built by a sequence of AddValue calls carries the
  first call's name, with its length, on its first value, and an empty name of
  length 0 on every later value, whatever names the later calls pass.\<close>

theorem addValues_naming:
  assumes "addValues NewAttribute ((t, n, x) # cs) = Inr a"
  shows "map (\<lambda>v. (name v, nameLength v)) (values_go a) =
           (n, of_nat (length n)) # replicate (length cs) ([], 0)"
proof -
  from assms obtain a1 where a1: "addValue NewAttribute t n x = Inr a1"
    and rest: "addValues a1 cs = Inr a"
    by (auto simp: AddValue_def go_bind_eq_Inr)
  from a1 have first: "map (\<lambda>v. (name v, nameLength v)) (values_go a1) = [(n, of_nat (length n))]"
    and ne: "values_go a1 \<noteq> []"
    by (auto simp: addValue_Inr NewAttribute_def zero_attributeValue_def)
  from addValues_names_nonempty [OF ne rest] first show ?thesis by simp
qed

theorem addValues_naming_witness:
  "addValues NewAttribute
     [(0x44, bstr ''requested-attributes'', GKeyword (bstr ''copies-supported'')),
      (0x44, [], GKeyword (bstr ''printer-state'')),
      (0x44, bstr ''ignored'', GKeyword (bstr ''printer-state-reasons''))] =
   Inr (projr (addValues NewAttribute
     [(0x44, bstr ''requested-attributes'', GKeyword (bstr ''copies-supported'')),
      (0x44, [], GKeyword (bstr ''printer-state'')),
      (0x44, bstr ''ignored'', GKeyword (bstr ''printer-state-reasons''))])) \<and>
   map (\<lambda>v. (name v, nameLength v)) (values_go (projr (addValues NewAttribute
     [(0x44, bstr ''requested-attributes'', GKeyword (bstr ''copies-supported'')),
      (0x44, [], GKeyword (bstr ''printer-state'')),
      (0x44, bstr ''ignored'', GKeyword (bstr ''printer-state-reasons''))]))) =
   [(bstr ''requested-attributes'', 20), ([], 0), ([], 0)]"
proof -
  define a where "a = projr (addValues NewAttribute
     [(0x44, bstr ''requested-attributes'', GKeyword (bstr ''copies-supported'')),
      (0x44, [], GKeyword (bstr ''printer-state'')),
      (0x44, bstr ''ignored'', GKeyword (bstr ''printer-state-reasons''))])"
  have r: "addValues NewAttribute
     [(0x44, bstr ''requested-attributes'', GKeyword (bstr ''copies-supported'')),
      (0x44, [], GKeyword (bstr ''printer-state'')),
      (0x44, bstr ''ignored'', GKeyword (bstr ''printer-state-reasons''))] = Inr a"
    unfolding a_def by code_simp
  from addValues_naming [OF r] r show ?thesis
    by (simp add: a_def [symmetric])
qed

section \<open>Tags without a Length\<close>

text \<open>C24. Adding a value panics with a nil function call exactly when its tag
  has no case in refer(): mimeMediaType, uriScheme, text, name and every tag
  outside the thirteen refer() handles.  A document-format (mimeMediaType)
  value cannot be added to any attribute.\<close>

theorem addValue_nil_Length_iff:
  "addValue i t n x = Inl NilFuncCall \<longleftrightarrow>
     t \<notin> {0x21, 0x22, 0x23, 0x30, 0x31, 0x32, 0x33, 0x35, 0x36, 0x44, 0x45, 0x47, 0x48}"
  by (simp add: addValue_Inl refer_Length_NilFuncCall)

section \<open>UUID4\<close>

lemma hex_digit_not_sign:
  assumes "n < 16"
  shows "hex_digit n \<noteq> CHR ''-'' \<and> hex_digit n \<noteq> CHR ''+''"
proof -
  have "48 \<le> (of_char (hex_digit n) :: nat)"
    using assms by (simp add: hex_digit_def of_char_of)
  then show ?thesis by auto
qed

lemma Atoi_syntax:
  assumes "CHR ''-'' \<in> set (tl s)" and "s \<noteq> []" and "hd s \<noteq> CHR ''-''" and "hd s \<noteq> CHR ''+''"
  shows "Atoi s = (0, Some ErrSyntax)"
proof -
  obtain c cs where s: "s = c # cs" using assms(2) by (cases s) auto
  have "\<not> is_digit CHR ''-''" by (simp add: is_digit_def)
  then have "\<not> list_all is_digit s"
    using assms(1) s by (auto simp: list_all_iff)
  then show ?thesis using assms(3,4) s by (simp add: Atoi_def)
qed

text \<open>C15. UUID4 never returns an identifier: the formatted UUID contains dashes,
  so strconv.Atoi fails with a syntax error on every one of the 16 random
  bytes, and the result is 0 with that error.\<close>

theorem UUID4_fails:
  assumes "length r = 16"
  shows "UUID4 r = (0, Some ErrSyntax)"
proof -
  define b where "b = r[6 := (r ! 6 AND 0x0F) OR 0x40, 8 := (r ! 8 AND NOT 0x40) OR 0x80]"
  obtain w0 ws where t: "take 4 b = w0 # ws"
    using assms by (cases "take 4 b") (auto simp: b_def)
  define str where "str = hex_bytes (take 4 b) @ ''-'' @ hex_bytes (take 2 (drop 4 b)) @ ''-'' @
                hex_bytes (take 2 (drop 6 b)) @ ''-'' @ hex_bytes (take 2 (drop 8 b)) @ ''-'' @
                hex_bytes (drop 10 b)"
  have "unat w0 div 16 < 16"
    using unsigned_less [of w0, where ?'a = nat] by (simp add: less_mult_imp_div_less)
  then have h: "hex_digit (unat w0 div 16) \<noteq> CHR ''-'' \<and> hex_digit (unat w0 div 16) \<noteq> CHR ''+''"
    by (rule hex_digit_not_sign)
  have "Atoi str = (0, Some ErrSyntax)"
    using h by (intro Atoi_syntax) (auto simp: str_def t hex_bytes_def)
  then show ?thesis
    unfolding UUID4_def Let_def b_def [symmetric] str_def [symmetric] by simp
qed

theorem UUID4_fails_witness: "UUID4 (replicate 16 0xAB) = (0, Some ErrSyntax)"
  using UUID4_fails [of "replicate 16 0xAB"] by simp

section \<open>Requests and responses by numeric range\<close>

text \<open>typeCheck, which the decoder uses to set IsResponse, cannot tell a
  request from a response: every IPP and CUPS operation id and every status
  code of constants.go lies in 0..0x7FFF and is accepted, and the operation
  ids 0x0002 to 0x0006 are also status codes.\<close>

theorem typeCheck_codes:
  "list_all (\<lambda>(n, c). typeCheck c) (operation_ids @ cups_operation_ids @ status_codes) \<and>
   set (map snd operation_ids) \<inter> set (map snd status_codes) = {2, 3, 4, 5, 6}"
  by code_simp

end
