(* ===== verification/Iter.thy ===== *)
theory Iter
  imports Prelude
begin

text \<open>
  The byte scanner of \<^verbatim>\<open>src/utils/iter.go\<close>.  The scanner is a record with the Go struct's fields;
  each method takes the record and returns the updated one.  Hex dumps and log
  lines are output only and are not modelled; the \<open>dBug\<close> flag, which decides
  whether the next read dumps the remaining input, is kept, because the dump
  slices \<open>srcIn[mark:]\<close> and could panic.  Go \<open>int\<close>s are \<open>int\<close> here: the
  decoder passes negative lengths to \<open>GetNextN\<close>, and the model has to see them.
  The scanner is proved to refine an abstract cursor (\<open>next_one\<close>,
  \<open>next_n\<close>) over the bytes it has still to read (\<open>rest\<close>).
\<close>

section \<open>The scanner\<close>

record iterator =
  mark :: int
  markEnd :: int
  bRemaining :: int
  srcIn :: bytes
  dBug :: bool

definition NewIterator :: "bytes \<Rightarrow> iterator" where
  "NewIterator b =
     \<lparr>mark = 0, markEnd = int (length b), bRemaining = int (length b), srcIn = b, dBug = False\<rparr>"

definition DeBug :: "iterator \<Rightarrow> iterator" where
  "DeBug i = i\<lparr>dBug := True\<rparr>"

text \<open>\<open>deBug\<close> dumps \<open>srcIn[mark:]\<close> and clears the flag.\<close>

definition deBug :: "iterator \<Rightarrow> iterator go" where
  "deBug i = go_bind (go_slice (srcIn i) (mark i) (int (length (srcIn i))))
                (\<lambda>_. Inr (i\<lparr>dBug := False\<rparr>))"

definition maybe_deBug :: "iterator \<Rightarrow> iterator go" where
  "maybe_deBug i = (if dBug i then deBug i else Inr i)"

text \<open>\<open>GetNextOne\<close> returns the byte at \<open>mark\<close> and advances, or \<open>(0x00, false)\<close>
  when the input is exhausted.  Indexing \<open>srcIn[mark]\<close> panics out of range.\<close>

definition GetNextOne :: "iterator \<Rightarrow> (byte \<times> iterator \<times> bool) go" where
  "GetNextOne i0 = go_bind (maybe_deBug i0) (\<lambda>i.
     if mark i + 1 \<le> markEnd i then
       (if 0 \<le> mark i \<and> mark i < int (length (srcIn i))
        then Inr (srcIn i ! nat (mark i),
                  i\<lparr>mark := mark i + 1, bRemaining := bRemaining i - 1\<rparr>, True)
        else Inl IndexOutOfRange)
     else Inr (0, i, False))"

text \<open>\<open>GetNextN\<close> returns the next \<open>it\<close> bytes and advances; it answers
  \<open>(nil, false)\<close> when fewer remain.  The two success branches of the source
  (\<open>mark+it < markEnd\<close> and \<open>mark+it == markEnd\<close>) do the same thing.  A negative
  \<open>it\<close> passes the first test and the slice \<open>srcIn[markIn:mark]\<close> then panics.\<close>

definition GetNextN :: "iterator \<Rightarrow> int \<Rightarrow> (bytes \<times> iterator \<times> bool) go" where
  "GetNextN i0 it = go_bind (maybe_deBug i0) (\<lambda>i.
     if mark i + it < markEnd i then
       go_bind (go_slice (srcIn i) (mark i) (mark i + it))
         (\<lambda>s. Inr (s, i\<lparr>mark := mark i + it, bRemaining := bRemaining i - it\<rparr>, True))
     else if mark i + it > markEnd i then Inr ([], i, False)
     else
       go_bind (go_slice (srcIn i) (mark i) (mark i + it))
         (\<lambda>s. Inr (s, i\<lparr>mark := mark i + it, bRemaining := bRemaining i - it\<rparr>, True)))"

section \<open>Scanner invariant and the behaviour of its reads\<close>

text \<open>The scanner is well formed when \<open>mark\<close> lies within the input, \<open>markEnd\<close>
  is the input's length and \<open>bRemaining\<close> counts the bytes after \<open>mark\<close>.\<close>

definition iter_inv :: "iterator \<Rightarrow> bool" where
  "iter_inv i \<longleftrightarrow> 0 \<le> mark i \<and> mark i \<le> markEnd i \<and> markEnd i = int (length (srcIn i))
                   \<and> bRemaining i = markEnd i - mark i"

text \<open>The bytes a scanner has still to read.\<close>

definition rest :: "iterator \<Rightarrow> bytes" where
  "rest i = drop (nat (mark i)) (srcIn i)"

text \<open>The abstract scanner: a cursor on the list of bytes still to read.
  Reading one byte takes the head (the byte 0 and false at the end); reading
  \<open>n\<close> bytes takes \<open>n\<close> of them when there are enough, answers no bytes and
  false otherwise, and panics for a negative \<open>n\<close>.\<close>

definition next_one :: "bytes \<Rightarrow> byte \<times> bytes \<times> bool" where
  "next_one xs = (case xs of [] \<Rightarrow> (0, [], False) | b # bs \<Rightarrow> (b, bs, True))"

definition next_n :: "int \<Rightarrow> bytes \<Rightarrow> (bytes \<times> bytes \<times> bool) go" where
  "next_n n xs =
     (if n < 0 then Inl SliceOutOfRange
      else if n \<le> int (length xs) then Inr (take (nat n) xs, drop (nat n) xs, True)
      else Inr ([], xs, False))"

text \<open>The abstraction from a scanner's read result to the cursor's.\<close>

definition abs_read :: "('a \<times> iterator \<times> bool) go \<Rightarrow> ('a \<times> bytes \<times> bool) go" where
  "abs_read r = map_sum id (\<lambda>(x, i', ok). (x, rest i', ok)) r"

lemma iter_inv_NewIterator: "iter_inv (NewIterator b)"
  by (simp add: iter_inv_def NewIterator_def)

lemma iter_inv_DeBug [simp]: "iter_inv (DeBug i) = iter_inv i"
  by (simp add: iter_inv_def DeBug_def)

lemma maybe_deBug_inv:
  "iter_inv i \<Longrightarrow> maybe_deBug i = Inr (i\<lparr>dBug := False\<rparr>)"
  by (auto simp: maybe_deBug_def deBug_def iter_inv_def go_slice_def)

lemma maybe_deBug_frame:
  "maybe_deBug i = Inr i' \<Longrightarrow>
     mark i' = mark i \<and> markEnd i' = markEnd i \<and> srcIn i' = srcIn i \<and> bRemaining i' = bRemaining i"
  by (auto simp: maybe_deBug_def deBug_def go_bind_eq_Inr split: if_splits)

text \<open>The effect of one read on a well-formed scanner, every branch included.\<close>

lemma GetNextOne_inv:
  assumes "iter_inv i"
  shows "GetNextOne i =
    (if mark i < markEnd i
     then Inr (srcIn i ! nat (mark i),
               i\<lparr>dBug := False, mark := mark i + 1, bRemaining := bRemaining i - 1\<rparr>, True)
     else Inr (0, i\<lparr>dBug := False\<rparr>, False))"
  using assms by (auto simp: GetNextOne_def maybe_deBug_inv iter_inv_def)

lemma GetNextN_inv:
  assumes "iter_inv i"
  shows "GetNextN i n =
    (if n < 0 then Inl SliceOutOfRange
     else if mark i + n \<le> markEnd i
     then Inr (take (nat n) (drop (nat (mark i)) (srcIn i)),
               i\<lparr>dBug := False, mark := mark i + n, bRemaining := bRemaining i - n\<rparr>, True)
     else Inr ([], i\<lparr>dBug := False\<rparr>, False))"
  using assms by (auto simp: GetNextN_def maybe_deBug_inv iter_inv_def go_slice_def)

text \<open>Frame and progress facts that hold without the invariant; the decoder's
  termination rests on them.\<close>

lemma GetNextOne_progress:
  "GetNextOne i = Inr (b, i', ok) \<Longrightarrow>
     markEnd i' = markEnd i \<and> srcIn i' = srcIn i \<and>
     (if ok then mark i' = mark i + 1 \<and> mark i' \<le> markEnd i else mark i' = mark i \<and> b = 0)"
  by (auto simp: GetNextOne_def go_bind_eq_Inr dest!: maybe_deBug_frame split: if_splits)

lemma GetNextN_progress:
  "GetNextN i n = Inr (s, i', ok) \<Longrightarrow>
     markEnd i' = markEnd i \<and> srcIn i' = srcIn i \<and> mark i \<le> mark i'"
  by (auto simp: GetNextN_def go_bind_eq_Inr go_slice_def dest!: maybe_deBug_frame split: if_splits)

lemma GetNextOne_keeps_inv:
  "iter_inv i \<Longrightarrow> GetNextOne i = Inr (b, i', ok) \<Longrightarrow> iter_inv i' \<and> srcIn i' = srcIn i"
  by (auto simp: GetNextOne_inv iter_inv_def split: if_splits)

lemma GetNextN_keeps_inv:
  "iter_inv i \<Longrightarrow> GetNextN i n = Inr (bs, i', ok) \<Longrightarrow> iter_inv i' \<and> srcIn i' = srcIn i"
  by (auto simp: GetNextN_inv iter_inv_def split: if_splits)

text \<open>Reads in terms of the bytes still to read: a read of the next byte, or of
  the next \<open>length xs\<close> bytes, returns exactly those bytes and leaves the rest.\<close>

lemma rest_DeBug [simp]: "rest (DeBug i) = rest i"
  by (simp add: rest_def DeBug_def)

lemma rest_NewIterator [simp]: "rest (NewIterator b) = b"
  by (simp add: rest_def NewIterator_def)

lemma GetNextOne_rest:
  assumes "iter_inv i" and "rest i = b # bs"
  obtains i' where "GetNextOne i = Inr (b, i', True)" and "iter_inv i'" and "rest i' = bs"
proof -
  have lt: "nat (mark i) < length (srcIn i)"
    using assms(2) unfolding rest_def by (metis drop_eq_Nil list.distinct(1) not_le)
  then have "mark i < markEnd i"
    using assms(1) by (auto simp: iter_inv_def)
  moreover have "srcIn i ! nat (mark i) = b" and "drop (Suc (nat (mark i))) (srcIn i) = bs"
    using assms(2) lt by (auto simp: rest_def Cons_nth_drop_Suc [symmetric])
  ultimately show ?thesis
    using assms(1) that
    by (auto simp: GetNextOne_inv iter_inv_def rest_def Suc_nat_eq_nat_zadd1 add.commute)
qed

lemma GetNextOne_rest_Nil:
  assumes "iter_inv i" and "rest i = []"
  shows "GetNextOne i = Inr (0, i\<lparr>dBug := False\<rparr>, False)"
proof -
  have "\<not> mark i < markEnd i"
    using assms by (auto simp: rest_def iter_inv_def)
  with assms(1) show ?thesis
    by (simp add: GetNextOne_inv)
qed

lemma GetNextN_rest:
  assumes "iter_inv i" and "rest i = xs @ ys"
  obtains i' where "GetNextN i (int (length xs)) = Inr (xs, i', True)" and "iter_inv i'"
    and "rest i' = ys"
proof -
  have m: "0 \<le> mark i" "markEnd i = int (length (srcIn i))" "int (nat (mark i)) = mark i"
    using assms(1) by (auto simp: iter_inv_def)
  have n: "nat (mark i) \<le> length (srcIn i)"
    using assms(1) by (auto simp: iter_inv_def nat_le_iff)
  have "length (srcIn i) - nat (mark i) = length xs + length ys"
    using assms(2) by (metis length_append length_drop rest_def)
  with n have "nat (mark i) + length xs \<le> length (srcIn i)"
    by linarith
  then have le: "mark i + int (length xs) \<le> markEnd i"
    by (metis m(2) m(3) of_nat_add of_nat_le_iff)
  have tk: "take (length xs) (drop (nat (mark i)) (srcIn i)) = xs"
    and dr: "drop (nat (mark i) + length xs) (srcIn i) = ys"
    using assms(2) by (simp_all add: rest_def add.commute flip: drop_drop)
  show ?thesis
  proof (rule that)
    show "GetNextN i (int (length xs)) =
      Inr (xs, i\<lparr>dBug := False, mark := mark i + int (length xs),
                 bRemaining := bRemaining i - int (length xs)\<rparr>, True)"
      using assms(1) le tk by (simp add: GetNextN_inv)
    show "iter_inv (i\<lparr>dBug := False, mark := mark i + int (length xs),
                 bRemaining := bRemaining i - int (length xs)\<rparr>)"
      using assms(1) le by (simp add: iter_inv_def)
    show "rest (i\<lparr>dBug := False, mark := mark i + int (length xs),
                 bRemaining := bRemaining i - int (length xs)\<rparr>) = ys"
      using m(1) dr by (simp add: rest_def nat_add_distrib)
  qed
qed

text \<open>C16. Refinement of the abstract cursor by the scanner: on a well-formed
  scanner, GetNextOne and GetNextN return what next_one and next_n return on
  the bytes still to read, and leave the scanner on the bytes the cursor
  keeps; GetNextN panics exactly where next_n does.\<close>

theorem scanner_refines_cursor:
  "iter_inv i \<Longrightarrow>
     abs_read (GetNextOne i) = Inr (next_one (rest i)) \<and> abs_read (GetNextN i n) = next_n n (rest i)"
proof -
  assume inv: "iter_inv i"
  then have m: "0 \<le> mark i" "markEnd i = int (length (srcIn i))" "nat (mark i) \<le> length (srcIn i)"
    by (auto simp: iter_inv_def nat_le_iff)
  have one: "abs_read (GetNextOne i) = Inr (next_one (rest i))"
  proof (cases "rest i")
    case Nil
    then show ?thesis
      using inv by (simp add: GetNextOne_rest_Nil abs_read_def next_one_def rest_def)
  next
    case (Cons b bs)
    obtain i' where "GetNextOne i = Inr (b, i', True)" and "rest i' = bs"
      using GetNextOne_rest [OF inv Cons] by blast
    then show ?thesis by (simp add: abs_read_def next_one_def Cons)
  qed
  have n: "abs_read (GetNextN i n) = next_n n (rest i)"
    using m by (auto simp: GetNextN_inv [OF inv] abs_read_def next_n_def rest_def drop_drop
        nat_add_distrib add.commute of_nat_diff)
  from one n show ?thesis ..
qed

theorem scanner_refines_cursor_witness:
  "abs_read (GetNextOne (NewIterator [1, 2, 3])) = Inr (1, [2, 3], True) \<and>
   abs_read (GetNextN (NewIterator [1, 2, 3]) 2) = Inr ([1, 2], [3], True)"
  using scanner_refines_cursor [OF iter_inv_NewIterator, of "[1, 2, 3]" 2]
  by (simp add: next_one_def next_n_def)

end
