(* ===== verification/Counter.thy ===== *)
theory Counter
  imports Prelude
begin

text \<open>
  The step counter of \<^verbatim>\<open>src/utils/util.go\<close>.  Its integer part (\<open>end\<close>,
  \<open>current\<close>, \<open>by\<close>, \<open>finished\<close>) is the record \<open>counter\<close>, the part the decoder
  reads; the Go struct is its extension \<open>clocked_counter\<close> with the three
  timestamps and the closure field \<open>fc\<close>.  The comparison methods are generic
  over every extension of \<open>counter\<close>; the methods that read the clock take its
  reading \<open>now\<close> as an argument.  An instant is an \<open>int\<close> count of nanoseconds
  since Go's zero \<open>time.Time\<close>, so the zero value of a \<open>time.Time\<close> field is 0
  and every clock reading is non-negative.  Rule induction over the counters
  the methods can reach shows that \<open>stopTime\<close> stays zero, so the clock never
  decides \<open>Finished\<close>.
\<close>

section \<open>The counter record\<close>

text \<open>The fields \<open>end\<close> and \<open>by\<close> are \<open>end_go\<close> and \<open>by_go\<close>, and the methods
  \<open>plus\<close>, \<open>minus\<close> and \<open>Max\<close> are \<open>plus_go\<close>, \<open>minus_go\<close> and \<open>Max_go\<close> (the plain
  names are Isabelle keywords or constants).  A nil \<open>fc\<close> is \<open>None\<close>.\<close>

type_synonym go_instant = int

record counter =
  end_go :: int
  current :: int
  by_go :: int
  finished :: bool

record 'f clocked_counter = counter +
  startTime :: go_instant
  endTime :: go_instant
  stopTime :: go_instant
  fc :: "'f option"

text \<open>\<open>t.After(u)\<close> of \<open>time.Time\<close>.\<close>

definition After :: "go_instant \<Rightarrow> go_instant \<Rightarrow> bool" where
  "After t u = (u < t)"

section \<open>Methods\<close>

text \<open>\<open>Start\<close> sets the step and zeroes the count; the clocked \<open>StartAt\<close> adds
  the clock reading as \<open>startTime\<close>, the other fields keeping their zero values.\<close>

definition Start :: "int \<Rightarrow> counter" where
  "Start i = \<lparr>end_go = 0, current = 0, by_go = i, finished = False\<rparr>"

definition StartAt :: "int \<Rightarrow> go_instant \<Rightarrow> 'f clocked_counter" where
  "StartAt i now = counter.extend (Start i) (clocked_counter.fields now 0 0 None)"

definition Finished :: "'f clocked_counter \<Rightarrow> go_instant \<Rightarrow> bool \<times> 'f clocked_counter" where
  "Finished c now =
     (let c1 = (if After (stopTime c) now then c\<lparr>finished := True\<rparr> else c);
          c2 = (if current c1 \<ge> end_go c1 then c1\<lparr>finished := True\<rparr> else c1)
      in (finished c2, c2))"

definition plus_go :: "'f clocked_counter \<Rightarrow> go_instant \<Rightarrow> bool \<times> 'f clocked_counter" where
  "plus_go c now = Finished (c\<lparr>current := current c + by_go c\<rparr>) now"

definition minus_go :: "'f clocked_counter \<Rightarrow> go_instant \<Rightarrow> bool \<times> 'f clocked_counter" where
  "minus_go c now = Finished (c\<lparr>current := current c - by_go c\<rparr>) now"

definition Get :: "'a counter_scheme \<Rightarrow> int" where
  "Get c = current c"

definition SetEnd :: "'f clocked_counter \<Rightarrow> go_instant \<Rightarrow> 'f clocked_counter" where
  "SetEnd c t = c\<lparr>endTime := t\<rparr>"

definition Max_go :: "'a counter_scheme \<Rightarrow> int \<Rightarrow> 'a counter_scheme" where
  "Max_go c i = c\<lparr>end_go := i\<rparr>"

definition GT :: "'a counter_scheme \<Rightarrow> int \<Rightarrow> bool" where
  "GT c i = (current c > i)"

definition GTEq :: "'a counter_scheme \<Rightarrow> int \<Rightarrow> bool" where
  "GTEq c i = (current c \<ge> i)"

definition LT :: "'a counter_scheme \<Rightarrow> int \<Rightarrow> bool" where
  "LT c i = (current c < i)"

definition LTEq :: "'a counter_scheme \<Rightarrow> int \<Rightarrow> bool" where
  "LTEq c i = (current c \<le> i)"

definition Eq :: "'a counter_scheme \<Rightarrow> int \<Rightarrow> bool" where
  "Eq c i = (current c \<le> i)"

definition Lp :: "'f clocked_counter \<Rightarrow> 'f \<Rightarrow> int \<Rightarrow> 'f clocked_counter" where
  "Lp c f i = c\<lparr>fc := Some f, end_go := i\<rparr>"

definition Plus :: "'f clocked_counter \<Rightarrow> go_instant \<Rightarrow> bool \<times> 'f clocked_counter" where
  "Plus c now = plus_go c now"

definition Minus :: "'f clocked_counter \<Rightarrow> go_instant \<Rightarrow> bool \<times> 'f clocked_counter" where
  "Minus c now = plus_go c now"

section \<open>The counters the methods reach\<close>

text \<open>A counter is reachable when \<open>Start\<close> made it and every later call was
  one of its mutating methods, with any arguments and any clock reading.\<close>

inductive counter_reach :: "'f clocked_counter \<Rightarrow> bool" where
  start: "counter_reach (StartAt i now)"
| finished: "counter_reach c \<Longrightarrow> counter_reach (snd (Finished c now))"
| plus: "counter_reach c \<Longrightarrow> counter_reach (snd (plus_go c now))"
| minus: "counter_reach c \<Longrightarrow> counter_reach (snd (minus_go c now))"
| setEnd: "counter_reach c \<Longrightarrow> counter_reach (SetEnd c t)"
| max: "counter_reach c \<Longrightarrow> counter_reach (Max_go c i)"
| lp: "counter_reach c \<Longrightarrow> counter_reach (Lp c f i)"

section \<open>Properties of the counter\<close>

lemma StartAt_fields [simp]:
  "counter.truncate (StartAt i now) = Start i" "stopTime (StartAt i now) = 0"
  "startTime (StartAt i now) = now" "fc (StartAt i now) = None"
  by (simp_all add: StartAt_def Start_def counter.defs clocked_counter.defs)

lemma Finished_keeps_clock [simp]:
  "stopTime (snd (Finished c now)) = stopTime c"
  by (simp add: Finished_def Let_def)

text \<open>No method writes \<open>stopTime\<close>: it keeps its zero value on every
  reachable counter.\<close>

lemma counter_reach_stopTime:
  "counter_reach c \<Longrightarrow> stopTime c = 0"
  by (induction rule: counter_reach.induct)
     (simp_all add: plus_go_def minus_go_def SetEnd_def Max_go_def Lp_def)

text \<open>With a zero \<open>stopTime\<close> and a clock reading after the zero time,
  \<open>Finished\<close> is the comparison of \<open>current\<close> with \<open>end\<close> alone.\<close>

lemma Finished_zero_stop:
  assumes "stopTime c = 0" and "0 \<le> now"
  shows "Finished c now = (finished c \<or> end_go c \<le> current c,
                           c\<lparr>finished := finished c \<or> end_go c \<le> current c\<rparr>)"
  using assms by (auto simp: Finished_def After_def Let_def)


text \<open>C35. On every counter the methods can reach, the clock plays no part:
  Finished gives the same answer and the same counter at any two clock readings
  after the zero time.  Minus advances the counter by its step, exactly as Plus
  does, and Eq is a less-or-equal test.\<close>

theorem counter_clock_irrelevant:
  assumes "counter_reach c" and "0 \<le> now" and "0 \<le> now'"
  shows "Finished c now = Finished c now' \<and> Minus c now = Plus c now \<and>
         Get (snd (Minus c now)) = Get c + by_go c \<and> Eq c i = LTEq c i"
proof -
  have stop: "stopTime c = 0" using assms(1) by (rule counter_reach_stopTime)
  then have "Finished c now = Finished c now'"
    using assms(2,3) by (simp add: Finished_zero_stop)
  moreover have "Get (snd (Minus c now)) = Get c + by_go c"
    by (simp add: Minus_def plus_go_def Finished_def Let_def Get_def)
  ultimately show ?thesis
    by (simp add: Minus_def Plus_def Eq_def LTEq_def)
qed

theorem counter_clock_irrelevant_witness:
  "counter_reach (StartAt 1 5 :: unit clocked_counter) \<and> (0::int) \<le> 5 \<and> (0::int) \<le> 7 \<and>
   Finished (StartAt 1 5 :: unit clocked_counter) 5 = Finished (StartAt 1 5) 7 \<and>
   Minus (StartAt 1 5 :: unit clocked_counter) 5 = Plus (StartAt 1 5) 5 \<and>
   Get (snd (Minus (StartAt 1 5 :: unit clocked_counter) 5)) = Get (StartAt 1 5 :: unit clocked_counter) + by_go (StartAt 1 5 :: unit clocked_counter) \<and>
   Eq (StartAt 1 5 :: unit clocked_counter) 0 = LTEq (StartAt 1 5 :: unit clocked_counter) 0"
proof -
  have r: "counter_reach (StartAt 1 5 :: unit clocked_counter)" by (rule counter_reach.start)
  have n: "0 \<le> (5::int)" "0 \<le> (7::int)" by simp_all
  from r n show ?thesis using counter_clock_irrelevant [OF r n, where i = 0] by blast
qed

end
