(* ===== verification/Parse.thy ===== *)
theory Parse
  imports Model Iter Counter "HOL-Library.Sublist"
begin

text \<open>
  The decoder of \<^verbatim>\<open>src/ipp/unMarshall.go\<close>.  \<open>UnMarshallattribute\<close>
  decodes one value by its tag; \<open>splitAValues\<close> scans the attribute section
  with the byte scanner of \<^verbatim>\<open>src/utils/iter.go\<close>; \<open>ParseMessage\<close> reads the
  header and hands the rest to \<open>splitAValues\<close>.  The loop of \<open>splitAValues\<close> is
  a step function \<open>split_step\<close> on a record of the loop's variables (the scanner,
  the open group \<open>ag\<close>, the pending attribute \<open>v\<close>, the closed groups \<open>ags\<close> and
  the last tag \<open>vTag\<close>); it returns the next state and whether the loop goes on
  (\<open>False\<close> for a \<open>break\<close>).  \<open>splitLoop\<close> runs it while \<open>vTag \<noteq> TAG_END\<close>;
  it terminates because every step that continues consumes at least one byte.
  The counter \<open>one\<close>, which only feeds a log line, is not modelled; the counter
  \<open>cnt\<close> is, because it guards the only code that closes a pending attribute.
\<close>

section \<open>Decoding one value\<close>

definition ippBoolean_UnMarshalIPP :: "bytes \<Rightarrow> int8" where
  "ippBoolean_UnMarshalIPP b = signedByte_UnMarshall b"

definition enum_UnMarshalIPP :: "bytes \<Rightarrow> int32" where
  "enum_UnMarshalIPP b = ucast (fst (Varint b))"

definition rangeOfInteger_UnMarshalIPP :: "bytes \<Rightarrow> rangeOfInteger" where
  "rangeOfInteger_UnMarshalIPP b =
     \<lparr>lowerBound = signedInteger_UnMarshall b, upperBound = signedInteger_UnMarshall b\<rparr>"

text \<open>Each case sets the tag, its name and the closures, then calls
  \<open>a.UnMarshal(bts)\<close>.  The closures of integer, octetString, dateTime,
  resolution and the with-language types assert the type of the still nil
  \<open>a.value\<close> and panic; a tag without a case leaves \<open>UnMarshal\<close> nil.\<close>

definition UnMarshallattribute :: "byte \<Rightarrow> bytes \<Rightarrow> attributeValue go" where
  "UnMarshallattribute bi bts =
     (let a = zero_attributeValue in
      if bi = 0x21 then Inl InterfaceConversion
      else if bi = 0x22 then
        Inr (a\<lparr>valueTag := TAG_BOOLEAN, valueTagStr := ''TAG_BOOLEAN'',
               value_go := GBoolean (ippBoolean_UnMarshalIPP bts)\<rparr>)
      else if bi = 0x23 then
        Inr (a\<lparr>valueTag := TAG_ENUM, valueTagStr := ''TAG_ENUM'',
               value_go := GEnum (enum_UnMarshalIPP bts)\<rparr>)
      else if bi = 0x30 then Inl InterfaceConversion
      else if bi = 0x31 then Inl InterfaceConversion
      else if bi = 0x32 then Inl InterfaceConversion
      else if bi = 0x33 then
        Inr (a\<lparr>valueTag := TAG_RANGE, valueTagStr := ''TAG_RANGE'',
               value_go := GRangeOfInteger (rangeOfInteger_UnMarshalIPP bts)\<rparr>)
      else if bi = 0x35 then Inl InterfaceConversion
      else if bi = 0x36 then Inl InterfaceConversion
      else if bi = 0x47 then
        Inr (a\<lparr>valueTag := TAG_CHARSET, valueTagStr := ''TAG_CHARSET'', value_go := GCharset bts\<rparr>)
      else if bi = 0x48 then
        Inr (a\<lparr>valueTag := TAG_LANGUAGE, valueTagStr := ''TAG_LANGUAGE'',
               value_go := GNaturalLanguage bts\<rparr>)
      else if bi = 0x44 then
        Inr (a\<lparr>valueTag := TAG_KEYWORD, valueTagStr := ''TAG_KEYWORD'', value_go := GKeyword bts\<rparr>)
      else if bi = 0x49 then
        Inr (a\<lparr>valueTag := TAG_MIMETYPE, valueTagStr := ''TAG_MIMETYPE'',
               value_go := GMimeMediaType bts\<rparr>)
      else Inl NilFuncCall)"

section \<open>The scanning loop\<close>

record splitState =
  sIt :: iterator
  sAg :: attributeGroup
  sV :: attribute_go
  sAgs :: "attributeGroup list"
  sVTag :: byte

text \<open>The block for a value tag with a non-zero name length (a named value):
  \<open>s\<close> is the state at the top of the pass, \<open>s1\<close> the state after the tag was
  read, \<open>it2\<close> the scanner after the name length.  The block that would close the
  pending attribute \<open>v\<close> first is guarded by \<open>cnt.GTEq(1)\<close> on a counter just
  started at 0.  A failed read is a \<open>break\<close>; a negative length makes \<open>GetNextN\<close>
  panic.  The decoded value, with its name, is appended to \<open>v\<close>.\<close>

definition split_named :: "splitState \<Rightarrow> splitState \<Rightarrow> iterator \<Rightarrow> int16 \<Rightarrow> (splitState \<times> bool) go" where
  "split_named s s1 it2 nLength =
     (let cnt = Start 1;
          (ag', v') = (if GTEq cnt 1
                       then (sAg s\<lparr>attributes := attributes (sAg s) @ [sV s]\<rparr>, NewAttribute)
                       else (sAg s, sV s));
          s2 = s1\<lparr>sIt := it2, sAg := ag', sV := v'\<rparr>
      in go_bind (GetNextN it2 (sint nLength)) (\<lambda>(n, it3, ok3).
           if \<not> ok3 then Inr (s2\<lparr>sIt := it3\<rparr>, False)
           else go_bind (GetNextN it3 2) (\<lambda>(x', it4, ok4).
             if \<not> ok4 then Inr (s2\<lparr>sIt := it4\<rparr>, False)
             else go_bind (GetNextN (DeBug it4) (sint (dec16 x'))) (\<lambda>(value, it5, ok5).
               if \<not> ok5 then Inr (s2\<lparr>sIt := it5\<rparr>, False)
               else go_bind (UnMarshallattribute (sVTag s1) value) (\<lambda>av.
                 Inr (s2\<lparr>sIt := it5,
                         sV := appendValue v' (av\<lparr>name := n, nameLength := nLength\<rparr>)\<rparr>, True))))))"

text \<open>The block for a zero name length (an additional value): the decoded value,
  with an empty name, is appended to the pending attribute.\<close>

definition split_additional :: "splitState \<Rightarrow> splitState \<Rightarrow> iterator \<Rightarrow> (splitState \<times> bool) go" where
  "split_additional s s1 it2 =
     go_bind (GetNextN it2 2) (\<lambda>(x', it4, ok4).
       if \<not> ok4 then Inr (s1\<lparr>sIt := it4\<rparr>, False)
       else go_bind (GetNextN it4 (sint (dec16 x'))) (\<lambda>(value, it5, ok5).
         if \<not> ok5 then Inr (s1\<lparr>sIt := it5\<rparr>, False)
         else go_bind (UnMarshallattribute (sVTag s1) value) (\<lambda>av.
           Inr (s1\<lparr>sIt := it5, sV := appendValue (sV s) (av\<lparr>name := []\<rparr>)\<rparr>, True))))"

text \<open>One pass of the loop body.  A delimiter closes the open group, appending
  the pending attribute \<open>v\<close> to it (\<open>v\<close> is not reset), and opens a new one.
  A failed tag read (which yields the byte 0, not a delimiter) breaks; otherwise
  the name length is read and decides between the two blocks above.\<close>

definition split_step :: "splitState \<Rightarrow> (splitState \<times> bool) go" where
  "split_step s = go_bind (GetNextOne (DeBug (sIt s))) (\<lambda>(vTag, it1, ok).
     let s1 = s\<lparr>sIt := it1, sVTag := vTag\<rparr> in
     if isDelimiter vTag then
       Inr (s1\<lparr>sAgs := sAgs s @ [sAg s\<lparr>attributes := attributes (sAg s) @ [sV s]\<rparr>],
               sAg := \<lparr>beginAttributeGroupTag = vTag, attributes = []\<rparr>\<rparr>, True)
     else if \<not> ok then Inr (s1, False)
     else go_bind (GetNextN it1 2) (\<lambda>(x, it2, ok2).
       if \<not> ok2 then Inr (s1\<lparr>sIt := it2\<rparr>, False)
       else if dec16 x \<noteq> 0 then split_named s s1 it2 (dec16 x)
       else split_additional s s1 it2))"

definition split_measure :: "splitState \<Rightarrow> nat" where
  "split_measure s = nat (markEnd (sIt s) - mark (sIt s))"

lemma DeBug_frame [simp]:
  "mark (DeBug i) = mark i" "markEnd (DeBug i) = markEnd i" "srcIn (DeBug i) = srcIn i"
  by (simp_all add: DeBug_def)

lemma split_step_progress:
  assumes "split_step s = Inr (s', True)"
  shows "split_measure s' < split_measure s"
proof -
  from assms obtain vTag it1 ok where
    one: "GetNextOne (DeBug (sIt s)) = Inr (vTag, it1, ok)"
    by (auto simp: split_step_def go_bind_eq_Inr)
  from GetNextOne_progress [OF one]
  have e1: "markEnd it1 = markEnd (sIt s)"
    and m1: "ok \<longrightarrow> mark it1 = mark (sIt s) + 1 \<and> mark it1 \<le> markEnd (sIt s)"
    and z: "\<not> ok \<longrightarrow> vTag = 0"
    by (auto split: if_splits)
  have ok: ok
    using assms one z by (cases ok) (auto simp: split_step_def checkGroupTag_def Let_def)
  have "markEnd (sIt s') = markEnd it1 \<and> mark it1 \<le> mark (sIt s')"
    using assms one ok
    by (auto simp: split_step_def split_named_def split_additional_def go_bind_eq_Inr Let_def
             split: if_splits prod.splits dest!: GetNextN_progress)
  with e1 m1 ok show ?thesis
    by (simp add: split_measure_def)
qed

function splitLoop :: "splitState \<Rightarrow> splitState go" where
  "splitLoop s =
     (if sVTag s = TAG_END then Inr s
      else case split_step s of
             Inl e \<Rightarrow> Inl e
           | Inr (s', cont) \<Rightarrow> if cont then splitLoop s' else Inr s')"
  by pat_completeness auto
termination
  by (relation "measure split_measure") (auto intro: split_step_progress)

declare splitLoop.simps [simp del]

text \<open>\<open>splitAValues\<close>: the first byte opens the first group (whatever it is);
  after the loop the open group is appended.\<close>

definition split_init :: "byte \<Rightarrow> iterator \<Rightarrow> splitState" where
  "split_init bt it =
     \<lparr>sIt = it, sAg = \<lparr>beginAttributeGroupTag = bt, attributes = []\<rparr>, sV = NewAttribute,
      sAgs = [], sVTag = 0\<rparr>"

definition splitAValues :: "bytes \<Rightarrow> attributeGroup list go" where
  "splitAValues b =
     go_bind (GetNextOne (NewIterator b)) (\<lambda>(bt, it, ok).
       go_bind (splitLoop (split_init bt it)) (\<lambda>s. Inr (sAgs s @ [sAg s])))"

section \<open>The header\<close>

text \<open>\<open>ParseMessage\<close> reads the version bytes with \<open>binary.Varint\<close> (a zig-zag
  decoding of one byte), only the low byte \<open>b[3]\<close> of the operation/status field
  with \<open>binary.Uvarint\<close>, and the request id with \<open>binary.Varint\<close> of four bytes;
  \<open>IsResponse\<close> is \<open>typeCheck\<close> of the field.  \<open>Data\<close> and \<open>endAttributeTag\<close>
  keep their zero values.  An input shorter than 8 bytes panics on the slice
  \<open>b[4:8]\<close>.\<close>

definition ParseMessage :: "bytes \<Rightarrow> Message go" where
  "ParseMessage b =
     (if length b < 8 then Inl SliceOutOfRange
      else
        let ii = fst (Uvarint [b ! 3]) in
        go_bind (splitAValues (drop 8 b)) (\<lambda>ags.
          Inr \<lparr>majorVer = ucast (fst (Varint [b ! 0])),
               minorVer = ucast (fst (Varint [b ! 1])),
               operationIdStatusCode = ucast ii,
               operationOrStatusCode = 0,
               requestId = ucast (fst (Varint (take 4 (drop 4 b)))),
               attributeGroups = ags,
               endAttributeTag = 0,
               Data = [],
               IsResponse = typeCheck (ucast ii)\<rparr>))"

section \<open>Invariants of the scanning loop\<close>

lemma cnt_never_GTEq [simp]: "GTEq (Start 1) 1 = False"
  by (simp add: GTEq_def Start_def)

text \<open>A property that every step keeps holds of the loop's final state.\<close>

lemma splitLoop_rule:
  assumes "splitLoop s = Inr s'" and "P s"
    and step: "\<And>s s' c. P s \<Longrightarrow> split_step s = Inr (s', c) \<Longrightarrow> P s'"
  shows "P s'"
  using assms(1,2)
proof (induction s rule: splitLoop.induct)
  case (1 s)
  show ?case
  proof (cases "sVTag s = TAG_END")
    case True
    with "1.prems" show ?thesis by (simp add: splitLoop.simps [of s])
  next
    case False
    with "1.prems"(1) obtain s1 c where st: "split_step s = Inr (s1, c)"
      and rest: "(if c then splitLoop s1 else Inr s1) = Inr s'"
      by (auto simp: splitLoop.simps [of s] split: sum.splits)
    from step [OF "1.prems"(2) st] have "P s1" .
    show ?thesis
    proof (cases c)
      case True
      with rest have "splitLoop s1 = Inr s'" by simp
      with "1.IH" [OF False st refl] True \<open>P s1\<close> show ?thesis by blast
    next
      case False
      with rest \<open>P s1\<close> show ?thesis by simp
    qed
  qed
qed

text \<open>What one step does to the groups and the pending attribute: nothing, an
  appended value, or the closing of the open group with the pending attribute.\<close>

lemma split_named_cases:
  assumes "split_named s (s\<lparr>sIt := it1, sVTag := t\<rparr>) it2 nl = Inr (s', c)"
  shows "sAgs s' = sAgs s \<and> sAg s' = sAg s \<and> sVTag s' = t \<and>
         (sV s' = sV s \<or> (\<exists>av. sV s' = appendValue (sV s) av))"
  using assms
  by (auto simp: split_named_def go_bind_eq_Inr Let_def split: if_splits prod.splits)

lemma split_additional_cases:
  assumes "split_additional s (s\<lparr>sIt := it1, sVTag := t\<rparr>) it2 = Inr (s', c)"
  shows "sAgs s' = sAgs s \<and> sAg s' = sAg s \<and> sVTag s' = t \<and>
         (sV s' = sV s \<or> (\<exists>av. sV s' = appendValue (sV s) av))"
  using assms
  by (auto simp: split_additional_def go_bind_eq_Inr split: if_splits prod.splits)

lemma split_step_cases:
  assumes "split_step s = Inr (s', c)"
  shows "(sAgs s' = sAgs s \<and> sAg s' = sAg s \<and> (sV s' = sV s \<or> (\<exists>av. sV s' = appendValue (sV s) av)))
         \<or> (sAgs s' = sAgs s @ [sAg s\<lparr>attributes := attributes (sAg s) @ [sV s]\<rparr>]
            \<and> sAg s' = \<lparr>beginAttributeGroupTag = sVTag s', attributes = []\<rparr> \<and> sV s' = sV s)"
proof -
  from assms obtain vTag it1 ok where
    one: "GetNextOne (DeBug (sIt s)) = Inr (vTag, it1, ok)" and
    rest: "(let s1 = s\<lparr>sIt := it1, sVTag := vTag\<rparr> in
     if isDelimiter vTag then
       Inr (s1\<lparr>sAgs := sAgs s @ [sAg s\<lparr>attributes := attributes (sAg s) @ [sV s]\<rparr>],
               sAg := \<lparr>beginAttributeGroupTag = vTag, attributes = []\<rparr>\<rparr>, True)
     else if \<not> ok then Inr (s1, False)
     else go_bind (GetNextN it1 2) (\<lambda>(x, it2, ok2).
       if \<not> ok2 then Inr (s1\<lparr>sIt := it2\<rparr>, False)
       else if dec16 x \<noteq> 0 then split_named s s1 it2 (dec16 x)
       else split_additional s s1 it2)) = Inr (s', c)"
    by (auto simp: split_step_def go_bind_eq_Inr)
  then show ?thesis
    by (auto simp: Let_def go_bind_eq_Inr split: if_splits prod.splits
             dest!: split_named_cases split_additional_cases)
qed

text \<open>The decoder's shape invariant: the open group has no attribute, every
  closed group has exactly one, and the closed groups' attributes followed by the
  pending attribute form a chain of prefixes (the pending attribute is never
  reset, only extended).\<close>

definition split_shape :: "splitState \<Rightarrow> bool" where
  "split_shape s \<longleftrightarrow> attributes (sAg s) = [] \<and> list_all (\<lambda>g. length (attributes g) = 1) (sAgs s) \<and>
     sorted_wrt prefix (map (\<lambda>g. values_go (hd (attributes g))) (sAgs s) @ [values_go (sV s)])"

lemma split_shape_init: "split_shape (split_init bt it)"
  by (simp add: split_shape_def split_init_def NewAttribute_def)

lemma split_step_keeps_shape:
  assumes "split_shape s" and "split_step s = Inr (s', c)"
  shows "split_shape s'"
  using split_step_cases [OF assms(2)]
proof
  assume "sAgs s' = sAgs s \<and> sAg s' = sAg s \<and>
          (sV s' = sV s \<or> (\<exists>av. sV s' = appendValue (sV s) av))"
  with assms(1) show ?thesis
    by (auto simp: split_shape_def appendValue_def sorted_wrt_append
             intro: prefix_order.trans [OF _ prefixI])
next
  assume "sAgs s' = sAgs s @ [sAg s\<lparr>attributes := attributes (sAg s) @ [sV s]\<rparr>] \<and>
          sAg s' = \<lparr>beginAttributeGroupTag = sVTag s', attributes = []\<rparr> \<and> sV s' = sV s"
  with assms(1) show ?thesis
    by (auto simp: split_shape_def sorted_wrt_append)
qed

lemma splitAValues_Inr:
  assumes "splitAValues b = Inr gs"
  obtains s where "gs = sAgs s @ [sAg s]" and "split_shape s"
proof -
  from assms obtain bt it ok s where
    "GetNextOne (NewIterator b) = Inr (bt, it, ok)" and
    loop: "splitLoop (split_init bt it) = Inr s" and gs: "gs = sAgs s @ [sAg s]"
    by (auto simp: splitAValues_def go_bind_eq_Inr)
  from loop split_shape_init have "split_shape s"
    by (rule splitLoop_rule) (rule split_step_keeps_shape)
  with gs that show ?thesis by blast
qed

text \<open>C1. Whatever the input, a decoded group list ends with a group that holds no
  attribute, and every group before it holds exactly one attribute: the decoder
  never produces a group with two attributes, nor an empty group other than the
  last.\<close>

theorem splitAValues_one_attribute_per_group:
  assumes "splitAValues b = Inr gs"
  shows "gs \<noteq> [] \<and> attributes (last gs) = [] \<and> (\<forall>g \<in> set (butlast gs). length (attributes g) = 1)"
proof -
  from assms obtain s where gs: "gs = sAgs s @ [sAg s]" and sh: "split_shape s"
    by (rule splitAValues_Inr)
  from sh show ?thesis
    by (simp add: gs split_shape_def list_all_iff)
qed

theorem splitAValues_one_attribute_per_group_witness:
  "\<exists>gs. splitAValues [1, 0x47, 0, 1, 65, 0, 1, 67, 2, 0x44, 0, 1, 69, 0, 1, 70, 3] = Inr gs \<and> length gs = 3 \<and>
     gs \<noteq> [] \<and> attributes (last gs) = [] \<and> (\<forall>g \<in> set (butlast gs). length (attributes g) = 1)"
proof -
  define gs where "gs = projr (splitAValues [1, 0x47, 0, 1, 65, 0, 1, 67, 2, 0x44, 0, 1, 69, 0, 1, 70, 3])"
  have r: "splitAValues [1, 0x47, 0, 1, 65, 0, 1, 67, 2, 0x44, 0, 1, 69, 0, 1, 70, 3] = Inr gs"
    unfolding gs_def by code_simp
  have l: "length gs = 3"
    unfolding gs_def by code_simp
  from splitAValues_one_attribute_per_group [OF r] r l show ?thesis by blast
qed

text \<open>C2. The attribute the decoder puts in each group contains every value of the
  attribute in the group before it, as a prefix: the pending attribute is never
  reset, so each group repeats the values of all earlier groups.\<close>

theorem splitAValues_accumulates:
  assumes "splitAValues b = Inr gs"
  shows "sorted_wrt (\<lambda>g h. prefix (values_go (hd (attributes g))) (values_go (hd (attributes h))))
           (butlast gs)"
proof -
  from assms obtain s where gs: "gs = sAgs s @ [sAg s]" and sh: "split_shape s"
    by (rule splitAValues_Inr)
  from sh have "sorted_wrt prefix (map (\<lambda>g. values_go (hd (attributes g))) (sAgs s))"
    by (simp add: split_shape_def sorted_wrt_append)
  then show ?thesis
    by (simp add: gs sorted_wrt_map)
qed

theorem splitAValues_accumulates_witness:
  "\<exists>gs. splitAValues [1, 0x47, 0, 1, 65, 0, 1, 67, 2, 0x44, 0, 1, 69, 0, 1, 70, 3] = Inr gs \<and> length gs = 3 \<and>
     sorted_wrt (\<lambda>g h. prefix (values_go (hd (attributes g))) (values_go (hd (attributes h))))
       (butlast gs)"
proof -
  define gs where "gs = projr (splitAValues [1, 0x47, 0, 1, 65, 0, 1, 67, 2, 0x44, 0, 1, 69, 0, 1, 70, 3])"
  have r: "splitAValues [1, 0x47, 0, 1, 65, 0, 1, 67, 2, 0x44, 0, 1, 69, 0, 1, 70, 3] = Inr gs"
    unfolding gs_def by code_simp
  have l: "length gs = 3"
    unfolding gs_def by code_simp
  from splitAValues_accumulates [OF r] r l show ?thesis by blast
qed

section \<open>Which tags decode\<close>

text \<open>A tag outside the seven that \<open>UnMarshallattribute\<close> decodes panics: the
  six tags whose closures assert the type of the still nil value fail the type
  assertion, every other tag calls the nil \<open>UnMarshal\<close> closure.\<close>

lemma UnMarshallattribute_Inl:
  "t \<notin> {0x22, 0x23, 0x33, 0x44, 0x47, 0x48, 0x49} \<Longrightarrow>
     UnMarshallattribute t b =
       Inl (if t \<in> {0x21, 0x30, 0x31, 0x32, 0x35, 0x36} then InterfaceConversion else NilFuncCall)"
  by (auto simp: UnMarshallattribute_def)

text \<open>C18. UnMarshallattribute decodes a value exactly for the tags boolean,
  enum, rangeOfInteger, keyword, charset, naturalLanguage and mimeMediaType, and
  the decoded value carries the tag it was decoded under; every other tag,
  integer, uri, text and name included, panics.\<close>

theorem UnMarshallattribute_decodes_iff:
  "(\<exists>av. UnMarshallattribute t b = Inr av \<and> valueTag av = t) \<longleftrightarrow>
     t \<in> {0x22, 0x23, 0x33, 0x44, 0x47, 0x48, 0x49}"
  by (auto simp: UnMarshallattribute_def)

end
