(* ===== verification/Marshal.thy ===== *)
theory Marshal
  imports Model
begin

text \<open>
  The encoder of \<^verbatim>\<open>src/IppGenerator.go\<close>.  \<open>marshallAtrib\<close> writes one
  operation-attributes tag and then, for every group in order (whose own tag it
  never writes), every attribute: the first value framed with its name, each
  further value framed with name length \<open>0x0000\<close>.  \<open>marshallMsg\<close> puts the
  header before it and the end-of-attributes tag and the document data after it.
  All writes are \<open>binary.Write\<close> into a \<open>bytes.Buffer\<close>; the only one that can
  panic is the write of a nil additional value (\<open>go_write GNil\<close>).  The first
  value's nil case writes the untyped constant \<open>0x0000\<close>, an \<open>int\<close>, which
  \<open>binary.Write\<close> rejects with an ignored error: nothing is written.
\<close>

section \<open>Framing of values\<close>

definition marshal_first :: "attributeValue \<Rightarrow> bytes go" where
  "marshal_first v =
     go_bind (if value_go v = GNil then Inr [] else go_write (value_go v))
       (\<lambda>bs. Inr ([valueTag v] @ be16 (nameLength v) @ name v @ be16 (valueLength v) @ bs))"

definition marshal_additional :: "attributeValue \<Rightarrow> bytes go" where
  "marshal_additional v =
     go_bind (go_write (value_go v))
       (\<lambda>bs. Inr ([valueTag v] @ be16 0 @ be16 (valueLength v) @ bs))"

text \<open>The loop \<open>for iii, v := range a.values\<close> with its test \<open>iii == 0\<close>.\<close>

fun marshal_values :: "attributeValue list \<Rightarrow> bytes go" where
  "marshal_values [] = Inr []"
| "marshal_values (v # vs) =
     go_bind (marshal_first v) (\<lambda>b. go_bind (go_concat_map marshal_additional vs) (\<lambda>bs. Inr (b @ bs)))"

definition marshal_group :: "attributeGroup \<Rightarrow> bytes go" where
  "marshal_group ag = go_concat_map (\<lambda>a. marshal_values (values_go a)) (attributes ag)"

definition marshallAtrib :: "Message \<Rightarrow> bytes go" where
  "marshallAtrib im =
     go_bind (go_concat_map marshal_group (attributeGroups im)) (\<lambda>bs. Inr (TAG_OPERATION # bs))"

definition marshallMsg :: "Message \<Rightarrow> bytes go" where
  "marshallMsg im =
     go_bind (marshallAtrib im) (\<lambda>x.
       Inr ([majorVer im, minorVer im] @ be16 (operationIdStatusCode im) @ be32 (requestId im)
            @ x @ [3] @ Data im))"

section \<open>The encoding of well-typed values\<close>

text \<open>The write of a value that is not nil, as a total function.\<close>

definition value_bytes :: "gvalue \<Rightarrow> bytes" where
  "value_bytes v = (case go_write v of Inr b \<Rightarrow> b | Inl _ \<Rightarrow> [])"

lemma value_bytes_GNil [simp]: "value_bytes GNil = []"
  by (simp add: value_bytes_def)

lemma go_write_not_nil [simp]: "v \<noteq> GNil \<Longrightarrow> go_write v = Inr (value_bytes v)"
  by (cases v) (auto simp: value_bytes_def)

definition first_bytes :: "attributeValue \<Rightarrow> bytes" where
  "first_bytes v =
     [valueTag v] @ be16 (nameLength v) @ name v @ be16 (valueLength v) @ value_bytes (value_go v)"

definition additional_bytes :: "attributeValue \<Rightarrow> bytes" where
  "additional_bytes v = [valueTag v] @ be16 0 @ be16 (valueLength v) @ value_bytes (value_go v)"

lemma marshal_first_bytes [simp]: "marshal_first v = Inr (first_bytes v)"
  by (cases "value_go v = GNil") (simp_all add: marshal_first_def first_bytes_def)

lemma marshal_additional_bytes [simp]:
  "value_go v \<noteq> GNil \<Longrightarrow> marshal_additional v = Inr (additional_bytes v)"
  by (simp add: marshal_additional_def additional_bytes_def)

text \<open>No additional value of the message is nil: the condition under which
  encoding cannot panic.\<close>

definition no_nil_additional :: "Message \<Rightarrow> bool" where
  "no_nil_additional im \<longleftrightarrow>
     (\<forall>g \<in> set (attributeGroups im). \<forall>a \<in> set (attributes g).
        \<forall>v \<in> set (tl (values_go a)). value_go v \<noteq> GNil)"

definition values_bytes :: "attributeValue list \<Rightarrow> bytes" where
  "values_bytes vs = (case vs of [] \<Rightarrow> [] | v # vs' \<Rightarrow> first_bytes v @ concat (map additional_bytes vs'))"

lemma marshal_values_bytes:
  "\<forall>v \<in> set (tl vs). value_go v \<noteq> GNil \<Longrightarrow> marshal_values vs = Inr (values_bytes vs)"
  by (cases vs) (auto simp: values_bytes_def go_concat_map_Inr [where g = additional_bytes])

definition group_bytes :: "attributeGroup \<Rightarrow> bytes" where
  "group_bytes g = concat (map (\<lambda>a. values_bytes (values_go a)) (attributes g))"

lemma marshallAtrib_bytes:
  assumes "no_nil_additional im"
  shows "marshallAtrib im = Inr (TAG_OPERATION # concat (map group_bytes (attributeGroups im)))"
proof -
  have "\<forall>g \<in> set (attributeGroups im). marshal_group g = Inr (group_bytes g)"
    using assms
    by (auto simp: no_nil_additional_def marshal_group_def group_bytes_def marshal_values_bytes
             intro!: go_concat_map_Inr)
  then have "go_concat_map marshal_group (attributeGroups im) =
      Inr (concat (map group_bytes (attributeGroups im)))"
    by (rule go_concat_map_Inr)
  then show ?thesis
    by (simp add: marshallAtrib_def)
qed

section \<open>Properties of the encoder\<close>

text \<open>C3. When no additional value is nil, marshallMsg produces the version bytes,
  the big-endian operation/status field and request id, one operation-attributes
  tag, the framed values of every attribute of every group in order, the
  end-of-attributes tag and the document data.\<close>

theorem marshallMsg_layout:
  assumes "no_nil_additional im"
  shows "marshallMsg im =
    Inr ([majorVer im, minorVer im] @ be16 (operationIdStatusCode im) @ be32 (requestId im) @
         TAG_OPERATION # concat (map group_bytes (attributeGroups im)) @ [TAG_END] @ Data im)"
  using marshallAtrib_bytes [OF assms] by (simp add: marshallMsg_def)

theorem marshallMsg_layout_witness:
  "no_nil_additional (newMessage 2\<lparr>attributeGroups :=
      [newAg \<lparr>values_go = [zero_attributeValue\<lparr>valueTag := 0x47, nameLength := 1, name := [97],
                                valueLength := 1, value_go := GCharset [117]\<rparr>]\<rparr>]\<rparr>) \<and>
   marshallMsg (newMessage 2\<lparr>attributeGroups :=
      [newAg \<lparr>values_go = [zero_attributeValue\<lparr>valueTag := 0x47, nameLength := 1, name := [97],
                                valueLength := 1, value_go := GCharset [117]\<rparr>]\<rparr>]\<rparr>) =
   Inr [2, 1, 0, 2, 0, 0, 0, 1, 1, 0x47, 0, 1, 97, 0, 1, 117, 3]"
proof -
  have h: "no_nil_additional (newMessage 2\<lparr>attributeGroups :=
      [newAg \<lparr>values_go = [zero_attributeValue\<lparr>valueTag := 0x47, nameLength := 1, name := [97],
                                valueLength := 1, value_go := GCharset [117]\<rparr>]\<rparr>]\<rparr>)"
    by (simp add: no_nil_additional_def newMessage_def newAg_def)
  show ?thesis
    using h marshallMsg_layout [OF h]
    by (simp add: newMessage_def newAg_def group_bytes_def values_bytes_def first_bytes_def
                  value_bytes_def zero_attributeValue_def newID_def wire_defs)
qed

lemma marshal_group_tag [simp]:
  "marshal_group (g\<lparr>beginAttributeGroupTag := t\<rparr>) = marshal_group g"
  by (simp add: marshal_group_def)

text \<open>C31. The encoding does not depend on the groups' tags: marshallMsg never
  writes a group's own delimiter, so a message whose groups are retagged encodes
  to the same bytes.\<close>

theorem marshallMsg_ignores_group_tags:
  "marshallMsg (im\<lparr>attributeGroups :=
       map (\<lambda>g. g\<lparr>beginAttributeGroupTag := f g\<rparr>) (attributeGroups im)\<rparr>) = marshallMsg im"
  by (simp add: marshallMsg_def marshallAtrib_def go_concat_map_map)

lemma marshal_additional_Inl:
  "marshal_additional v = Inl e \<longleftrightarrow> e = NilDereference \<and> value_go v = GNil"
  by (cases "value_go v = GNil") (auto simp: marshal_additional_def)

lemma marshal_values_Inl:
  "marshal_values vs = Inl e \<longleftrightarrow> e = NilDereference \<and> (\<exists>v \<in> set (tl vs). value_go v = GNil)"
proof (cases vs)
  case Nil
  then show ?thesis by simp
next
  case (Cons v vs')
  have "go_concat_map marshal_additional vs' = Inl e \<longleftrightarrow>
        e = NilDereference \<and> (\<exists>v \<in> set vs'. value_go v = GNil)"
    by (rule go_concat_map_Inl_single) (rule marshal_additional_Inl)
  with Cons show ?thesis by (auto simp: go_bind_def split: sum.splits)
qed

lemma marshal_group_Inl:
  "marshal_group g = Inl e \<longleftrightarrow>
     e = NilDereference \<and> (\<exists>a \<in> set (attributes g). \<exists>v \<in> set (tl (values_go a)). value_go v = GNil)"
  unfolding marshal_group_def by (rule go_concat_map_Inl_single) (rule marshal_values_Inl)

text \<open>C4. Encoding panics exactly when some attribute has a nil additional value,
  and the panic is then the nil dereference inside binary.Write; a nil first
  value writes nothing and does not panic.\<close>

theorem marshallMsg_panics_iff_nil_additional:
  "marshallMsg im = Inl e \<longleftrightarrow> e = NilDereference \<and> \<not> no_nil_additional im"
proof -
  have "go_concat_map marshal_group (attributeGroups im) = Inl e \<longleftrightarrow>
        e = NilDereference \<and> \<not> no_nil_additional im"
    unfolding no_nil_additional_def
    by (subst go_concat_map_Inl_single [OF marshal_group_Inl]) blast
  then show ?thesis
    by (auto simp: marshallMsg_def marshallAtrib_def go_bind_def split: sum.splits)
qed

theorem marshallMsg_panics_iff_nil_additional_witness:
  "marshallMsg (newMessage 2\<lparr>attributeGroups :=
      [newAg \<lparr>values_go = [zero_attributeValue\<lparr>valueTag := 0x21, nameLength := 1, name := [97],
                                valueLength := 4, value_go := GInteger 5\<rparr>,
                             zero_attributeValue\<lparr>valueTag := 0x21, valueLength := 4\<rparr>]\<rparr>]\<rparr>) =
     Inl NilDereference"
proof -
  have "\<not> no_nil_additional (newMessage 2\<lparr>attributeGroups :=
      [newAg \<lparr>values_go = [zero_attributeValue\<lparr>valueTag := 0x21, nameLength := 1, name := [97],
                                valueLength := 4, value_go := GInteger 5\<rparr>,
                             zero_attributeValue\<lparr>valueTag := 0x21, valueLength := 4\<rparr>]\<rparr>]\<rparr>)"
    by (simp add: no_nil_additional_def newMessage_def newAg_def zero_attributeValue_def)
  then show ?thesis
    using marshallMsg_panics_iff_nil_additional by blast
qed

end
