(* ===== verification/Codec.thy ===== *)
theory Codec
  imports Parse Marshal
begin

text \<open>
  How the decoder of \<^verbatim>\<open>src/ipp/unMarshall.go\<close> reads what the encoder of
  \<^verbatim>\<open>src/IppGenerator.go\<close> writes.  A value is framed well when its tag is not
  a delimiter and its name and value fit the signed 16-bit length fields that
  frame them; it is well formed on the wire when, moreover, its tag is one of
  the string tags the decoder accepts (charset, naturalLanguage, keyword,
  mimeMediaType) and carries the matching Go type.  On a framed value one pass
  of the decoder's loop reads exactly that frame and hands the value bytes to
  \<open>UnMarshallattribute\<close>; this theory proves that step, runs the loop over a
  whole encoded attribute section, and states what \<open>ParseMessage\<close> returns on
  the output of \<open>marshallMsg\<close>.
\<close>

section \<open>Well-formed values\<close>

definition wire_string_value :: "attributeValue \<Rightarrow> bool" where
  "wire_string_value v \<longleftrightarrow>
     (case value_go v of
        GCharset _ \<Rightarrow> valueTag v = TAG_CHARSET
      | GNaturalLanguage _ \<Rightarrow> valueTag v = TAG_LANGUAGE
      | GKeyword _ \<Rightarrow> valueTag v = TAG_KEYWORD
      | GMimeMediaType _ \<Rightarrow> valueTag v = TAG_MIMETYPE
      | _ \<Rightarrow> False)"

definition frame_ok :: "attributeValue \<Rightarrow> bool" where
  "frame_ok v \<longleftrightarrow> \<not> isDelimiter (valueTag v) \<and>
     length (name v) < 2 ^ 15 \<and> nameLength v = of_nat (length (name v)) \<and>
     length (value_bytes (value_go v)) < 2 ^ 15 \<and>
     valueLength v = of_nat (length (value_bytes (value_go v)))"

definition value_ok :: "attributeValue \<Rightarrow> bool" where
  "value_ok v \<longleftrightarrow> wire_string_value v \<and> frame_ok v"

text \<open>A message is well formed on the wire when every attribute keeps the
  invariant of the attribute builders (\<open>attr_wf\<close>: no name on a value after the
  first) and every value is well formed.  \<open>all_values\<close> lists its values in the
  order \<open>marshallAtrib\<close> writes them.\<close>

definition all_values :: "Message \<Rightarrow> attributeValue list" where
  "all_values m = concat (map (\<lambda>g. concat (map values_go (attributes g))) (attributeGroups m))"

definition wire_ok :: "Message \<Rightarrow> bool" where
  "wire_ok m \<longleftrightarrow> (\<forall>g \<in> set (attributeGroups m). \<forall>a \<in> set (attributes g). attr_wf a) \<and>
     (\<forall>v \<in> set (all_values m). value_ok v)"

text \<open>The value the decoder rebuilds from the frame of \<open>v\<close> and the value \<open>av\<close>
  that \<open>UnMarshallattribute\<close> returned: \<open>av\<close> with the frame's name and name
  length; \<open>dec_av\<close> when the decoding succeeds.  \<open>dec_step\<close> is the outcome of
  one pass of the loop that read the frame of \<open>v\<close> and left the scanner \<open>it\<close>.\<close>

definition dec_with :: "attributeValue \<Rightarrow> attributeValue \<Rightarrow> attributeValue" where
  "dec_with v av = av\<lparr>name := name v, nameLength := nameLength v\<rparr>"

definition dec_av :: "attributeValue \<Rightarrow> attributeValue" where
  "dec_av v = dec_with v (projr (UnMarshallattribute (valueTag v) (value_bytes (value_go v))))"

definition dec_step :: "splitState \<Rightarrow> iterator \<Rightarrow> attributeValue \<Rightarrow> (splitState \<times> bool) go" where
  "dec_step s it v =
     go_bind (UnMarshallattribute (valueTag v) (value_bytes (value_go v)))
       (\<lambda>av. Inr (s\<lparr>sVTag := valueTag v, sIt := it, sV := appendValue (sV s) (dec_with v av)\<rparr>, True))"

lemma UnMarshallattribute_Inr_fields:
  "UnMarshallattribute t b = Inr av \<Longrightarrow> name av = [] \<and> nameLength av = 0"
  by (auto simp: UnMarshallattribute_def zero_attributeValue_def Let_def split: if_splits)

lemma UnMarshallattribute_wire:
  "wire_string_value v \<Longrightarrow>
     \<exists>av. UnMarshallattribute (valueTag v) (value_bytes (value_go v)) = Inr av \<and>
          valueTag av = valueTag v \<and> value_go av = value_go v"
  by (cases "value_go v")
     (auto simp: wire_string_value_def UnMarshallattribute_def value_bytes_def zero_attributeValue_def)

lemma dec_step_wire:
  assumes "wire_string_value v"
  shows "dec_step s it v =
    Inr (s\<lparr>sIt := it, sVTag := valueTag v, sV := appendValue (sV s) (dec_av v)\<rparr>, True)"
  using UnMarshallattribute_wire [OF assms] by (auto simp: dec_step_def dec_av_def)

lemma dec_av_fields:
  "wire_string_value v \<Longrightarrow>
     valueTag (dec_av v) = valueTag v \<and> name (dec_av v) = name v \<and>
     nameLength (dec_av v) = nameLength v \<and> value_go (dec_av v) = value_go v"
  using UnMarshallattribute_wire [of v] by (auto simp: dec_av_def dec_with_def)

lemma dec_av_map:
  "\<forall>v \<in> set vs. value_ok v \<Longrightarrow>
     map (\<lambda>v. (valueTag v, name v, value_go v)) (map dec_av vs) =
     map (\<lambda>v. (valueTag v, name v, value_go v)) vs"
  by (auto simp: value_ok_def dec_av_fields)

lemma frame_ok_lengths:
  assumes "frame_ok v"
  shows "sint (nameLength v) = int (length (name v))"
    and "sint (valueLength v) = int (length (value_bytes (value_go v)))"
  using assms by (simp_all add: frame_ok_def sint_of_nat_small)

lemma frame_ok_name_empty:
  "frame_ok v \<Longrightarrow> nameLength v = 0 \<Longrightarrow> name v = []"
  using frame_ok_lengths(1) [of v] by simp

lemma frame_ok_not_end: "frame_ok v \<Longrightarrow> valueTag v \<noteq> TAG_END"
  by (auto simp: frame_ok_def checkGroupTag_def)

lemma nameLength_update_triv:
  "nameLength r = 0 \<Longrightarrow> r\<lparr>name := n, nameLength := 0\<rparr> = r\<lparr>name := n\<rparr>"
  by (cases r) simp

section \<open>One pass of the decoding loop over one framed value\<close>

text \<open>After the tag and the name length \<open>0x0000\<close> have been read: the additional
  value block reads the value length and the value and decodes it.\<close>

lemma split_additional_value:
  assumes inv: "iter_inv it2"
    and r: "rest it2 = be16 (valueLength v) @ value_bytes (value_go v) @ ys"
    and ok: "frame_ok v" and nm: "name v = []"
  obtains it' where
    "split_additional s (s\<lparr>sIt := it1, sVTag := valueTag v\<rparr>) it2 = dec_step s it' v"
    and "iter_inv it'" and "rest it' = ys"
proof -
  obtain it4 where g4: "GetNextN it2 (int (length (be16 (valueLength v)))) =
      Inr (be16 (valueLength v), it4, True)" and i4: "iter_inv it4"
    and r4: "rest it4 = value_bytes (value_go v) @ ys"
    using GetNextN_rest [OF inv r] by blast
  obtain it5 where g5: "GetNextN it4 (int (length (value_bytes (value_go v)))) =
      Inr (value_bytes (value_go v), it5, True)" and i5: "iter_inv it5" and r5: "rest it5 = ys"
    using GetNextN_rest [OF i4 r4] by blast
  have l0: "nameLength v = 0"
    using ok nm by (simp add: frame_ok_def)
  show ?thesis
  proof (rule that [OF _ i5 r5])
    show "split_additional s (s\<lparr>sIt := it1, sVTag := valueTag v\<rparr>) it2 = dec_step s it5 v"
    proof (cases "UnMarshallattribute (valueTag v) (value_bytes (value_go v))")
      case (Inl e)
      with g4 g5 show ?thesis
        by (simp add: split_additional_def dec_step_def frame_ok_lengths [OF ok])
    next
      case (Inr av)
      then have "nameLength av = 0"
        by (blast dest: UnMarshallattribute_Inr_fields)
      with Inr g4 g5 nm l0 show ?thesis
        by (simp add: split_additional_def dec_step_def dec_with_def frame_ok_lengths [OF ok]
                      nameLength_update_triv)
    qed
  qed
qed

text \<open>After the tag and a non-zero name length have been read: the named value
  block reads the name, the value length and the value.  Its guard
  \<open>cnt.GTEq(1)\<close> is false, so the pending attribute is extended.\<close>

lemma split_named_value:
  assumes inv: "iter_inv it2"
    and r: "rest it2 = name v @ be16 (valueLength v) @ value_bytes (value_go v) @ ys"
    and ok: "frame_ok v"
  obtains it' where
    "split_named s (s\<lparr>sIt := it1, sVTag := valueTag v\<rparr>) it2 (nameLength v) = dec_step s it' v"
    and "iter_inv it'" and "rest it' = ys"
proof -
  obtain it3 where g3: "GetNextN it2 (int (length (name v))) = Inr (name v, it3, True)"
    and i3: "iter_inv it3" and r3: "rest it3 = be16 (valueLength v) @ value_bytes (value_go v) @ ys"
    using GetNextN_rest [OF inv r] by blast
  obtain it4 where g4: "GetNextN it3 (int (length (be16 (valueLength v)))) =
      Inr (be16 (valueLength v), it4, True)" and i4: "iter_inv it4"
    and r4: "rest it4 = value_bytes (value_go v) @ ys"
    using GetNextN_rest [OF i3 r3] by blast
  have i4': "iter_inv (DeBug it4)" and r4': "rest (DeBug it4) = value_bytes (value_go v) @ ys"
    using i4 r4 by simp_all
  obtain it5 where g5: "GetNextN (DeBug it4) (int (length (value_bytes (value_go v)))) =
      Inr (value_bytes (value_go v), it5, True)" and i5: "iter_inv it5" and r5: "rest it5 = ys"
    using GetNextN_rest [OF i4' r4'] by blast
  show ?thesis
  proof (rule that [OF _ i5 r5])
    show "split_named s (s\<lparr>sIt := it1, sVTag := valueTag v\<rparr>) it2 (nameLength v) = dec_step s it5 v"
      using g3 g4 g5
      by (simp add: split_named_def dec_step_def dec_with_def frame_ok_lengths [OF ok])
  qed
qed

text \<open>One pass of the loop on a scanner positioned at a framed value: it reads
  the whole frame and decodes the value, whichever block the name length
  selects.\<close>

lemma split_step_frame:
  assumes inv: "iter_inv (sIt s)" and r: "rest (sIt s) = first_bytes v @ ys" and ok: "frame_ok v"
  obtains it' where "split_step s = dec_step s it' v" and "iter_inv it'" and "rest it' = ys"
proof -
  have i0: "iter_inv (DeBug (sIt s))"
    and r0: "rest (DeBug (sIt s)) = valueTag v # (be16 (nameLength v) @ name v @
               be16 (valueLength v) @ value_bytes (value_go v) @ ys)"
    using inv r by (simp_all add: first_bytes_def)
  obtain it1 where g1: "GetNextOne (DeBug (sIt s)) = Inr (valueTag v, it1, True)"
    and i1: "iter_inv it1"
    and r1: "rest it1 = be16 (nameLength v) @ name v @ be16 (valueLength v) @ value_bytes (value_go v) @ ys"
    using GetNextOne_rest [OF i0 r0] by blast
  obtain it2 where g2: "GetNextN it1 (int (length (be16 (nameLength v)))) = Inr (be16 (nameLength v), it2, True)"
    and i2: "iter_inv it2"
    and r2: "rest it2 = name v @ be16 (valueLength v) @ value_bytes (value_go v) @ ys"
    using GetNextN_rest [OF i1 r1] by blast
  have nd: "\<not> isDelimiter (valueTag v)"
    using ok by (simp add: frame_ok_def)
  show ?thesis
  proof (cases "nameLength v = 0")
    case True
    then have "name v = []" by (rule frame_ok_name_empty [OF ok])
    with r2 have r2': "rest it2 = be16 (valueLength v) @ value_bytes (value_go v) @ ys" by simp
    obtain it' where "split_additional s (s\<lparr>sIt := it1, sVTag := valueTag v\<rparr>) it2 = dec_step s it' v"
      and "iter_inv it'" and "rest it' = ys"
      using split_additional_value [OF i2 r2' ok \<open>name v = []\<close>] by blast
    moreover have "split_step s = split_additional s (s\<lparr>sIt := it1, sVTag := valueTag v\<rparr>) it2"
      using g1 g2 nd True by (simp add: split_step_def Let_def del: be16_0)
    ultimately show ?thesis using that by simp
  next
    case False
    obtain it' where "split_named s (s\<lparr>sIt := it1, sVTag := valueTag v\<rparr>) it2 (nameLength v) = dec_step s it' v"
      and "iter_inv it'" and "rest it' = ys"
      using split_named_value [OF i2 r2 ok] by blast
    moreover have "split_step s = split_named s (s\<lparr>sIt := it1, sVTag := valueTag v\<rparr>) it2 (nameLength v)"
      using g1 g2 nd False by (simp add: split_step_def Let_def)
    ultimately show ?thesis using that by simp
  qed
qed

section \<open>The loop over an encoded attribute section\<close>

lemma splitLoop_continue:
  "sVTag s \<noteq> TAG_END \<Longrightarrow> split_step s = Inr (s', True) \<Longrightarrow> splitLoop s = splitLoop s'"
  by (simp add: splitLoop.simps [of s])

lemma splitLoop_stop: "sVTag s = TAG_END \<Longrightarrow> splitLoop s = Inr s"
  by (simp add: splitLoop.simps [of s])

text \<open>Over well-formed framed values the loop only appends the decoded values to
  the pending attribute.\<close>

lemma splitLoop_prefix:
  assumes "iter_inv (sIt s)" and "rest (sIt s) = concat (map first_bytes vs) @ zs"
    and "\<forall>v \<in> set vs. value_ok v" and "sVTag s \<noteq> TAG_END"
  shows "\<exists>it t. iter_inv it \<and> rest it = zs \<and> t \<noteq> TAG_END \<and>
     splitLoop s = splitLoop (s\<lparr>sIt := it, sVTag := t,
                                sV := sV s\<lparr>values_go := values_go (sV s) @ map dec_av vs\<rparr>\<rparr>)"
  using assms
proof (induction vs arbitrary: s)
  case Nil
  then show ?case
    by (intro exI [of _ "sIt s"] exI [of _ "sVTag s"]) simp
next
  case (Cons v vs)
  have ok: "value_ok v" and oks: "\<forall>v \<in> set vs. value_ok v"
    using Cons.prems(3) by simp_all
  have r: "rest (sIt s) = first_bytes v @ (concat (map first_bytes vs) @ zs)"
    using Cons.prems(2) by simp
  obtain it' where st: "split_step s = dec_step s it' v"
    and i': "iter_inv it'" and r': "rest it' = concat (map first_bytes vs) @ zs"
    using split_step_frame [OF Cons.prems(1) r] ok by (auto simp: value_ok_def)
  have st': "split_step s = Inr (s\<lparr>sIt := it', sVTag := valueTag v, sV := appendValue (sV s) (dec_av v)\<rparr>, True)"
    using st ok by (simp add: dec_step_wire value_ok_def)
  have "valueTag v \<noteq> TAG_END"
    using frame_ok_not_end [of v] ok by (simp add: value_ok_def)
  with Cons.IH [of "s\<lparr>sIt := it', sVTag := valueTag v, sV := appendValue (sV s) (dec_av v)\<rparr>"] i' r' oks
  obtain it t where "iter_inv it" "rest it = zs" "t \<noteq> TAG_END"
    "splitLoop (s\<lparr>sIt := it', sVTag := valueTag v, sV := appendValue (sV s) (dec_av v)\<rparr>) =
     splitLoop (s\<lparr>sIt := it, sVTag := t,
       sV := appendValue (sV s) (dec_av v)\<lparr>values_go := values_go (appendValue (sV s) (dec_av v)) @ map dec_av vs\<rparr>\<rparr>)"
    by auto
  then show ?case
    using splitLoop_continue [OF Cons.prems(4) st']
    by (intro exI [of _ it] exI [of _ t]) (simp add: appendValue_def)
qed

text \<open>At the end-of-attributes tag the loop closes the open group with the
  pending attribute, opens a group tagged \<open>0x03\<close> and stops; whatever follows
  the tag is never read.\<close>

lemma splitLoop_end:
  assumes "iter_inv (sIt s)" and "rest (sIt s) = TAG_END # ys" and "sVTag s \<noteq> TAG_END"
  shows "\<exists>it. splitLoop s = Inr (s\<lparr>sIt := it, sVTag := TAG_END,
            sAgs := sAgs s @ [sAg s\<lparr>attributes := attributes (sAg s) @ [sV s]\<rparr>],
            sAg := \<lparr>beginAttributeGroupTag = TAG_END, attributes = []\<rparr>\<rparr>)"
proof -
  have i0: "iter_inv (DeBug (sIt s))" and r0: "rest (DeBug (sIt s)) = TAG_END # ys"
    using assms by simp_all
  obtain it1 where g1: "GetNextOne (DeBug (sIt s)) = Inr (TAG_END, it1, True)"
    using GetNextOne_rest [OF i0 r0] by blast
  have "split_step s = Inr (s\<lparr>sIt := it1, sVTag := TAG_END,
            sAgs := sAgs s @ [sAg s\<lparr>attributes := attributes (sAg s) @ [sV s]\<rparr>],
            sAg := \<lparr>beginAttributeGroupTag = TAG_END, attributes = []\<rparr>\<rparr>, True)"
    using g1 by (simp add: split_step_def checkGroupTag_def)
  with assms(3) show ?thesis
    by (auto simp: splitLoop_continue splitLoop_stop)
qed

text \<open>At a framed value that \<open>UnMarshallattribute\<close> cannot decode the loop
  panics with that function's panic.\<close>

lemma splitLoop_fail:
  assumes "iter_inv (sIt s)" and "rest (sIt s) = first_bytes w @ ys" and "frame_ok w"
    and "UnMarshallattribute (valueTag w) (value_bytes (value_go w)) = Inl e" and "sVTag s \<noteq> TAG_END"
  shows "splitLoop s = Inl e"
proof -
  obtain it' where "split_step s = dec_step s it' w"
    using split_step_frame [OF assms(1-3)] by blast
  with assms(4,5) show ?thesis
    by (simp add: splitLoop.simps [of s] dec_step_def)
qed

lemma splitAValues_start:
  obtains it where "GetNextOne (NewIterator (TAG_OPERATION # bs)) = Inr (TAG_OPERATION, it, True)"
    and "iter_inv (sIt (split_init TAG_OPERATION it))" and "rest (sIt (split_init TAG_OPERATION it)) = bs"
    and "sVTag (split_init TAG_OPERATION it) \<noteq> TAG_END"
proof -
  obtain it where "GetNextOne (NewIterator (TAG_OPERATION # bs)) = Inr (TAG_OPERATION, it, True)"
    and "iter_inv it" and "rest it = bs"
    using GetNextOne_rest [OF iter_inv_NewIterator rest_NewIterator] by blast
  with that show ?thesis by (simp add: split_init_def)
qed

lemma splitAValues_values:
  assumes "\<forall>v \<in> set vs. value_ok v"
  shows "splitAValues (TAG_OPERATION # concat (map first_bytes vs) @ TAG_END # ys) =
    Inr [\<lparr>beginAttributeGroupTag = TAG_OPERATION, attributes = [\<lparr>values_go = map dec_av vs\<rparr>]\<rparr>,
         \<lparr>beginAttributeGroupTag = TAG_END, attributes = []\<rparr>]"
proof -
  obtain it0 where g: "GetNextOne (NewIterator (TAG_OPERATION # concat (map first_bytes vs) @ TAG_END # ys)) =
      Inr (TAG_OPERATION, it0, True)" and i0: "iter_inv (sIt (split_init TAG_OPERATION it0))"
    and r0: "rest (sIt (split_init TAG_OPERATION it0)) = concat (map first_bytes vs) @ TAG_END # ys"
    and t0: "sVTag (split_init TAG_OPERATION it0) \<noteq> TAG_END"
    by (rule splitAValues_start)
  obtain it t where i: "iter_inv it" and r: "rest it = TAG_END # ys" and t: "t \<noteq> TAG_END"
    and l: "splitLoop (split_init TAG_OPERATION it0) =
      splitLoop ((split_init TAG_OPERATION it0)\<lparr>sIt := it, sVTag := t,
        sV := sV (split_init TAG_OPERATION it0)\<lparr>values_go := values_go (sV (split_init TAG_OPERATION it0)) @ map dec_av vs\<rparr>\<rparr>)"
    using splitLoop_prefix [OF i0 r0 assms t0] by blast
  obtain it' where e: "splitLoop ((split_init TAG_OPERATION it0)\<lparr>sIt := it, sVTag := t,
        sV := sV (split_init TAG_OPERATION it0)\<lparr>values_go := values_go (sV (split_init TAG_OPERATION it0)) @ map dec_av vs\<rparr>\<rparr>) =
      Inr ((split_init TAG_OPERATION it0)\<lparr>sIt := it, sVTag := t,
        sV := sV (split_init TAG_OPERATION it0)\<lparr>values_go := values_go (sV (split_init TAG_OPERATION it0)) @ map dec_av vs\<rparr>\<rparr>
        \<lparr>sIt := it', sVTag := TAG_END,
         sAgs := sAgs (split_init TAG_OPERATION it0) @ [sAg (split_init TAG_OPERATION it0)\<lparr>attributes :=
           attributes (sAg (split_init TAG_OPERATION it0)) @
           [sV (split_init TAG_OPERATION it0)\<lparr>values_go := values_go (sV (split_init TAG_OPERATION it0)) @ map dec_av vs\<rparr>]\<rparr>],
         sAg := \<lparr>beginAttributeGroupTag = TAG_END, attributes = []\<rparr>\<rparr>)"
    using splitLoop_end [of "(split_init TAG_OPERATION it0)\<lparr>sIt := it, sVTag := t,
        sV := sV (split_init TAG_OPERATION it0)\<lparr>values_go := values_go (sV (split_init TAG_OPERATION it0)) @ map dec_av vs\<rparr>\<rparr>"]
      i r t by auto
  show ?thesis
    unfolding splitAValues_def g go_bind_Inr prod.case l e
    by (simp add: split_init_def NewAttribute_def)
qed

lemma splitAValues_fail:
  assumes "\<forall>v \<in> set vs. value_ok v" and "frame_ok w"
    and "UnMarshallattribute (valueTag w) (value_bytes (value_go w)) = Inl e"
  shows "splitAValues (TAG_OPERATION # concat (map first_bytes vs) @ first_bytes w @ ys) = Inl e"
proof -
  obtain it0 where g: "GetNextOne (NewIterator (TAG_OPERATION # concat (map first_bytes vs) @ first_bytes w @ ys)) =
      Inr (TAG_OPERATION, it0, True)" and i0: "iter_inv (sIt (split_init TAG_OPERATION it0))"
    and r0: "rest (sIt (split_init TAG_OPERATION it0)) = concat (map first_bytes vs) @ first_bytes w @ ys"
    and t0: "sVTag (split_init TAG_OPERATION it0) \<noteq> TAG_END"
    by (rule splitAValues_start)
  obtain it t where i: "iter_inv it" and r: "rest it = first_bytes w @ ys" and t: "t \<noteq> TAG_END"
    and l: "splitLoop (split_init TAG_OPERATION it0) =
      splitLoop ((split_init TAG_OPERATION it0)\<lparr>sIt := it, sVTag := t,
        sV := sV (split_init TAG_OPERATION it0)\<lparr>values_go := values_go (sV (split_init TAG_OPERATION it0)) @ map dec_av vs\<rparr>\<rparr>)"
    using splitLoop_prefix [OF i0 r0 assms(1) t0] by blast
  have "splitLoop ((split_init TAG_OPERATION it0)\<lparr>sIt := it, sVTag := t,
        sV := sV (split_init TAG_OPERATION it0)\<lparr>values_go := values_go (sV (split_init TAG_OPERATION it0)) @ map dec_av vs\<rparr>\<rparr>) = Inl e"
    using i r t by (intro splitLoop_fail [OF _ _ assms(2,3)]) simp_all
  then show ?thesis
    unfolding splitAValues_def g go_bind_Inr prod.case l by simp
qed

text \<open>When the input ends before an end-of-attributes tag, the failed read of
  the next tag yields the byte 0, which is not a delimiter, and the loop breaks:
  the pending attribute is never added to any group.\<close>

lemma splitLoop_unterminated:
  assumes "iter_inv (sIt s)" and "rest (sIt s) = []" and "sVTag s \<noteq> TAG_END"
  shows "\<exists>it. splitLoop s = Inr (s\<lparr>sIt := it, sVTag := 0\<rparr>)"
proof -
  have "GetNextOne (DeBug (sIt s)) = Inr (0, (DeBug (sIt s))\<lparr>dBug := False\<rparr>, False)"
    using assms by (intro GetNextOne_rest_Nil) simp_all
  then have "split_step s = Inr (s\<lparr>sIt := (DeBug (sIt s))\<lparr>dBug := False\<rparr>, sVTag := 0\<rparr>, False)"
    by (simp add: split_step_def checkGroupTag_def)
  with assms(3) show ?thesis
    by (auto simp: splitLoop.simps [of s])
qed

lemma splitAValues_unterminated:
  assumes "\<forall>v \<in> set vs. value_ok v"
  shows "splitAValues (TAG_OPERATION # concat (map first_bytes vs)) =
    Inr [\<lparr>beginAttributeGroupTag = TAG_OPERATION, attributes = []\<rparr>]"
proof -
  obtain it0 where g: "GetNextOne (NewIterator (TAG_OPERATION # concat (map first_bytes vs))) =
      Inr (TAG_OPERATION, it0, True)" and i0: "iter_inv (sIt (split_init TAG_OPERATION it0))"
    and r0: "rest (sIt (split_init TAG_OPERATION it0)) = concat (map first_bytes vs) @ []"
    and t0: "sVTag (split_init TAG_OPERATION it0) \<noteq> TAG_END"
    by (rule splitAValues_start) simp_all
  obtain it t where i: "iter_inv it" and r: "rest it = []" and t: "t \<noteq> TAG_END"
    and l: "splitLoop (split_init TAG_OPERATION it0) =
      splitLoop ((split_init TAG_OPERATION it0)\<lparr>sIt := it, sVTag := t,
        sV := sV (split_init TAG_OPERATION it0)\<lparr>values_go := values_go (sV (split_init TAG_OPERATION it0)) @ map dec_av vs\<rparr>\<rparr>)"
    using splitLoop_prefix [OF i0 r0 assms t0] by blast
  define s1 where "s1 = (split_init TAG_OPERATION it0)\<lparr>sIt := it, sVTag := t,
        sV := sV (split_init TAG_OPERATION it0)\<lparr>values_go := values_go (sV (split_init TAG_OPERATION it0)) @ map dec_av vs\<rparr>\<rparr>"
  obtain it' where e: "splitLoop s1 = Inr (s1\<lparr>sIt := it', sVTag := 0\<rparr>)"
    using splitLoop_unterminated [of s1] i r t by (auto simp: s1_def)
  show ?thesis
    unfolding splitAValues_def g go_bind_Inr prod.case l s1_def [symmetric] e
    by (simp add: s1_def split_init_def)
qed

text \<open>A run of delimiter tags: each one closes the open group with the
  pending attribute (still the empty one) and opens a group with its tag; the
  end tag does the same and stops the loop.\<close>

lemma splitLoop_delimiters:
  assumes "iter_inv (sIt s)" and "rest (sIt s) = ds @ TAG_END # ys"
    and "list_all (\<lambda>d. isDelimiter d \<and> d \<noteq> TAG_END) ds" and "sVTag s \<noteq> TAG_END"
  shows "\<exists>it. splitLoop s = Inr (s\<lparr>sIt := it, sVTag := TAG_END,
            sAgs := sAgs s @ sAg s\<lparr>attributes := attributes (sAg s) @ [sV s]\<rparr> #
                    map (\<lambda>d. \<lparr>beginAttributeGroupTag = d, attributes = [sV s]\<rparr>) ds,
            sAg := \<lparr>beginAttributeGroupTag = TAG_END, attributes = []\<rparr>\<rparr>)"
  using assms
proof (induction ds arbitrary: s)
  case Nil
  then show ?case using splitLoop_end [of s ys] by simp
next
  case (Cons d ds)
  have i0: "iter_inv (DeBug (sIt s))" and r0: "rest (DeBug (sIt s)) = d # ds @ TAG_END # ys"
    using Cons.prems(1,2) by simp_all
  obtain it1 where g1: "GetNextOne (DeBug (sIt s)) = Inr (d, it1, True)"
    and i1: "iter_inv it1" and r1: "rest it1 = ds @ TAG_END # ys"
    using GetNextOne_rest [OF i0 r0] by blast
  have dd: "isDelimiter d" "d \<noteq> TAG_END" "list_all (\<lambda>d. isDelimiter d \<and> d \<noteq> TAG_END) ds"
    using Cons.prems(3) by simp_all
  define s1 where "s1 = s\<lparr>sIt := it1, sVTag := d,
            sAgs := sAgs s @ [sAg s\<lparr>attributes := attributes (sAg s) @ [sV s]\<rparr>],
            sAg := \<lparr>beginAttributeGroupTag = d, attributes = []\<rparr>\<rparr>"
  have st: "split_step s = Inr (s1, True)"
    using g1 dd(1) by (simp add: split_step_def s1_def)
  have l: "splitLoop s = splitLoop s1"
    by (rule splitLoop_continue [OF Cons.prems(4) st])
  obtain it where "splitLoop s1 = Inr (s1\<lparr>sIt := it, sVTag := TAG_END,
            sAgs := sAgs s1 @ sAg s1\<lparr>attributes := attributes (sAg s1) @ [sV s1]\<rparr> #
                    map (\<lambda>d. \<lparr>beginAttributeGroupTag = d, attributes = [sV s1]\<rparr>) ds,
            sAg := \<lparr>beginAttributeGroupTag = TAG_END, attributes = []\<rparr>\<rparr>)"
    using Cons.IH [of s1] i1 r1 dd(2,3) by (auto simp: s1_def)
  then show ?case
    by (intro exI [of _ it]) (simp add: l s1_def)
qed

text \<open>C20. On an attribute section made of group delimiters only, whatever its
  first byte, the decoder returns one group per delimiter, each holding one
  attribute without values, and a final group tagged 0x03: the spec expects
  empty groups and no group for the end tag.  The first byte is taken as the
  first group's tag without being checked.\<close>

theorem splitAValues_delimiters:
  assumes "list_all (\<lambda>d. isDelimiter d \<and> d \<noteq> TAG_END) ds"
  shows "splitAValues (ft # ds @ TAG_END # ys) =
     Inr (map (\<lambda>d. \<lparr>beginAttributeGroupTag = d, attributes = [\<lparr>values_go = []\<rparr>]\<rparr>) (ft # ds) @
          [\<lparr>beginAttributeGroupTag = TAG_END, attributes = []\<rparr>])"
proof -
  obtain it0 where g: "GetNextOne (NewIterator (ft # ds @ TAG_END # ys)) = Inr (ft, it0, True)"
    and i0: "iter_inv it0" and r0: "rest it0 = ds @ TAG_END # ys"
    using GetNextOne_rest [OF iter_inv_NewIterator rest_NewIterator] by blast
  obtain it where "splitLoop (split_init ft it0) = Inr ((split_init ft it0)\<lparr>sIt := it, sVTag := TAG_END,
      sAgs := sAgs (split_init ft it0) @
        sAg (split_init ft it0)\<lparr>attributes := attributes (sAg (split_init ft it0)) @ [sV (split_init ft it0)]\<rparr> #
        map (\<lambda>d. \<lparr>beginAttributeGroupTag = d, attributes = [sV (split_init ft it0)]\<rparr>) ds,
      sAg := \<lparr>beginAttributeGroupTag = TAG_END, attributes = []\<rparr>\<rparr>)"
    using splitLoop_delimiters [OF _ _ assms, of "split_init ft it0" ys] i0 r0
    by (simp add: split_init_def) blast
  then show ?thesis
    unfolding splitAValues_def g go_bind_Inr prod.case
    by (simp add: split_init_def NewAttribute_def)
qed

theorem splitAValues_delimiters_witness:
  "list_all (\<lambda>d. isDelimiter d \<and> d \<noteq> TAG_END) [TAG_JOB, TAG_PRINTER] \<and>
   splitAValues ([0x44] @ [TAG_JOB, TAG_PRINTER] @ TAG_END # [7]) =
     Inr (map (\<lambda>d. \<lparr>beginAttributeGroupTag = d, attributes = [\<lparr>values_go = []\<rparr>]\<rparr>) [0x44, TAG_JOB, TAG_PRINTER] @
          [\<lparr>beginAttributeGroupTag = TAG_END, attributes = []\<rparr>])"
proof -
  have d: "list_all (\<lambda>d. isDelimiter d \<and> d \<noteq> TAG_END) [TAG_JOB, TAG_PRINTER]"
    by (simp add: checkGroupTag_def)
  from d show ?thesis
    using splitAValues_delimiters [OF d, where ft = "0x44" and ys = "[7]"] by simp
qed

section \<open>Whole messages\<close>

lemma additional_bytes_wf:
  "name v = [] \<Longrightarrow> nameLength v = 0 \<Longrightarrow> additional_bytes v = first_bytes v"
  by (simp add: additional_bytes_def first_bytes_def)

lemma values_bytes_wf:
  "attr_wf a \<Longrightarrow> values_bytes (values_go a) = concat (map first_bytes (values_go a))"
  by (cases "values_go a") (auto simp: attr_wf_def values_bytes_def additional_bytes_wf cong: map_cong)

text \<open>When every attribute keeps \<open>attr_wf\<close> and no value is nil, the encoder
  frames every value alike, the additional ones with their empty name.\<close>

lemma marshallMsg_frames:
  assumes "\<forall>g \<in> set (attributeGroups m). \<forall>a \<in> set (attributes g). attr_wf a"
    and "\<forall>v \<in> set (all_values m). value_go v \<noteq> GNil"
  shows "marshallMsg m = Inr ([majorVer m, minorVer m] @ be16 (operationIdStatusCode m) @
      be32 (requestId m) @ TAG_OPERATION # concat (map first_bytes (all_values m)) @ TAG_END # Data m)"
proof -
  have "no_nil_additional m"
    using assms(2) by (fastforce simp: no_nil_additional_def all_values_def dest: in_set_tl)
  moreover have "concat (map group_bytes (attributeGroups m)) = concat (map first_bytes (all_values m))"
    using assms(1)
    by (auto simp: all_values_def group_bytes_def values_bytes_wf concat_map_concat o_def cong: map_cong)
  ultimately show ?thesis
    using marshallAtrib_bytes by (simp add: marshallMsg_def)
qed

lemma wire_ok_not_nil: "wire_ok m \<Longrightarrow> \<forall>v \<in> set (all_values m). value_go v \<noteq> GNil"
  by (auto simp: wire_ok_def value_ok_def wire_string_value_def)

text \<open>What \<open>ParseMessage\<close> makes of what \<open>marshallMsg\<close> writes, for a
  well-formed message, every field.\<close>

lemma ParseMessage_marshallMsg:
  assumes "wire_ok m"
  shows "go_bind (marshallMsg m) ParseMessage = Inr
    \<lparr>majorVer = ucast (fst (Varint [majorVer m])), minorVer = ucast (fst (Varint [minorVer m])),
     operationIdStatusCode = ucast (fst (Uvarint [ucast (operationIdStatusCode m)])),
     operationOrStatusCode = 0,
     requestId = ucast (fst (Varint (be32 (requestId m)))),
     attributeGroups =
       [\<lparr>beginAttributeGroupTag = TAG_OPERATION, attributes = [\<lparr>values_go = map dec_av (all_values m)\<rparr>]\<rparr>,
        \<lparr>beginAttributeGroupTag = TAG_END, attributes = []\<rparr>],
     endAttributeTag = 0, Data = [],
     IsResponse = typeCheck (ucast (fst (Uvarint [ucast (operationIdStatusCode m)])))\<rparr>"
proof -
  have enc: "marshallMsg m = Inr ([majorVer m, minorVer m] @ be16 (operationIdStatusCode m) @
      be32 (requestId m) @ TAG_OPERATION # concat (map first_bytes (all_values m)) @ TAG_END # Data m)"
    using assms by (intro marshallMsg_frames wire_ok_not_nil) (simp_all add: wire_ok_def)
  have oks: "\<forall>v \<in> set (all_values m). value_ok v"
    using assms by (simp add: wire_ok_def)
  show ?thesis
    using splitAValues_values [OF oks, of "Data m"]
    by (simp add: enc ParseMessage_def be16_def be32_def Let_def)
qed

text \<open>Decoding an encoded message whose values are all framed well panics at
  the first value that \<open>UnMarshallattribute\<close> cannot decode, when the values
  before it are well formed.\<close>

lemma ParseMessage_marshallMsg_fail:
  assumes "\<forall>g \<in> set (attributeGroups m). \<forall>a \<in> set (attributes g). attr_wf a"
    and "\<forall>v \<in> set (all_values m). value_go v \<noteq> GNil"
    and "all_values m = vs @ w # ws" and "\<forall>v \<in> set vs. value_ok v" and "frame_ok w"
    and "UnMarshallattribute (valueTag w) (value_bytes (value_go w)) = Inl e"
  shows "go_bind (marshallMsg m) ParseMessage = Inl e"
proof -
  have "splitAValues (TAG_OPERATION # concat (map first_bytes vs) @ first_bytes w @
          (concat (map first_bytes ws) @ TAG_END # Data m)) = Inl e"
    by (rule splitAValues_fail [OF assms(4-6)])
  then show ?thesis
    using marshallMsg_frames [OF assms(1,2)] assms(3)
    by (simp add: ParseMessage_def be16_def be32_def Let_def)
qed

section \<open>The header fields\<close>

text \<open>\<open>ParseMessage\<close> reads the operation field through \<open>binary.Uvarint\<close> of its
  low byte, which yields that byte when it is below \<open>0x80\<close> and 0 otherwise; the
  result always passes \<open>typeCheck\<close>.  The request id is read as a varint starting
  at its most significant byte, which is 0 for every id below \<open>2^24\<close>.\<close>

lemma Uvarint_byte_u16:
  "(ucast (fst (Uvarint [b])) :: uint16) = (if b < 0x80 then ucast b else 0)"
  by (rule bit_word_eqI) (auto simp: Uvarint_single bit_simps)

lemma typeCheck_byte: "typeCheck (ucast (b :: byte))"
proof -
  have "unat b < 2 ^ LENGTH(8)" by (rule unsigned_less)
  then show ?thesis
    by (simp add: typeCheck_def word_le_nat_alt unsigned_ucast_eq take_bit_nat_eq_self)
qed

lemma typeCheck_0: "typeCheck 0"
  by (simp add: typeCheck_def)

lemma be32_small: "w < 0x1000000 \<Longrightarrow> be32 w = 0 # tl (be32 w)"
proof -
  assume "w < 0x1000000"
  then have "unat w < 2 ^ 24" by (simp add: word_less_nat_alt)
  then have "drop_bit 24 w = 0"
    by (simp add: word_unat_eq_iff unat_drop_bit_eq drop_bit_eq_div unat_div)
  then show ?thesis by (simp add: be32_def)
qed

end
