(* ===== verification/Cups.thy ===== *)
theory Cups
  imports Codec
begin

text \<open>
  The CUPS client of \<^verbatim>\<open>src/ipp/cups.go\<close>: the server record, the request
  builders and \<open>DoRequest\<close>.  Each builder's message is built by the calls of
  the attribute model in the order of the source; a panic of any call ends the
  builder.  \<open>DoRequest\<close> encodes the message, posts it and parses the answer;
  the HTTP exchange is I/O and is a parameter here: \<open>None\<close> when \<open>http.Post\<close>
  returns an error (the source then reads \<open>resp.Body\<close> of a nil response),
  \<open>Some body\<close> for the bytes of the response body.  The file dump and the
  printing of the response are output only.  \<open>DoRequest\<close> returns the posted
  bytes and the attribute it prints, \<open>x.attributeGroups[1].attributes[0]\<close>.
\<close>

section \<open>Operation codes\<close>

definition PRINT_JOB :: uint16 where [simp]: "PRINT_JOB = 0x0002"
definition GET_PRINTER_ATTRIBUTES :: uint16 where [simp]: "GET_PRINTER_ATTRIBUTES = 0x000b"
definition PAUSE_PRINTER :: uint16 where [simp]: "PAUSE_PRINTER = 0x0010"
definition CUPS_GET_PRINTERS :: uint16 where [simp]: "CUPS_GET_PRINTERS = 0x4002"

section \<open>The server and its requests\<close>

record CupsServer =
  uri :: string
  username :: string
  password :: string
  requestCounter :: int32

definition SetServer :: "CupsServer \<Rightarrow> string \<Rightarrow> CupsServer" where
  "SetServer c server = c\<lparr>uri := server\<rparr>"

definition CreateRequest :: "CupsServer \<Rightarrow> uint16 \<Rightarrow> Message" where
  "CreateRequest c operationId = newMessage operationId"

definition GetPrinters_request :: "CupsServer \<Rightarrow> Message go" where
  "GetPrinters_request c =
     go_bind (AddAttribute (CreateRequest c CUPS_GET_PRINTERS)
                TAG_CHARSET (bstr ''attributes-charset'') (GCharset (bstr ''utf-8''))) (\<lambda>m.
     go_bind (AddAttribute m TAG_LANGUAGE (bstr ''attributes-natural-language'')
                (GNaturalLanguage (bstr ''en-us''))) (\<lambda>m.
     go_bind (AddAttribute m TAG_KEYWORD (bstr ''requested-attributes'') (GKeyword (bstr ''printer-name''))) (\<lambda>m.
     go_bind (AddAttribute m TAG_ENUM (bstr ''printer-type'') (GEnum 0)) (\<lambda>m.
     AddAttribute m TAG_ENUM (bstr ''printer-type-mask'') (GEnum 1)))))"

definition GetPrinterAttributes_request :: "CupsServer \<Rightarrow> Message go" where
  "GetPrinterAttributes_request c =
     go_bind (AddAttribute (CreateRequest c GET_PRINTER_ATTRIBUTES)
                TAG_CHARSET (bstr ''attributes-charset'') (GCharset (bstr ''utf-8''))) (\<lambda>m.
     go_bind (AddAttribute m TAG_LANGUAGE (bstr ''attributes-natural-language'')
                (GNaturalLanguage (bstr ''en-us''))) (\<lambda>m.
     go_bind (AddAttribute m TAG_URI (bstr ''printer-uri'') (GUri (bstr ''ipp://192.168.1.1:631/ipp/''))) (\<lambda>m.
     go_bind (addValues NewAttribute
                [(TAG_KEYWORD, bstr ''requested-attributes'', GKeyword (bstr ''copies-supported'')),
                 (TAG_KEYWORD, [], GKeyword (bstr ''document-format-supported'')),
                 (TAG_KEYWORD, [], GKeyword (bstr ''printer-is-accepting-jobs'')),
                 (TAG_KEYWORD, [], GKeyword (bstr ''printer-state'')),
                 (TAG_KEYWORD, [], GKeyword (bstr ''printer-state-message'')),
                 (TAG_KEYWORD, [], GKeyword (bstr ''printer-state-reasons''))]) (\<lambda>a.
     Inr (AppendAttribute m a)))))"

definition PrintTestPage_request :: "CupsServer \<Rightarrow> Message go" where
  "PrintTestPage_request c =
     go_bind (AddAttribute (CreateRequest c PAUSE_PRINTER)
                TAG_CHARSET (bstr ''attributes-charset'') (GCharset (bstr ''utf-8''))) (\<lambda>m.
     AddAttribute m TAG_LANGUAGE (bstr ''attributes-natural-language'') (GNaturalLanguage (bstr ''en-us'')))"

text \<open>\<open>DoRequest\<close>: the message is encoded and posted; the answer is parsed and
  its second group's first attribute is read, an index expression that panics
  when the group or the attribute is missing.\<close>

definition DoRequest :: "CupsServer \<Rightarrow> Message \<Rightarrow> bytes option \<Rightarrow> (bytes \<times> attribute_go) go" where
  "DoRequest c m resp =
     go_bind (marshallMsg m) (\<lambda>s.
       case resp of
         None \<Rightarrow> Inl NilDereference
       | Some body \<Rightarrow>
           go_bind (ParseMessage body) (\<lambda>x.
             if 1 < length (attributeGroups x) \<and> attributes (attributeGroups x ! 1) \<noteq> []
             then Inr (s, hd (attributes (attributeGroups x ! 1)))
             else Inl IndexOutOfRange))"

definition GetPrinters :: "CupsServer \<Rightarrow> bytes option \<Rightarrow> (bytes \<times> attribute_go) go" where
  "GetPrinters c resp = go_bind (GetPrinters_request c) (\<lambda>m. DoRequest c m resp)"

definition GetPrinterAttributes :: "CupsServer \<Rightarrow> bytes option \<Rightarrow> (bytes \<times> attribute_go) go" where
  "GetPrinterAttributes c resp = go_bind (GetPrinterAttributes_request c) (\<lambda>m. DoRequest c m resp)"

definition PrintTestPage :: "CupsServer \<Rightarrow> bytes option \<Rightarrow> (bytes \<times> attribute_go) go" where
  "PrintTestPage c resp = go_bind (PrintTestPage_request c) (\<lambda>m. DoRequest c m resp)"

section \<open>Properties of the client\<close>

text \<open>The groups of every message \<open>ParseMessage\<close> returns have the shape the
  decoder's invariant gives them: one attribute in each group but the last, none
  in the last.\<close>

lemma ParseMessage_shape:
  assumes "ParseMessage body = Inr x"
  shows "attributeGroups x \<noteq> [] \<and> attributes (last (attributeGroups x)) = [] \<and>
         (\<forall>g \<in> set (butlast (attributeGroups x)). length (attributes g) = 1)"
proof -
  from assms obtain gs where gs: "splitAValues (drop 8 body) = Inr gs" and x: "attributeGroups x = gs"
    by (auto simp: ParseMessage_def Let_def go_bind_eq_Inr split: if_splits)
  from gs obtain s where "gs = sAgs s @ [sAg s]" and "split_shape s"
    by (rule splitAValues_Inr)
  with x show ?thesis
    by (simp add: split_shape_def list_all_iff)
qed

lemma second_group_attribute:
  assumes "gs \<noteq> []" and "attributes (last gs) = []"
    and "\<forall>g \<in> set (butlast gs). length (attributes g) = 1"
  shows "(1 < length gs \<and> attributes (gs ! 1) \<noteq> []) \<longleftrightarrow> 2 < length gs"
proof
  assume a: "1 < length gs \<and> attributes (gs ! 1) \<noteq> []"
  show "2 < length gs"
  proof (rule ccontr)
    assume "\<not> 2 < length gs"
    with a have "length gs = 2" by linarith
    then have "gs ! 1 = last gs" using assms(1) by (simp add: last_conv_nth)
    with a assms(2) show False by simp
  qed
next
  assume "2 < length gs"
  then have "gs ! 1 \<in> set (butlast gs)"
    by (metis One_nat_def diff_Suc_1 length_butlast less_diff_conv nth_butlast nth_mem one_add_one
              plus_1_eq_Suc)
  with assms(3) \<open>2 < length gs\<close> show "1 < length gs \<and> attributes (gs ! 1) \<noteq> []"
    by fastforce
qed

text \<open>C26. DoRequest panics on a transport error (it reads the body of a nil
  response), and on a response it can parse it panics with an index out of range
  exactly when the parsed message has at most two groups, that is when the
  response has a single attribute group before its end tag: it prints the first
  attribute of the second group, and the decoder leaves the last group empty.
  The server SetServer records plays no part: DoRequest posts to a fixed
  address.\<close>

theorem DoRequest_panics:
  assumes "marshallMsg m = Inr s" and "ParseMessage body = Inr x"
  shows "DoRequest c m None = Inl NilDereference \<and>
         (DoRequest c m (Some body) = Inl IndexOutOfRange \<longleftrightarrow> length (attributeGroups x) \<le> 2) \<and>
         DoRequest (SetServer c server) m r = DoRequest c m r"
proof -
  have "(1 < length (attributeGroups x) \<and> attributes (attributeGroups x ! 1) \<noteq> []) \<longleftrightarrow>
        2 < length (attributeGroups x)"
    using ParseMessage_shape [OF assms(2)] by (intro second_group_attribute) simp_all
  with assms show ?thesis
    by (auto simp: DoRequest_def)
qed

theorem DoRequest_panics_witness:
  "marshallMsg (newMessage 0x0B) = Inr [2, 1, 0, 0x0B, 0, 0, 0, 1, 1, 3] \<and>
   (\<exists>x. ParseMessage [2, 0, 0, 0, 0, 0, 0, 1, 1, 0x47, 0, 1, 97, 0, 1, 117, 3] = Inr x \<and>
        length (attributeGroups x) = 2) \<and>
   DoRequest \<lparr>uri = [], username = [], password = [], requestCounter = 0\<rparr> (newMessage 0x0B) None = Inl NilDereference \<and>
   DoRequest \<lparr>uri = [], username = [], password = [], requestCounter = 0\<rparr> (newMessage 0x0B) (Some [2, 0, 0, 0, 0, 0, 0, 1, 1, 0x47, 0, 1, 97, 0, 1, 117, 3]) =
     Inl IndexOutOfRange"
proof -
  define x where "x = projr (ParseMessage [2, 0, 0, 0, 0, 0, 0, 1, 1, 0x47, 0, 1, 97, 0, 1, 117, 3])"
  have m: "marshallMsg (newMessage 0x0B) = Inr [2, 1, 0, 0x0B, 0, 0, 0, 1, 1, 3]"
    by code_simp
  have p: "ParseMessage [2, 0, 0, 0, 0, 0, 0, 1, 1, 0x47, 0, 1, 97, 0, 1, 117, 3] = Inr x"
    unfolding x_def by code_simp
  have l: "length (attributeGroups x) = 2"
    unfolding x_def by code_simp
  from DoRequest_panics [OF m p, of "\<lparr>uri = [], username = [], password = [], requestCounter = 0\<rparr>"] m p l show ?thesis
    by auto
qed

text \<open>The exact bytes each request builder of the client posts: the
  version 2.1, the operation id (CUPS-Get-Printers 0x4002, Get-Printer-Attributes
  0x000B, and Pause-Printer 0x0010 for PrintTestPage, which sends no print
  request), request id 1, one operation-attributes tag, every attribute, the
  additional keyword values with name length 0, the end tag and no document.\<close>

theorem client_request_bytes:
  "go_bind (GetPrinters_request c) marshallMsg = Inr
     ([2, 1, 0x40, 0x02, 0, 0, 0, 1, 1] @
      [0x47, 0, 18] @ bstr ''attributes-charset'' @ [0, 5] @ bstr ''utf-8'' @
      [0x48, 0, 27] @ bstr ''attributes-natural-language'' @ [0, 5] @ bstr ''en-us'' @
      [0x44, 0, 20] @ bstr ''requested-attributes'' @ [0, 12] @ bstr ''printer-name'' @
      [0x23, 0, 12] @ bstr ''printer-type'' @ [0, 4, 0, 0, 0, 0] @
      [0x23, 0, 17] @ bstr ''printer-type-mask'' @ [0, 4, 0, 0, 0, 1] @ [3]) \<and>
   go_bind (GetPrinterAttributes_request c) marshallMsg = Inr
     ([2, 1, 0, 0x0B, 0, 0, 0, 1, 1] @
      [0x47, 0, 18] @ bstr ''attributes-charset'' @ [0, 5] @ bstr ''utf-8'' @
      [0x48, 0, 27] @ bstr ''attributes-natural-language'' @ [0, 5] @ bstr ''en-us'' @
      [0x45, 0, 11] @ bstr ''printer-uri'' @ [0, 26] @ bstr ''ipp://192.168.1.1:631/ipp/'' @
      [0x44, 0, 20] @ bstr ''requested-attributes'' @ [0, 16] @ bstr ''copies-supported'' @
      [0x44, 0, 0, 0, 25] @ bstr ''document-format-supported'' @
      [0x44, 0, 0, 0, 25] @ bstr ''printer-is-accepting-jobs'' @
      [0x44, 0, 0, 0, 13] @ bstr ''printer-state'' @
      [0x44, 0, 0, 0, 21] @ bstr ''printer-state-message'' @
      [0x44, 0, 0, 0, 21] @ bstr ''printer-state-reasons'' @ [3]) \<and>
   go_bind (PrintTestPage_request c) marshallMsg = Inr
     ([2, 1, 0, 0x10, 0, 0, 0, 1, 1] @
      [0x47, 0, 18] @ bstr ''attributes-charset'' @ [0, 5] @ bstr ''utf-8'' @
      [0x48, 0, 27] @ bstr ''attributes-natural-language'' @ [0, 5] @ bstr ''en-us'' @ [3])"
  by code_simp


text \<open>The CUPS printer-type flags of constants.go stop at 16 bits: of
  the 26 flags only 18 values are distinct, IMPLICIT and DELETE coincide with
  SMALL, DEFAULT and NOT_SHARED with MEDIUM, FAX and AUTHENTICATED with LARGE,
  REJECTING and COMMANDS with VARIABLE.  GetPrinters sends the flag values of
  LOCAL as printer-type and of CLASS as printer-type-mask.\<close>

theorem cups_printer_flags_collide:
  "length cups_printer_flags = 26 \<and> card (set (map snd cups_printer_flags)) = 18 \<and>
   map (map_of cups_printer_flags)
     [''CUPS_PRINTER_IMPLICIT'', ''CUPS_PRINTER_DELETE'', ''CUPS_PRINTER_DEFAULT'', ''CUPS_PRINTER_NOT_SHARED'',
      ''CUPS_PRINTER_FAX'', ''CUPS_PRINTER_AUTHENTICATED'', ''CUPS_PRINTER_REJECTING'', ''CUPS_PRINTER_COMMANDS''] =
   map (map_of cups_printer_flags)
     [''CUPS_PRINTER_SMALL'', ''CUPS_PRINTER_SMALL'', ''CUPS_PRINTER_MEDIUM'', ''CUPS_PRINTER_MEDIUM'',
      ''CUPS_PRINTER_LARGE'', ''CUPS_PRINTER_LARGE'', ''CUPS_PRINTER_VARIABLE'', ''CUPS_PRINTER_VARIABLE''] \<and>
   map_sum id (\<lambda>m. map (\<lambda>g. map value_go (values_go (hd (attributes g)))) (drop 3 (attributeGroups m)))
     (GetPrinters_request c) =
   Inr [[GEnum (word_of_int (the (map_of cups_printer_flags ''CUPS_PRINTER_LOCAL'')))],
        [GEnum (word_of_int (the (map_of cups_printer_flags ''CUPS_PRINTER_CLASS'')))]]"
  unfolding GetPrinters_request_def CreateRequest_def by code_simp

end
