(* ===== verification/Methods.thy ===== *)
theory Methods
  imports Values
begin

text \<open>
  The value types' own methods in \<^verbatim>\<open>src/ipp/ippParser.go\<close>: the
  \<open>bytes()\<close> of \<open>signedShort\<close>, \<open>signedByte\<close> and \<open>signedInteger\<close>
  (little-endian \<open>binary.Write\<close>), every \<open>MarshalIPP\<close> and
  \<open>UnMarshalIPP\<close> method, the \<open>String\<close> methods, the \<open>dateTime\<close> and
  \<open>resolution\<close> constructors, and the \<open>Marshal\<close> closures that \<open>refer()\<close>
  installs.  The self-recursive \<open>MarshalIPP\<close> of \<open>integer\<close> and \<open>enum\<close> are
  partial functions into \<open>option\<close>, \<open>None\<close> standing for a call that never
  returns.  Slicing \<open>b[lo:hi]\<close> is \<open>go_slice\<close>, checked against the length of
  \<open>b\<close> (the capacity of the slices these methods receive).
\<close>

section \<open>Little-endian layouts\<close>

text \<open>\<open>binary.Write(buf, binary.LittleEndian, i)\<close> for the \<open>int16\<close> of a
  \<open>signedShort\<close>, the \<open>int8\<close> of a \<open>signedByte\<close> and the \<open>int32\<close> of a
  \<open>signedInteger\<close>.\<close>

definition signedShort_bytes :: "int16 \<Rightarrow> bytes" where
  [wire_defs]: "signedShort_bytes w = [ucast w, ucast (drop_bit 8 w)]"

definition signedByte_bytes :: "int8 \<Rightarrow> bytes" where
  [wire_defs]: "signedByte_bytes w = [w]"

definition signedInteger_bytes :: "int32 \<Rightarrow> bytes" where
  [wire_defs]: "signedInteger_bytes w =
     [ucast w, ucast (drop_bit 8 w), ucast (drop_bit 16 w), ucast (drop_bit 24 w)]"

section \<open>MarshalIPP\<close>

text \<open>The byte-string types: \<open>bytes()\<close> is the conversion \<open>[]byte(*i)\<close>, and
  \<open>MarshalIPP\<close> appends those bytes to an empty buffer.\<close>

definition charset_bytes :: "bytes \<Rightarrow> bytes" where
  "charset_bytes i = i"

definition uri_bytes :: "bytes \<Rightarrow> bytes" where
  "uri_bytes i = i"

definition naturalLanguage_MarshalIPP :: "bytes \<Rightarrow> bytes" where
  "naturalLanguage_MarshalIPP i = [] @ i"

definition keyword_MarshalIPP :: "bytes \<Rightarrow> bytes" where
  "keyword_MarshalIPP i = [] @ i"

text \<open>The other methods of the byte-string types that the decoder's closures
  call: \<open>len()\<close> is the length of \<open>bytes()\<close>, \<open>UnMarshalIPP\<close> stores its argument,
  \<open>String()\<close> converts the bytes to a Go string (the same bytes).\<close>

definition charset_len :: "bytes \<Rightarrow> int" where
  "charset_len i = int (length (charset_bytes i))"

definition charset_MarshalIPP :: "bytes \<Rightarrow> bytes" where
  "charset_MarshalIPP i = [] @ i"

definition charset_UnMarshalIPP :: "bytes \<Rightarrow> bytes" where
  "charset_UnMarshalIPP b = b"

definition charset_String :: "bytes \<Rightarrow> bytes" where
  "charset_String i = i"

definition naturalLanguage_bytes :: "bytes \<Rightarrow> bytes" where
  "naturalLanguage_bytes i = i"

definition naturalLanguage_len :: "bytes \<Rightarrow> int" where
  "naturalLanguage_len i = int (length (naturalLanguage_bytes i))"

definition naturalLanguage_string :: "bytes \<Rightarrow> bytes" where
  "naturalLanguage_string i = naturalLanguage_bytes i"

definition naturalLanguage_String :: "bytes \<Rightarrow> bytes" where
  "naturalLanguage_String i = naturalLanguage_string i"

definition naturalLanguage_UnMarshalIPP :: "bytes \<Rightarrow> bytes" where
  "naturalLanguage_UnMarshalIPP b = b"

definition mimeMediaType_bytes :: "bytes \<Rightarrow> bytes" where
  "mimeMediaType_bytes i = i"

definition mimeMediaType_len :: "bytes \<Rightarrow> int" where
  "mimeMediaType_len i = int (length (mimeMediaType_bytes i))"

definition mimeMediaType_MarshalIPP :: "bytes \<Rightarrow> bytes" where
  "mimeMediaType_MarshalIPP i = [] @ i"

definition mimeMediaType_UnMarshalIPP :: "bytes \<Rightarrow> bytes" where
  "mimeMediaType_UnMarshalIPP b = b"

definition mimeMediaType_String :: "bytes \<Rightarrow> bytes" where
  "mimeMediaType_String i = i"

definition keyword_bytes :: "bytes \<Rightarrow> bytes" where
  "keyword_bytes i = i"

definition keyword_len :: "bytes \<Rightarrow> int" where
  "keyword_len i = int (length (keyword_bytes i))"

definition keyword_UnMarshalIPP :: "bytes \<Rightarrow> bytes" where
  "keyword_UnMarshalIPP b = b"

definition keyword_String :: "bytes \<Rightarrow> bytes" where
  "keyword_String i = i"

text \<open>The byte-string types no closure calls: \<open>textWithoutLanguage\<close> and
  \<open>nameWithoutLanguage\<close> (\<open>bytes()\<close>, \<open>len()\<close>), \<open>uri\<close> and \<open>uriScheme\<close>
  (\<open>bytes()\<close>, \<open>len()\<close>, \<open>MarshalIPP\<close>, \<open>UnMarshalIPP\<close>), and the \<open>len()\<close>
  of the three integer types, the length of their \<open>bytes()\<close>.\<close>

definition textWithoutLanguage_bytes :: "bytes \<Rightarrow> bytes" where
  "textWithoutLanguage_bytes i = i"

definition textWithoutLanguage_len :: "bytes \<Rightarrow> int" where
  "textWithoutLanguage_len i = int (length (textWithoutLanguage_bytes i))"

definition nameWithoutLanguage_bytes :: "bytes \<Rightarrow> bytes" where
  "nameWithoutLanguage_bytes i = i"

definition nameWithoutLanguage_len :: "bytes \<Rightarrow> int" where
  "nameWithoutLanguage_len i = int (length (nameWithoutLanguage_bytes i))"

definition uri_len :: "bytes \<Rightarrow> int" where
  "uri_len i = int (length (uri_bytes i))"

definition uri_MarshalIPP :: "bytes \<Rightarrow> bytes" where
  "uri_MarshalIPP i = [] @ i"

definition uri_UnMarshalIPP :: "bytes \<Rightarrow> bytes" where
  "uri_UnMarshalIPP b = b"

definition uriScheme_bytes :: "bytes \<Rightarrow> bytes" where
  "uriScheme_bytes i = i"

definition uriScheme_len :: "bytes \<Rightarrow> int" where
  "uriScheme_len i = int (length (uriScheme_bytes i))"

definition uriScheme_MarshalIPP :: "bytes \<Rightarrow> bytes" where
  "uriScheme_MarshalIPP i = [] @ i"

definition uriScheme_UnMarshalIPP :: "bytes \<Rightarrow> bytes" where
  "uriScheme_UnMarshalIPP b = b"

definition signedShort_len :: "int16 \<Rightarrow> int" where
  "signedShort_len s = int (length (signedShort_bytes s))"

definition signedByte_len :: "int8 \<Rightarrow> int" where
  "signedByte_len i = int (length (signedByte_bytes i))"

definition signedInteger_len :: "int32 \<Rightarrow> int" where
  "signedInteger_len i = int (length (signedInteger_bytes i))"

text \<open>The four fields of an \<open>octetString\<close>, and of the \<open>textWithLanguage\<close> and
  \<open>nameWithLanguage\<close> types declared as \<open>octetString\<close>, are appended in order;
  the error result is always nil.\<close>

definition octetString_MarshalIPP :: "octetString \<Rightarrow> bytes" where
  "octetString_MarshalIPP v =
     signedShort_bytes (os_nameLength v) @ os_name v @ signedShort_bytes (os_valueLength v) @ os_value v"

definition textWithLanguage_MarshalIPP :: "octetString \<Rightarrow> bytes" where
  "textWithLanguage_MarshalIPP t =
     signedShort_bytes (os_nameLength t) @ os_name t @ signedShort_bytes (os_valueLength t) @ os_value t"

definition nameWithLanguage_MarshalIPP :: "octetString \<Rightarrow> bytes" where
  "nameWithLanguage_MarshalIPP t =
     signedShort_bytes (os_nameLength t) @ os_name t @ signedShort_bytes (os_valueLength t) @ os_value t"

definition ippBoolean_MarshalIPP :: "int8 \<Rightarrow> bytes" where
  "ippBoolean_MarshalIPP i = signedByte_bytes i"

text \<open>\<open>integer.MarshalIPP\<close> and \<open>enum.MarshalIPP\<close> are \<open>return i.MarshalIPP()\<close>:
  each calls itself on the same receiver.\<close>

partial_function (option) integer_MarshalIPP :: "int32 \<Rightarrow> bytes option" where
  "integer_MarshalIPP i = integer_MarshalIPP i"

partial_function (option) enum_MarshalIPP :: "int32 \<Rightarrow> bytes option" where
  "enum_MarshalIPP e = enum_MarshalIPP e"

definition dateTime_MarshalIPP :: "dateTime \<Rightarrow> bytes" where
  "dateTime_MarshalIPP v =
     signedShort_bytes (year v) @ signedByte_bytes (month v) @ signedByte_bytes (day v)
     @ signedByte_bytes (hour v) @ signedByte_bytes (minutes v) @ signedByte_bytes (seconds v)
     @ signedByte_bytes (deciSeconds v) @ signedByte_bytes (UTC v) @ signedByte_bytes (hoursFrUTC v)"

definition resolution_MarshalIPP :: "resolution \<Rightarrow> bytes" where
  "resolution_MarshalIPP v =
     signedInteger_bytes (crossFeedDirection v) @ signedInteger_bytes (feedDirection v)
     @ signedByte_bytes (units v)"

definition rangeOfInteger_MarshalIPP :: "rangeOfInteger \<Rightarrow> bytes" where
  "rangeOfInteger_MarshalIPP v = signedInteger_bytes (lowerBound v) @ signedInteger_bytes (upperBound v)"

section \<open>UnMarshalIPP\<close>

text \<open>\<open>octetString.UnMarshalIPP\<close>, and the identical bodies of
  \<open>textWithLanguage\<close> and \<open>nameWithLanguage\<close>: the name length is the
  varint of the first two bytes truncated to \<open>int16\<close>, and the three slice
  bounds after it are computed in \<open>int16\<close> arithmetic (so they wrap).\<close>

definition octetString_UnMarshalIPP :: "bytes \<Rightarrow> octetString go" where
  "octetString_UnMarshalIPP b =
     go_bind (go_slice b 0 2) (\<lambda>b0. let ll = (ucast (fst (Varint b0)) :: int16) in
     go_bind (go_slice b 3 (sint ll)) (\<lambda>nm.
     go_bind (go_slice b (sint (ll + 1)) (sint (ll + 3))) (\<lambda>b1.
     go_bind (go_slice b (sint (ll + 4)) (int (length b))) (\<lambda>val.
       Inr \<lparr>os_nameLength = ll, os_name = nm, os_valueLength = ucast (fst (Varint b1)),
            os_value = val\<rparr>))))"

definition textWithLanguage_UnMarshalIPP :: "bytes \<Rightarrow> octetString go" where
  "textWithLanguage_UnMarshalIPP b =
     go_bind (go_slice b 0 2) (\<lambda>b0. let ll = (ucast (fst (Varint b0)) :: int16) in
     go_bind (go_slice b 3 (sint ll)) (\<lambda>nm.
     go_bind (go_slice b (sint (ll + 1)) (sint (ll + 3))) (\<lambda>b1.
     go_bind (go_slice b (sint (ll + 4)) (int (length b))) (\<lambda>val.
       Inr \<lparr>os_nameLength = ll, os_name = nm, os_valueLength = ucast (fst (Varint b1)),
            os_value = val\<rparr>))))"

definition nameWithLanguage_UnMarshalIPP :: "bytes \<Rightarrow> octetString go" where
  "nameWithLanguage_UnMarshalIPP b =
     go_bind (go_slice b 0 2) (\<lambda>b0. let ll = (ucast (fst (Varint b0)) :: int16) in
     go_bind (go_slice b 3 (sint ll)) (\<lambda>nm.
     go_bind (go_slice b (sint (ll + 1)) (sint (ll + 3))) (\<lambda>b1.
     go_bind (go_slice b (sint (ll + 4)) (int (length b))) (\<lambda>val.
       Inr \<lparr>os_nameLength = ll, os_name = nm, os_valueLength = ucast (fst (Varint b1)),
            os_value = val\<rparr>))))"

text \<open>\<open>octetString.validate()\<close> compares \<open>4\<close> plus the byte lengths of the two
  length fields with the byte length of the first (the log output aside).\<close>

definition octetString_validate :: "octetString \<Rightarrow> bool" where
  "octetString_validate v =
     (4 + signedShort_len (os_nameLength v) + signedShort_len (os_valueLength v)
      = signedShort_len (os_nameLength v))"

text \<open>\<open>binary.Varint(dt[lo:hi])\<close>, the read each field of
  \<open>dateTime.UnMarshalIPP\<close> makes.\<close>

definition varint_at :: "byte go_sl \<Rightarrow> int \<Rightarrow> int \<Rightarrow> int64 go" where
  "varint_at b lo hi = go_bind (go_reslice b lo hi) (\<lambda>s. Inr (fst (Varint (sl_elems s))))"

definition dateTime_UnMarshalIPP :: "byte go_sl \<Rightarrow> dateTime go" where
  "dateTime_UnMarshalIPP dt =
     go_bind (varint_at dt 0 16) (\<lambda>y.
     go_bind (varint_at dt 17 24) (\<lambda>mo.
     go_bind (varint_at dt 25 32) (\<lambda>d.
     go_bind (varint_at dt 33 40) (\<lambda>h.
     go_bind (varint_at dt 41 48) (\<lambda>mi.
     go_bind (varint_at dt 49 56) (\<lambda>se.
     go_bind (varint_at dt 57 64) (\<lambda>ds.
     go_bind (varint_at dt 65 72) (\<lambda>u.
     go_bind (varint_at dt 73 80) (\<lambda>hu.
       Inr \<lparr>year = ucast y, month = ucast mo, day = ucast d, hour = ucast h,
            minutes = ucast mi, seconds = ucast se, deciSeconds = ucast ds,
            UTC = ucast u, hoursFrUTC = ucast hu\<rparr>)))))))))"

definition resolution_UnMarshalIPP :: "bytes \<Rightarrow> resolution go" where
  "resolution_UnMarshalIPP b =
     go_bind (go_slice b 0 4) (\<lambda>s.
     go_bind (go_slice b 5 8) (\<lambda>d.
     go_bind (go_slice b 9 (int (length b))) (\<lambda>e.
       Inr \<lparr>crossFeedDirection = signedInteger_UnMarshall s,
            feedDirection = signedInteger_UnMarshall d, units = signedByte_UnMarshall e\<rparr>)))"

text \<open>\<open>integer.UnMarshalIPP\<close> ignores its argument and changes nothing.\<close>

definition integer_UnMarshalIPP :: "int32 \<Rightarrow> bytes \<Rightarrow> int32" where
  "integer_UnMarshalIPP i b = i"

section \<open>Constructors\<close>

text \<open>The fields of a \<open>time.Time\<close> that \<open>DateTime\<close> reads: \<open>Year()\<close>, \<open>Month()\<close>,
  \<open>Day()\<close>, \<open>Hour()\<close>, \<open>Minute()\<close>, \<open>Second()\<close>, \<open>Nanosecond()\<close> and the
  offset in seconds east of UTC that \<open>Zone()\<close> returns.\<close>

record go_time =
  t_year :: int
  t_month :: int
  t_day :: int
  t_hour :: int
  t_minute :: int
  t_second :: int
  t_nanosecond :: int
  t_offset :: int

text \<open>Go's integer division truncates toward zero.\<close>

definition go_quot :: "int \<Rightarrow> int \<Rightarrow> int" where
  "go_quot a b = sgn a * sgn b * (\<bar>a\<bar> div \<bar>b\<bar>)"

text \<open>\<open>DateTime(d)\<close>: each conversion \<open>signedByte(x)\<close> or \<open>signedShort(x)\<close>
  of a Go \<open>int\<close> keeps the low bits.\<close>

definition DateTime :: "go_time \<Rightarrow> dateTime" where
  "DateTime d =
     \<lparr>year = word_of_int (t_year d), month = word_of_int (t_month d), day = word_of_int (t_day d),
      hour = word_of_int (t_hour d), minutes = word_of_int (t_minute d),
      seconds = word_of_int (t_second d), deciSeconds = word_of_int (t_nanosecond d),
      UTC = 0x2d, hoursFrUTC = word_of_int (go_quot (t_offset d) 60)\<rparr>"

definition NewDateTime :: dateTime where
  "NewDateTime = \<lparr>year = 0, month = 0, day = 0, hour = 0, minutes = 0, seconds = 0,
                  deciSeconds = 0, UTC = 0, hoursFrUTC = 0\<rparr>"

text \<open>\<open>Now()\<close> is \<open>DateTime\<close> of the clock reading, taken as an argument.\<close>

definition Now :: "go_time \<Rightarrow> dateTime" where
  "Now t = DateTime t"

definition NewResolution :: "int \<Rightarrow> int \<Rightarrow> int8 \<Rightarrow> resolution" where
  "NewResolution c f u = \<lparr>crossFeedDirection = word_of_int c, feedDirection = word_of_int f, units = u\<rparr>"

section \<open>String methods\<close>

definition ippBoolean_String :: "int8 \<Rightarrow> string" where
  "ippBoolean_String i = (if i = 0 then ''false'' else if i = 1 then ''true'' else '''')"

text \<open>Go's conversion \<open>string(x)\<close> of an integer \<open>x\<close> yields the UTF-8 encoding of
  the code point \<open>x\<close>, and of U+FFFD when \<open>x\<close> is not a valid code point.\<close>

definition utf8_rune :: "int \<Rightarrow> bytes" where
  "utf8_rune c =
     (let c = (if c < 0 \<or> 0x10FFFF < c \<or> (0xD800 \<le> c \<and> c \<le> 0xDFFF) then 0xFFFD else c) in
      if c < 0x80 then [word_of_int c]
      else if c < 0x800 then [word_of_int (0xC0 + c div 64), word_of_int (0x80 + c mod 64)]
      else if c < 0x10000 then
        [word_of_int (0xE0 + c div 4096), word_of_int (0x80 + c div 64 mod 64), word_of_int (0x80 + c mod 64)]
      else [word_of_int (0xF0 + c div 262144), word_of_int (0x80 + c div 4096 mod 64),
            word_of_int (0x80 + c div 64 mod 64), word_of_int (0x80 + c mod 64)])"

definition integer_String :: "int32 \<Rightarrow> bytes" where
  "integer_String i = utf8_rune (sint i)"

definition enum_String :: "int32 \<Rightarrow> bytes" where
  "enum_String i = utf8_rune (sint i)"

definition rangeOfInteger_String :: "rangeOfInteger \<Rightarrow> bytes" where
  "rangeOfInteger_String v = utf8_rune (sint (lowerBound v)) @ bstr '' to '' @ utf8_rune (sint (upperBound v))"

section \<open>The Marshal closures of refer()\<close>

text \<open>The \<open>Marshal\<close> closure that \<open>refer()\<close> installs for a tag, applied to the
  value: a type assertion on the value, then the type's \<open>MarshalIPP\<close> (for
  \<open>charset\<close> and \<open>uri\<close> its \<open>bytes()\<close>).  The outer \<open>option\<close> is the call's
  return: \<open>None\<close> for the integer and enum closures, whose \<open>MarshalIPP\<close> never
  returns.  A tag without a case leaves \<open>Marshal\<close> nil.\<close>

definition refer_Marshal :: "byte \<Rightarrow> gvalue \<Rightarrow> bytes go option" where
  "refer_Marshal t v =
     (if t = TAG_STRING then
        (case v of GOctetString s \<Rightarrow> Some (Inr (octetString_MarshalIPP s)) | _ \<Rightarrow> Some (Inl InterfaceConversion))
      else if t = TAG_DATE then
        (case v of GDateTime d \<Rightarrow> Some (Inr (dateTime_MarshalIPP d)) | _ \<Rightarrow> Some (Inl InterfaceConversion))
      else if t = TAG_RESOLUTION then
        (case v of GResolution r \<Rightarrow> Some (Inr (resolution_MarshalIPP r)) | _ \<Rightarrow> Some (Inl InterfaceConversion))
      else if t = TAG_RANGE then
        (case v of GRangeOfInteger r \<Rightarrow> Some (Inr (rangeOfInteger_MarshalIPP r)) | _ \<Rightarrow> Some (Inl InterfaceConversion))
      else if t = TAG_TEXTLANG then
        (case v of GTextWithLanguage s \<Rightarrow> Some (Inr (textWithLanguage_MarshalIPP s)) | _ \<Rightarrow> Some (Inl InterfaceConversion))
      else if t = TAG_LANGUAGE then
        (case v of GNaturalLanguage b \<Rightarrow> Some (Inr (naturalLanguage_MarshalIPP b)) | _ \<Rightarrow> Some (Inl InterfaceConversion))
      else if t = TAG_KEYWORD then
        (case v of GKeyword b \<Rightarrow> Some (Inr (keyword_MarshalIPP b)) | _ \<Rightarrow> Some (Inl InterfaceConversion))
      else if t = TAG_NAMELANG then
        (case v of GNameWithLanguage s \<Rightarrow> Some (Inr (nameWithLanguage_MarshalIPP s)) | _ \<Rightarrow> Some (Inl InterfaceConversion))
      else if t = TAG_INTEGER then
        (case v of GInteger i \<Rightarrow> map_option Inr (integer_MarshalIPP i) | _ \<Rightarrow> Some (Inl InterfaceConversion))
      else if t = TAG_BOOLEAN then
        (case v of GBoolean i \<Rightarrow> Some (Inr (ippBoolean_MarshalIPP i)) | _ \<Rightarrow> Some (Inl InterfaceConversion))
      else if t = TAG_ENUM then
        (case v of GEnum e \<Rightarrow> map_option Inr (enum_MarshalIPP e) | _ \<Rightarrow> Some (Inl InterfaceConversion))
      else if t = TAG_CHARSET then
        (case v of GCharset b \<Rightarrow> Some (Inr (charset_bytes b)) | _ \<Rightarrow> Some (Inl InterfaceConversion))
      else if t = TAG_URI then
        (case v of GUri b \<Rightarrow> Some (Inr (uri_bytes b)) | _ \<Rightarrow> Some (Inl InterfaceConversion))
      else Some (Inl NilFuncCall))"

text \<open>The stored length fields of a with-language value count its bytes.\<close>

fun os_lengths_ok :: "gvalue \<Rightarrow> bool" where
  "os_lengths_ok (GTextWithLanguage s) =
     (os_nameLength s = of_nat (length (os_name s)) \<and> os_valueLength s = of_nat (length (os_value s)))"
| "os_lengths_ok (GNameWithLanguage s) =
     (os_nameLength s = of_nat (length (os_name s)) \<and> os_valueLength s = of_nat (length (os_value s)))"
| "os_lengths_ok _ = True"

lemmas string_methods_defs =
  charset_bytes_def charset_len_def charset_MarshalIPP_def charset_UnMarshalIPP_def charset_String_def
  naturalLanguage_bytes_def naturalLanguage_len_def naturalLanguage_string_def naturalLanguage_String_def
  naturalLanguage_MarshalIPP_def naturalLanguage_UnMarshalIPP_def
  mimeMediaType_bytes_def mimeMediaType_len_def mimeMediaType_MarshalIPP_def mimeMediaType_UnMarshalIPP_def
  mimeMediaType_String_def keyword_bytes_def keyword_len_def keyword_MarshalIPP_def keyword_UnMarshalIPP_def
  keyword_String_def uri_bytes_def uri_len_def uri_MarshalIPP_def uri_UnMarshalIPP_def
  uriScheme_bytes_def uriScheme_len_def uriScheme_MarshalIPP_def uriScheme_UnMarshalIPP_def
  textWithoutLanguage_bytes_def textWithoutLanguage_len_def
  nameWithoutLanguage_bytes_def nameWithoutLanguage_len_def

section \<open>Calls that never return\<close>

lemma integer_MarshalIPP_None: "integer_MarshalIPP i = None"
proof -
  have "\<forall>x y. integer_MarshalIPP x = Some y \<longrightarrow> False"
  proof (rule integer_MarshalIPP.fixp_induct)
    show "option.admissible (\<lambda>f. \<forall>x y. f x = Some y \<longrightarrow> False)"
      by (rule option_admissible)
  qed simp_all
  then show ?thesis by (cases "integer_MarshalIPP i") auto
qed

lemma enum_MarshalIPP_None: "enum_MarshalIPP e = None"
proof -
  have "\<forall>x y. enum_MarshalIPP x = Some y \<longrightarrow> False"
  proof (rule enum_MarshalIPP.fixp_induct)
    show "option.admissible (\<lambda>f. \<forall>x y. f x = Some y \<longrightarrow> False)"
      by (rule option_admissible)
  qed simp_all
  then show ?thesis by (cases "enum_MarshalIPP e") auto
qed

section \<open>Little-endian against big-endian\<close>

lemma signedShort_bytes_rev: "signedShort_bytes w = rev (be16 w)"
  by (simp add: wire_defs)

lemma signedInteger_bytes_rev: "signedInteger_bytes w = rev (be32 w)"
  by (simp add: wire_defs)

lemma length_signedShort_bytes [simp]: "length (signedShort_bytes w) = 2"
  by (simp add: signedShort_bytes_def)

lemma length_signedInteger_bytes [simp]: "length (signedInteger_bytes w) = 4"
  by (simp add: signedInteger_bytes_def)

text \<open>The \<open>len()\<close> of the integer types is the byte count of their fixed layout.\<close>

lemma integer_type_len [simp]:
  "signedShort_len s = 2" "signedByte_len b = 1" "signedInteger_len i = 4"
  by (simp_all add: signedShort_len_def signedByte_len_def signedInteger_len_def signedByte_bytes_def)

text \<open>C9. Equivalence of the MarshalIPP methods with the encoder's writes:
  MarshalIPP writes the same bytes as the big-endian binary.Write of
  IppGenerator.go, with the bytes of every multi-byte field reversed, so the
  two disagree on every field that is not a byte palindrome.\<close>

theorem MarshalIPP_byte_reversed:
  "dateTime_MarshalIPP d = rev (take 2 (dateTime_bytes d)) @ drop 2 (dateTime_bytes d) \<and>
   resolution_MarshalIPP r =
     rev (take 4 (resolution_bytes r)) @ rev (take 4 (drop 4 (resolution_bytes r))) @ drop 8 (resolution_bytes r) \<and>
   rangeOfInteger_MarshalIPP g =
     rev (take 4 (rangeOfInteger_bytes g)) @ rev (drop 4 (rangeOfInteger_bytes g)) \<and>
   Inr (ippBoolean_MarshalIPP b) = go_write (GBoolean b)"
  by (simp add: dateTime_MarshalIPP_def resolution_MarshalIPP_def rangeOfInteger_MarshalIPP_def
      ippBoolean_MarshalIPP_def signedShort_bytes_rev signedInteger_bytes_rev
      dateTime_bytes_def resolution_bytes_def rangeOfInteger_bytes_def signedByte_bytes_def)

text \<open>C8. The Marshal closures of the integer and enum cases never return:
  refer()'s Marshal returns for every tag and value except an integer under
  TAG_INTEGER and an enum under TAG_ENUM, where MarshalIPP calls itself.\<close>

theorem refer_Marshal_diverges_iff:
  "refer_Marshal t v = None \<longleftrightarrow>
     (t = TAG_INTEGER \<and> (\<exists>i. v = GInteger i)) \<or> (t = TAG_ENUM \<and> (\<exists>e. v = GEnum e))"
  by (cases v) (auto simp: refer_Marshal_def integer_MarshalIPP_None enum_MarshalIPP_None)

text \<open>C10. dateTime.UnMarshalIPP panics exactly when the capacity of its
  argument is below 80 bytes (Go checks a slice's upper bound against the
  capacity).  On the 10 bytes its MarshalIPP writes it panics unless the backing
  array has 70 more bytes beyond them; the append that builds them leaves a
  capacity of 16.\<close>

theorem dateTime_UnMarshalIPP_panics:
  "(dateTime_UnMarshalIPP dt = Inl SliceOutOfRange \<longleftrightarrow> sl_cap dt < 80) \<and>
   (dateTime_UnMarshalIPP \<lparr>sl_backing = dateTime_MarshalIPP d @ spare, sl_len = 10\<rparr> = Inl SliceOutOfRange
      \<longleftrightarrow> length spare < 70)"
proof -
  have len: "length (dateTime_MarshalIPP d) = 10"
    by (simp add: dateTime_MarshalIPP_def signedByte_bytes_def)
  have "dateTime_UnMarshalIPP dt = Inl SliceOutOfRange \<longleftrightarrow> sl_cap dt < 80" for dt :: "byte go_sl"
    by (auto simp: dateTime_UnMarshalIPP_def varint_at_def go_reslice_def)
  then show ?thesis
    using len by (simp add: sl_cap_def)
qed

text \<open>C27. refer()'s two closures against each other: whenever the Marshal
  closure returns bytes (and a with-language value's length fields are
  right), the Length closure returns their number exactly when the tag is
  neither dateTime (Length 9 for 10 bytes) nor resolution (11 for 9).\<close>

theorem refer_Marshal_Length:
  assumes "refer_Marshal t v = Some (Inr bs)" and "os_lengths_ok v"
  shows "refer_Length t v = Inr (of_nat (length bs)) \<longleftrightarrow> t \<noteq> TAG_DATE \<and> t \<noteq> TAG_RESOLUTION"
  using assms
  by (cases v) (auto simp: refer_Marshal_def refer_Length_def octetString_MarshalIPP_def
      octetString_len_def textWithLanguage_MarshalIPP_def textWithLanguage_length_def
      nameWithLanguage_MarshalIPP_def nameWithLanguage_length_def dateTime_MarshalIPP_def
      resolution_MarshalIPP_def rangeOfInteger_MarshalIPP_def ippBoolean_MarshalIPP_def
      signedByte_bytes_def naturalLanguage_MarshalIPP_def keyword_MarshalIPP_def charset_bytes_def
      uri_bytes_def integer_MarshalIPP_None enum_MarshalIPP_None split: if_splits)


section \<open>Round trips through UnMarshalIPP\<close>

lemma signedShort_bytes_small: "n < 256 \<Longrightarrow> signedShort_bytes (of_nat n) = [of_nat n, 0]"
  unfolding signedShort_bytes_def
  by (simp add: word_unat_eq_iff unat_drop_bit_eq unat_of_nat take_bit_nat_eq_self unsigned_ucast_eq drop_bit_eq_div unat_div)

lemma sint_ucast_small:
  "- (2 ^ 15) \<le> z \<Longrightarrow> z < 2 ^ 15 \<Longrightarrow> sint (ucast (word_of_int z :: uint64) :: int16) = z"
  by (simp add: unsigned_of_int signed_of_int take_bit_take_bit signed_take_bit_take_bit signed_take_bit_int_eq_self)

lemma Varint_small_pair:
  assumes "n < 128"
  shows "sint (ucast (fst (Varint [of_nat n, b])) :: int16) =
           (if even n then int (n div 2) else - int (n div 2) - 1)"
proof -
  have lt: "(of_nat n :: byte) < 0x80" using assms by (simp add: word_less_nat_alt unat_of_nat)
  have u: "(ucast (of_nat n :: byte) :: uint64) = of_nat n" using assms
    by (simp add: unsigned_of_nat take_bit_nat_eq_self)
  have b0: "bit (of_nat n :: uint64) 0 \<longleftrightarrow> odd n" by (simp add: bit_of_nat_iff bit_0)
  have d: "(drop_bit (Suc 0) (of_nat n :: uint64)) = of_nat (n div 2)"
    using assms by (simp add: word_unat_eq_iff unat_drop_bit_eq unat_div unat_of_nat take_bit_nat_eq_self drop_bit_eq_div)
  have e: "sint (ucast (of_nat (n div 2) :: uint64) :: int16) = int (n div 2)"
    using sint_ucast_small[of "int (n div 2)"] assms by simp
  have "NOT (of_nat (n div 2) :: uint64) = word_of_int (- int (n div 2) - 1)"
    by (simp add: not_eq_complement)
  moreover have "sint (ucast (word_of_int (- int (n div 2) - 1) :: uint64) :: int16) = - int (n div 2) - 1"
    using assms by (intro sint_ucast_small) auto
  ultimately have o: "sint (ucast (NOT (of_nat (n div 2) :: uint64)) :: int16) = - int (n div 2) - 1"
    by (simp only:)
  have v: "fst (Varint [of_nat n, b]) = (if odd n then NOT (of_nat (n div 2)) else of_nat (n div 2))"
    by (simp only: Varint_def Uvarint_Cons_small[OF lt] u b0 d Let_def prod.case fst_conv) (simp add: d)
  show ?thesis
    by (simp only: v e o split: if_splits) simp
qed

lemma Varint_small_even:
  assumes "n < 128" "even n"
  shows "(ucast (fst (Varint [of_nat n, b])) :: int16) = of_nat (n div 2)"
proof -
  have "sint (ucast (fst (Varint [of_nat n, b])) :: int16) = sint (of_nat (n div 2) :: int16)"
    using Varint_small_pair[OF assms(1)] assms by (simp add: sint_of_nat_small)
  then show ?thesis by (rule signed_word_eqI)
qed

text \<open>C11. Round trip of a textWithLanguage value with a correct name length
  n below 128: UnMarshalIPP reads the little-endian length back with the
  zig-zag binary.Varint, so it panics when n is odd or below 6, and otherwise
  returns a name of n/2 - 3 bytes, never the original one.\<close>

theorem textWithLanguage_roundtrip:
  assumes "length (os_name t) < 128" and "os_nameLength t = of_nat (length (os_name t))"
  shows "case textWithLanguage_UnMarshalIPP (textWithLanguage_MarshalIPP t) of
           Inl e \<Rightarrow> e = SliceOutOfRange \<and> (odd (length (os_name t)) \<or> length (os_name t) < 6)
         | Inr t' \<Rightarrow> even (length (os_name t)) \<and> 6 \<le> length (os_name t) \<and>
                    length (os_name t') = length (os_name t) div 2 - 3"
proof -
  define n where "n = length (os_name t)"
  define b where "b = textWithLanguage_MarshalIPP t"
  have n: "n < 128" using assms n_def by simp
  have b: "b = [of_nat n, 0] @ os_name t @ signedShort_bytes (os_valueLength t) @ os_value t"
    using assms n by (simp add: b_def n_def textWithLanguage_MarshalIPP_def signedShort_bytes_small)
  have lb: "length b = n + 4 + length (os_value t)" by (simp add: b n_def)
  have s0: "go_slice b 0 2 = Inr [of_nat n, 0]" by (simp add: go_slice_def b)
  show ?thesis
  proof (cases "odd n \<or> n < 6")
    case True
    then have "sint (ucast (fst (Varint [of_nat n, 0])) :: int16) < 3"
      using Varint_small_pair[OF n] by auto
    then have "textWithLanguage_UnMarshalIPP b = Inl SliceOutOfRange"
      unfolding textWithLanguage_UnMarshalIPP_def s0 go_bind_Inr Let_def by (simp add: go_slice_def)
    then show ?thesis using True by (simp add: b_def n_def)
  next
    case False
    then have ev: "even n" and six: "6 \<le> n" by auto
    define k where "k = n div 2"
    have k: "3 \<le> k" "k < 64" "k \<le> n" using six n by (auto simp: k_def)
    have ll: "(ucast (fst (Varint [of_nat n, 0])) :: int16) = of_nat k"
      using Varint_small_even[OF n ev] by (simp add: k_def)
    have sk: "sint (of_nat k + c :: int16) = int k + int c'" if "c = of_nat c'" "c' \<le> 4" for c c'
      using that k by (simp add: sint_of_nat_small flip: of_nat_add)
    have "textWithLanguage_UnMarshalIPP b =
           Inr \<lparr>os_nameLength = of_nat k, os_name = take (k - 3) (drop 3 b),
                os_valueLength = ucast (fst (Varint (take 2 (drop (k + 1) b)))),
                os_value = drop (k + 4) b\<rparr>"
      using k lb sk[of 0 0] nat_int_add[of k 1] nat_int_add[of k 4] sk[of 1 1] sk[of 3 3] sk[of 4 4]
      unfolding textWithLanguage_UnMarshalIPP_def s0 go_bind_Inr Let_def ll
      by (simp add: go_slice_def nat_diff_distrib)
    then show ?thesis using k lb ev six by (simp add: b_def n_def k_def)
  qed
qed

text \<open>C28. Round trip of a resolution: the 9 bytes MarshalIPP writes decode
  without a panic, but the units are always read as 0 (the slice b[9:] is
  empty) and the feed direction from its last three bytes only.\<close>

theorem resolution_roundtrip:
  "\<exists>r'. resolution_UnMarshalIPP (resolution_MarshalIPP r) = Inr r' \<and> units r' = 0 \<and>
        feedDirection r' = signedInteger_UnMarshall (drop 1 (signedInteger_bytes (feedDirection r)))"
  by (simp add: resolution_UnMarshalIPP_def resolution_MarshalIPP_def go_slice_def signedByte_bytes_def
      signedByte_UnMarshall_def Varint_def Uvarint_def)

section \<open>DateTime and the String methods\<close>

text \<open>The field for hours from UTC, for each whole-hour zone of real clocks:
  the byte 60 h wraps, and reads back as h only for UTC itself.\<close>

lemma hoursFrUTC_table:
  "\<forall>h\<in>set [-12..14]. (sint (word_of_int (60 * h) :: int8) = h) = (h = 0)"
  by code_simp

lemma go_quot_hours: "go_quot (3600 * h) 60 = 60 * h"
  by (simp add: go_quot_def abs_mult sgn_mult) (cases "0 < h"; cases "h = 0"; simp)

text \<open>C29. DateTime of a time whose zone is a whole number h of hours from UTC,
  for every zone of real clocks (h from -12 to +14), stores the direction byte
  '-' whatever the sign of h, and in the field for hours from UTC the offset in
  minutes, 60 h, truncated to a signed byte; that byte reads as h only for UTC
  itself.\<close>

theorem DateTime_zone:
  assumes "t_offset d = 3600 * h" "-12 \<le> h" "h \<le> 14"
  shows "UTC (DateTime d) = 0x2D \<and> hoursFrUTC (DateTime d) = word_of_int (60 * h) \<and>
         (sint (hoursFrUTC (DateTime d)) = h \<longleftrightarrow> h = 0)"
proof -
  have f: "hoursFrUTC (DateTime d) = word_of_int (60 * h)"
    using assms(1) by (simp add: DateTime_def go_quot_hours del: of_int_mult)
  have "h \<in> set [-12..14]" unfolding set_upto using assms(2,3) by simp
  with hoursFrUTC_table have "(sint (word_of_int (60 * h) :: int8) = h) = (h = 0)" by blast
  with f show ?thesis by (simp add: DateTime_def)
qed

text \<open>integer.String converts the value to the character with that code
  point, not to its decimal digits: each value from 0 to 127 gives one byte.\<close>

theorem integer_String_rune:
  "0 \<le> sint i \<Longrightarrow> sint i < 128 \<Longrightarrow> integer_String i = [ucast i]"
  by (simp add: integer_String_def utf8_rune_def) (rule bit_word_eqI, simp add: bit_simps)

section \<open>Witnesses\<close>

theorem refer_Marshal_Length_witness:
  "refer_Length TAG_TEXTLANG (GTextWithLanguage
      \<lparr>os_nameLength = 2, os_name = bstr ''en'', os_valueLength = 2, os_value = bstr ''hi''\<rparr>) =
   Inr (of_nat (length (textWithLanguage_MarshalIPP
      \<lparr>os_nameLength = 2, os_name = bstr ''en'', os_valueLength = 2, os_value = bstr ''hi''\<rparr>)))"
  using refer_Marshal_Length[of TAG_TEXTLANG
      "GTextWithLanguage \<lparr>os_nameLength = 2, os_name = bstr ''en'', os_valueLength = 2, os_value = bstr ''hi''\<rparr>"
      "textWithLanguage_MarshalIPP \<lparr>os_nameLength = 2, os_name = bstr ''en'', os_valueLength = 2, os_value = bstr ''hi''\<rparr>"]
  by (simp add: refer_Marshal_def bstr_def)

theorem textWithLanguage_roundtrip_witness:
  "textWithLanguage_UnMarshalIPP (textWithLanguage_MarshalIPP
      \<lparr>os_nameLength = 2, os_name = bstr ''en'', os_valueLength = 2, os_value = bstr ''hi''\<rparr>) =
   Inl SliceOutOfRange"
  using textWithLanguage_roundtrip[of
      "\<lparr>os_nameLength = 2, os_name = bstr ''en'', os_valueLength = 2, os_value = bstr ''hi''\<rparr>"]
  by (simp add: bstr_def split: sum.splits)

theorem DateTime_zone_witness:
  "UTC (DateTime \<lparr>t_year = 2024, t_month = 5, t_day = 1, t_hour = 12, t_minute = 0, t_second = 0,
                  t_nanosecond = 0, t_offset = 32400\<rparr>) = 0x2D \<and>
   hoursFrUTC (DateTime \<lparr>t_year = 2024, t_month = 5, t_day = 1, t_hour = 12, t_minute = 0, t_second = 0,
                  t_nanosecond = 0, t_offset = 32400\<rparr>) = word_of_int 540 \<and>
   sint (hoursFrUTC (DateTime \<lparr>t_year = 2024, t_month = 5, t_day = 1, t_hour = 12, t_minute = 0, t_second = 0,
                  t_nanosecond = 0, t_offset = 32400\<rparr>)) \<noteq> 9"
  using DateTime_zone [of "\<lparr>t_year = 2024, t_month = 5, t_day = 1, t_hour = 12, t_minute = 0, t_second = 0,
                  t_nanosecond = 0, t_offset = 32400\<rparr>" 9]
  by simp

end
