(* ===== verification/Runs.thy ===== *)
theory Runs
  imports Parse
begin

text \<open>
  Runs of the decoder loop of \<^verbatim>\<open>src/ipp/unMarshall.go\<close> as a
  transition system.  \<open>decoder_reach b\<close> is the set of configurations
  (loop state, whether the loop goes on) that \<open>splitAValues b\<close> passes
  through: the state after the first byte, and every state a pass of the loop
  body (\<open>split_step\<close>) leads to from a configuration that goes on and has not
  read the end tag.  The theory proves the loop's invariants by rule induction
  (safety), the number of passes a run takes at most (a fuel-indexed copy of
  \<open>splitLoop\<close>, \<open>loop_fuel\<close>), and that every decoded value has the Go type its
  tag names.
\<close>

section \<open>Reachable configurations\<close>

inductive decoder_reach :: "bytes \<Rightarrow> splitState \<times> bool \<Rightarrow> bool" for b where
  init: "GetNextOne (NewIterator b) = Inr (bt, it, ok) \<Longrightarrow> decoder_reach b (split_init bt it, True)"
| pass: "decoder_reach b (s, True) \<Longrightarrow> sVTag s \<noteq> TAG_END \<Longrightarrow> split_step s = Inr (s', c) \<Longrightarrow>
         decoder_reach b (s', c)"

text \<open>The loop with a bound on the number of passes: \<open>None\<close> when the bound is
  used up before the loop stops.\<close>

fun loop_fuel :: "nat \<Rightarrow> splitState \<Rightarrow> splitState go option" where
  "loop_fuel 0 s = None"
| "loop_fuel (Suc n) s =
     (if sVTag s = TAG_END then Some (Inr s)
      else case split_step s of
             Inl e \<Rightarrow> Some (Inl e)
           | Inr (s', c) \<Rightarrow> if c then loop_fuel n s' else Some (Inr s'))"

text \<open>A value is well typed when its Go type is the one its tag names.\<close>

definition value_typed :: "attributeValue \<Rightarrow> bool" where
  "value_typed v \<longleftrightarrow> type_tag (value_go v) = Some (valueTag v)"

definition state_typed :: "splitState \<Rightarrow> bool" where
  "state_typed s \<longleftrightarrow>
     list_all (\<lambda>g. list_all (\<lambda>a. list_all value_typed (values_go a)) (attributes g)) (sAgs s @ [sAg s]) \<and>
     list_all value_typed (values_go (sV s))"

section \<open>Safety\<close>

lemma GetNextN_inv_step:
  "GetNextN i n = Inr (bs, i', ok) \<Longrightarrow> (iter_inv i \<longrightarrow> iter_inv i') \<and> srcIn i' = srcIn i"
  using GetNextN_keeps_inv GetNextN_progress by blast

lemma split_named_keeps_inv:
  "split_named s s1 it2 nl = Inr (s', c) \<Longrightarrow>
     (iter_inv it2 \<longrightarrow> iter_inv (sIt s')) \<and> srcIn (sIt s') = srcIn it2"
  by (auto simp: split_named_def go_bind_eq_Inr Let_def split: if_splits prod.splits
      dest!: GetNextN_inv_step)

lemma split_additional_keeps_inv:
  "split_additional s s1 it2 = Inr (s', c) \<Longrightarrow>
     (iter_inv it2 \<longrightarrow> iter_inv (sIt s')) \<and> srcIn (sIt s') = srcIn it2"
  by (auto simp: split_additional_def go_bind_eq_Inr split: if_splits prod.splits
      dest!: GetNextN_inv_step)

lemma GetNextOne_inv_step:
  "GetNextOne i = Inr (b, i', ok) \<Longrightarrow> (iter_inv i \<longrightarrow> iter_inv i') \<and> srcIn i' = srcIn i"
  using GetNextOne_keeps_inv GetNextOne_progress by blast

lemma split_step_keeps_inv:
  assumes "iter_inv (sIt s)" and "split_step s = Inr (s', c)"
  shows "iter_inv (sIt s') \<and> srcIn (sIt s') = srcIn (sIt s)"
  using assms
  by (auto simp: split_step_def go_bind_eq_Inr Let_def split: if_splits prod.splits
      dest!: GetNextOne_inv_step GetNextN_inv_step split_named_keeps_inv split_additional_keeps_inv)

text \<open>C12. Safety of the decoder loop: in every configuration a run of
  splitAValues b reaches, the scanner is well formed and still reads b, and
  the groups have the decoder's shape (open group empty, one attribute per
  closed group, pending attribute never reset).\<close>

theorem decoder_reach_safe:
  "decoder_reach b (s, c) \<Longrightarrow> iter_inv (sIt s) \<and> srcIn (sIt s) = b \<and> split_shape s"
proof (induction "(s, c)" arbitrary: s c rule: decoder_reach.induct)
  case (init bt it ok)
  then show ?case
    using GetNextOne_inv_step [OF init] iter_inv_NewIterator
    by (simp add: split_init_def split_shape_init [unfolded split_init_def] NewIterator_def)
next
  case (pass s s' c)
  then show ?case
    using split_step_keeps_inv split_step_keeps_shape by blast
qed

section \<open>Termination within a bound\<close>

lemma loop_fuel_sound: "loop_fuel n s = Some r \<Longrightarrow> splitLoop s = r"
proof (induction n arbitrary: s)
  case 0
  then show ?case by simp
next
  case (Suc n)
  then show ?case
    by (auto simp: splitLoop.simps [of s] split: if_splits sum.splits prod.splits)
qed

lemma loop_fuel_mono: "loop_fuel n s = Some r \<Longrightarrow> n \<le> m \<Longrightarrow> loop_fuel m s = Some r"
proof (induction n arbitrary: s m)
  case 0
  then show ?case by simp
next
  case (Suc n)
  then obtain m' where m: "m = Suc m'" and "n \<le> m'" by (cases m) auto
  with Suc show ?case by (auto split: if_splits sum.splits prod.splits)
qed

text \<open>C13. The decoder loop stops within one pass per unread byte plus one:
  with that much fuel the bounded loop returns exactly what splitLoop
  returns.\<close>

theorem loop_fuel_enough: "loop_fuel (Suc (split_measure s)) s = Some (splitLoop s)"
proof (induction s rule: splitLoop.induct)
  case (1 s)
  show ?case
  proof (cases "sVTag s = TAG_END")
    case True
    then show ?thesis by (simp add: splitLoop.simps [of s])
  next
    case False
    show ?thesis
    proof (cases "split_step s")
      case (Inl e)
      with False show ?thesis by (simp add: splitLoop.simps [of s])
    next
      case (Inr r)
      obtain s' c where r: "r = (s', c)" by (cases r)
      show ?thesis
      proof (cases c)
        case True
        have lt: "Suc (split_measure s') \<le> split_measure s"
          using split_step_progress [of s s'] Inr r True by simp
        have "loop_fuel (split_measure s) s' = Some (splitLoop s')"
          using loop_fuel_mono [OF "1.IH" [OF False Inr [unfolded r] refl True] lt] .
        with False Inr r True show ?thesis by (simp add: splitLoop.simps [of s])
      next
        case False': False
        with False Inr r show ?thesis by (simp add: splitLoop.simps [of s])
      qed
    qed
  qed
qed

section \<open>Types of the decoded values\<close>

lemma UnMarshallattribute_typed: "UnMarshallattribute t b = Inr av \<Longrightarrow> value_typed av"
  by (auto simp: UnMarshallattribute_def value_typed_def split: if_splits)

lemma split_named_typed:
  "split_named s s1 it2 nl = Inr (s', c) \<Longrightarrow> sAgs s1 = sAgs s \<Longrightarrow> state_typed s \<Longrightarrow> state_typed s'"
  by (auto simp: split_named_def go_bind_eq_Inr Let_def state_typed_def appendValue_def value_typed_def
      split: if_splits prod.splits dest!: UnMarshallattribute_typed)

lemma split_additional_typed:
  "split_additional s s1 it2 = Inr (s', c) \<Longrightarrow> sAgs s1 = sAgs s \<Longrightarrow> sAg s1 = sAg s \<Longrightarrow>
   sV s1 = sV s \<Longrightarrow> state_typed s \<Longrightarrow> state_typed s'"
  by (auto simp: split_additional_def go_bind_eq_Inr state_typed_def appendValue_def value_typed_def
      split: if_splits prod.splits dest!: UnMarshallattribute_typed)

lemma split_step_typed:
  assumes "split_step s = Inr (s', c)" and "state_typed s"
  shows "state_typed s'"
  using assms
  by (auto simp: split_step_def go_bind_eq_Inr Let_def state_typed_def
      split: if_splits prod.splits dest!: split_named_typed split_additional_typed)

lemma state_typed_init: "state_typed (split_init bt it)"
  by (simp add: state_typed_def split_init_def NewAttribute_def)

text \<open>C14. Every value the decoder returns has the Go type its value tag
  names (a boolean under 0x22, an enum under 0x23, and so on).\<close>

theorem splitAValues_values_typed:
  assumes "splitAValues b = Inr gs"
  shows "list_all (\<lambda>g. list_all (\<lambda>a. list_all value_typed (values_go a)) (attributes g)) gs"
proof -
  from assms obtain bt it ok s where
    "GetNextOne (NewIterator b) = Inr (bt, it, ok)" and
    loop: "splitLoop (split_init bt it) = Inr s" and gs: "gs = sAgs s @ [sAg s]"
    by (auto simp: splitAValues_def go_bind_eq_Inr)
  from loop state_typed_init have "state_typed s"
    by (rule splitLoop_rule) (rule split_step_typed)
  with gs show ?thesis by (simp add: state_typed_def)
qed

section \<open>Witnesses\<close>

theorem decoder_reach_safe_witness:
  "decoder_reach [1, 3]
     (\<lparr>sIt = \<lparr>mark = 2, markEnd = 2, bRemaining = 0, srcIn = [1, 3], dBug = False\<rparr>,
       sAg = \<lparr>beginAttributeGroupTag = 3, attributes = []\<rparr>, sV = \<lparr>values_go = []\<rparr>,
       sAgs = [\<lparr>beginAttributeGroupTag = 1, attributes = [\<lparr>values_go = []\<rparr>]\<rparr>], sVTag = 3\<rparr>, True) \<and>
   iter_inv \<lparr>mark = 2, markEnd = 2, bRemaining = 0, srcIn = [1, 3], dBug = False\<rparr> \<and>
   split_shape \<lparr>sIt = \<lparr>mark = 2, markEnd = 2, bRemaining = 0, srcIn = [1, 3], dBug = False\<rparr>,
       sAg = \<lparr>beginAttributeGroupTag = 3, attributes = []\<rparr>, sV = \<lparr>values_go = []\<rparr>,
       sAgs = [\<lparr>beginAttributeGroupTag = 1, attributes = [\<lparr>values_go = []\<rparr>]\<rparr>], sVTag = 3\<rparr>"
proof -
  have g: "GetNextOne (NewIterator [1, 3]) =
      Inr (1, \<lparr>mark = 1, markEnd = 2, bRemaining = 1, srcIn = [1, 3], dBug = False\<rparr>, True)"
    by code_simp
  have r0: "decoder_reach [1, 3]
      (split_init 1 \<lparr>mark = 1, markEnd = 2, bRemaining = 1, srcIn = [1, 3], dBug = False\<rparr>, True)"
    by (rule decoder_reach.init [OF g])
  have st: "split_step (split_init 1 \<lparr>mark = 1, markEnd = 2, bRemaining = 1, srcIn = [1, 3], dBug = False\<rparr>) =
      Inr (\<lparr>sIt = \<lparr>mark = 2, markEnd = 2, bRemaining = 0, srcIn = [1, 3], dBug = False\<rparr>,
       sAg = \<lparr>beginAttributeGroupTag = 3, attributes = []\<rparr>, sV = \<lparr>values_go = []\<rparr>,
       sAgs = [\<lparr>beginAttributeGroupTag = 1, attributes = [\<lparr>values_go = []\<rparr>]\<rparr>], sVTag = 3\<rparr>, True)"
    by code_simp
  have e: "sVTag (split_init 1 \<lparr>mark = 1, markEnd = 2, bRemaining = 1, srcIn = [1, 3], dBug = False\<rparr>) \<noteq> TAG_END"
    by (simp add: split_init_def)
  have r1: "decoder_reach [1, 3]
     (\<lparr>sIt = \<lparr>mark = 2, markEnd = 2, bRemaining = 0, srcIn = [1, 3], dBug = False\<rparr>,
       sAg = \<lparr>beginAttributeGroupTag = 3, attributes = []\<rparr>, sV = \<lparr>values_go = []\<rparr>,
       sAgs = [\<lparr>beginAttributeGroupTag = 1, attributes = [\<lparr>values_go = []\<rparr>]\<rparr>], sVTag = 3\<rparr>, True)"
    by (rule decoder_reach.pass [OF r0 e st])
  show ?thesis using decoder_reach_safe [OF r1] r1 by simp
qed

theorem splitAValues_values_typed_witness:
  "splitAValues [1, 0x22, 0, 1, 0x61, 0, 1, 1, 3] =
     Inr [\<lparr>beginAttributeGroupTag = 1, attributes = [\<lparr>values_go =
            [\<lparr>valueTag = 0x22, valueTagStr = ''TAG_BOOLEAN'', nameLength = 1, name = [0x61],
               valueLength = 0, value_go = GBoolean 255\<rparr>]\<rparr>]\<rparr>,
          \<lparr>beginAttributeGroupTag = 3, attributes = []\<rparr>] \<and>
   type_tag (GBoolean 255) = Some 0x22"
proof -
  have d: "splitAValues [1, 0x22, 0, 1, 0x61, 0, 1, 1, 3] =
     Inr [\<lparr>beginAttributeGroupTag = 1, attributes = [\<lparr>values_go =
            [\<lparr>valueTag = 0x22, valueTagStr = ''TAG_BOOLEAN'', nameLength = 1, name = [0x61],
               valueLength = 0, value_go = GBoolean 255\<rparr>]\<rparr>]\<rparr>,
          \<lparr>beginAttributeGroupTag = 3, attributes = []\<rparr>]"
    by code_simp
  show ?thesis
    using splitAValues_values_typed [OF d] d by (simp add: value_typed_def)
qed

end
