(* ===== verification/Legacy.thy ===== *)
theory Legacy
  imports Cups Methods
begin

text \<open>
  The older copy of the value types in the root package,
  \<^verbatim>\<open>src/ippParser.go\<close>.  Most of its methods have the bodies of their
  counterparts in \<^verbatim>\<open>src/ipp/ippParser.go\<close> (theory \<open>Methods\<close>); the
  ones that differ are modelled here: the \<open>MarshalIPP\<close> of
  \<open>nameWithLanguage\<close>, \<open>ippBoolean\<close>, \<open>integer\<close> and \<open>enum\<close>, which all call
  themselves, \<open>NewDateTime\<close>, which converts a \<open>time.Time\<close> without an error
  result, and \<open>refer()\<close>, which has no case for \<open>TAG_URI\<close>.  The other methods
  of the root copy are translated from its own lines, and a lemma shows each
  equal to its \<open>ipp\<close> counterpart.  The root package's \<^verbatim>\<open>src/ipp.go\<close> is a
  copy of the CUPS client with \<open>GetPrinters\<close> and a \<open>DoRequest\<close> that posts the
  request and prints the answer; the root package declares none of the
  \<open>Message\<close> type, \<open>newMessage\<close>, \<open>addAttribute\<close> or the tag constants it
  calls, which are taken as those of the \<open>ipp\<close> package.  The theory shows
  how the two copies of \<open>refer()\<close> and of \<open>GetPrinters\<close> differ.
\<close>

section \<open>The methods the two copies share\<close>

text \<open>\<open>bytes()\<close> and \<open>len()\<close> of the byte-string types, and the little-endian
  \<open>bytes()\<close> of \<open>signedShort\<close>, \<open>signedByte\<close> and \<open>signedInteger\<close>.\<close>

definition legacy_textWithoutLanguage_bytes :: "bytes \<Rightarrow> bytes" where
  "legacy_textWithoutLanguage_bytes i = i"

definition legacy_textWithoutLanguage_len :: "bytes \<Rightarrow> int" where
  "legacy_textWithoutLanguage_len i = int (length (legacy_textWithoutLanguage_bytes i))"

definition legacy_nameWithoutLanguage_bytes :: "bytes \<Rightarrow> bytes" where
  "legacy_nameWithoutLanguage_bytes i = i"

definition legacy_nameWithoutLanguage_len :: "bytes \<Rightarrow> int" where
  "legacy_nameWithoutLanguage_len i = int (length (legacy_nameWithoutLanguage_bytes i))"

definition legacy_signedShort_bytes :: "int16 \<Rightarrow> bytes" where
  "legacy_signedShort_bytes w = [ucast w, ucast (drop_bit 8 w)]"

definition legacy_signedShort_len :: "int16 \<Rightarrow> int" where
  "legacy_signedShort_len s = int (length (legacy_signedShort_bytes s))"

definition legacy_signedByte_bytes :: "int8 \<Rightarrow> bytes" where
  "legacy_signedByte_bytes w = [w]"

definition legacy_charset_bytes :: "bytes \<Rightarrow> bytes" where
  "legacy_charset_bytes i = i"

definition legacy_charset_len :: "bytes \<Rightarrow> int" where
  "legacy_charset_len i = int (length (legacy_charset_bytes i))"

definition legacy_naturalLanguage_bytes :: "bytes \<Rightarrow> bytes" where
  "legacy_naturalLanguage_bytes i = i"

definition legacy_naturalLanguage_len :: "bytes \<Rightarrow> int" where
  "legacy_naturalLanguage_len i = int (length (legacy_naturalLanguage_bytes i))"

definition legacy_naturalLanguage_MarshalIPP :: "bytes \<Rightarrow> bytes" where
  "legacy_naturalLanguage_MarshalIPP i = [] @ i"

definition legacy_mimeMediaType_bytes :: "bytes \<Rightarrow> bytes" where
  "legacy_mimeMediaType_bytes i = i"

definition legacy_keyword_bytes :: "bytes \<Rightarrow> bytes" where
  "legacy_keyword_bytes i = i"

definition legacy_keyword_len :: "bytes \<Rightarrow> int" where
  "legacy_keyword_len i = int (length (legacy_keyword_bytes i))"

definition legacy_keyword_MarshalIPP :: "bytes \<Rightarrow> bytes" where
  "legacy_keyword_MarshalIPP i = [] @ i"

definition legacy_uri_bytes :: "bytes \<Rightarrow> bytes" where
  "legacy_uri_bytes i = i"

definition legacy_uriScheme_bytes :: "bytes \<Rightarrow> bytes" where
  "legacy_uriScheme_bytes i = i"

definition legacy_signedInteger_bytes :: "int32 \<Rightarrow> bytes" where
  "legacy_signedInteger_bytes w =
     [ucast w, ucast (drop_bit 8 w), ucast (drop_bit 16 w), ucast (drop_bit 24 w)]"

text \<open>The \<open>octetString\<close> methods.  The root copy's \<open>length()\<close> has the body of
  the \<open>ipp\<close> package's \<open>len()\<close>: the Go \<open>int\<close> sum of the four field lengths,
  converted to \<open>uint16\<close>.\<close>

definition legacy_octetString_MarshalIPP :: "octetString \<Rightarrow> bytes" where
  "legacy_octetString_MarshalIPP v =
     legacy_signedShort_bytes (os_nameLength v) @ legacy_naturalLanguage_bytes (os_name v)
     @ legacy_signedShort_bytes (os_valueLength v) @ legacy_textWithoutLanguage_bytes (os_value v)"

definition legacy_octetString_length :: "octetString \<Rightarrow> uint16" where
  "legacy_octetString_length v =
     word_of_int (legacy_signedShort_len (os_nameLength v) + legacy_signedShort_len (os_valueLength v)
                  + legacy_naturalLanguage_len (os_name v) + legacy_textWithoutLanguage_len (os_value v))"

definition legacy_octetString_validate :: "octetString \<Rightarrow> bool" where
  "legacy_octetString_validate v =
     (4 + legacy_signedShort_len (os_nameLength v) + legacy_signedShort_len (os_valueLength v)
      = legacy_signedShort_len (os_nameLength v))"

definition legacy_textWithLanguage_length :: "octetString \<Rightarrow> uint16" where
  "legacy_textWithLanguage_length v = 4 + os_nameLength v + os_valueLength v"

definition legacy_textWithLanguage_MarshalIPP :: "octetString \<Rightarrow> bytes" where
  "legacy_textWithLanguage_MarshalIPP t =
     legacy_signedShort_bytes (os_nameLength t) @ legacy_naturalLanguage_bytes (os_name t)
     @ legacy_signedShort_bytes (os_valueLength t) @ legacy_textWithoutLanguage_bytes (os_value t)"

definition legacy_nameWithLanguage_length :: "octetString \<Rightarrow> uint16" where
  "legacy_nameWithLanguage_length v = 4 + os_nameLength v + os_valueLength v"

text \<open>The fixed-layout types.\<close>

definition legacy_dateTime_MarshalIPP :: "dateTime \<Rightarrow> bytes" where
  "legacy_dateTime_MarshalIPP v =
     legacy_signedShort_bytes (year v) @ legacy_signedByte_bytes (month v) @ legacy_signedByte_bytes (day v)
     @ legacy_signedByte_bytes (hour v) @ legacy_signedByte_bytes (minutes v)
     @ legacy_signedByte_bytes (seconds v) @ legacy_signedByte_bytes (deciSeconds v)
     @ legacy_signedByte_bytes (UTC v) @ legacy_signedByte_bytes (hoursFrUTC v)"

definition legacy_NewResolution :: "int \<Rightarrow> int \<Rightarrow> int8 \<Rightarrow> resolution" where
  "legacy_NewResolution c f u =
     \<lparr>crossFeedDirection = word_of_int c, feedDirection = word_of_int f, units = u\<rparr>"

definition legacy_resolution_MarshalIPP :: "resolution \<Rightarrow> bytes" where
  "legacy_resolution_MarshalIPP v =
     legacy_signedInteger_bytes (crossFeedDirection v) @ legacy_signedInteger_bytes (feedDirection v)
     @ legacy_signedByte_bytes (units v)"

definition legacy_rangeOfInteger_MarshalIPP :: "rangeOfInteger \<Rightarrow> bytes" where
  "legacy_rangeOfInteger_MarshalIPP v =
     legacy_signedInteger_bytes (lowerBound v) @ legacy_signedInteger_bytes (upperBound v)"

section \<open>The methods that differ\<close>

partial_function (option) legacy_nameWithLanguage_MarshalIPP :: "octetString \<Rightarrow> bytes option" where
  "legacy_nameWithLanguage_MarshalIPP t = legacy_nameWithLanguage_MarshalIPP t"

partial_function (option) legacy_ippBoolean_MarshalIPP :: "int8 \<Rightarrow> bytes option" where
  "legacy_ippBoolean_MarshalIPP i = legacy_ippBoolean_MarshalIPP i"

partial_function (option) legacy_integer_MarshalIPP :: "int32 \<Rightarrow> bytes option" where
  "legacy_integer_MarshalIPP i = legacy_integer_MarshalIPP i"

partial_function (option) legacy_enum_MarshalIPP :: "int32 \<Rightarrow> bytes option" where
  "legacy_enum_MarshalIPP e = legacy_enum_MarshalIPP e"

definition legacy_NewDateTime :: "go_time \<Rightarrow> dateTime" where
  "legacy_NewDateTime d =
     \<lparr>year = word_of_int (t_year d), month = word_of_int (t_month d), day = word_of_int (t_day d),
      hour = word_of_int (t_hour d), minutes = word_of_int (t_minute d),
      seconds = word_of_int (t_second d), deciSeconds = word_of_int (t_nanosecond d),
      UTC = 0x2d, hoursFrUTC = word_of_int (go_quot (t_offset d) 60)\<rparr>"

section \<open>refer() of the root package\<close>

text \<open>The Marshal closures, calling the root copy's methods.\<close>

definition legacy_refer_Marshal :: "byte \<Rightarrow> gvalue \<Rightarrow> bytes go option" where
  "legacy_refer_Marshal t v =
     (if t = TAG_STRING then
        (case v of GOctetString s \<Rightarrow> Some (Inr (legacy_octetString_MarshalIPP s)) | _ \<Rightarrow> Some (Inl InterfaceConversion))
      else if t = TAG_DATE then
        (case v of GDateTime d \<Rightarrow> Some (Inr (legacy_dateTime_MarshalIPP d)) | _ \<Rightarrow> Some (Inl InterfaceConversion))
      else if t = TAG_RESOLUTION then
        (case v of GResolution r \<Rightarrow> Some (Inr (legacy_resolution_MarshalIPP r)) | _ \<Rightarrow> Some (Inl InterfaceConversion))
      else if t = TAG_RANGE then
        (case v of GRangeOfInteger r \<Rightarrow> Some (Inr (legacy_rangeOfInteger_MarshalIPP r)) | _ \<Rightarrow> Some (Inl InterfaceConversion))
      else if t = TAG_TEXTLANG then
        (case v of GTextWithLanguage s \<Rightarrow> Some (Inr (legacy_textWithLanguage_MarshalIPP s)) | _ \<Rightarrow> Some (Inl InterfaceConversion))
      else if t = TAG_LANGUAGE then
        (case v of GNaturalLanguage b \<Rightarrow> Some (Inr (legacy_naturalLanguage_MarshalIPP b)) | _ \<Rightarrow> Some (Inl InterfaceConversion))
      else if t = TAG_KEYWORD then
        (case v of GKeyword b \<Rightarrow> Some (Inr (legacy_keyword_MarshalIPP b)) | _ \<Rightarrow> Some (Inl InterfaceConversion))
      else if t = TAG_NAMELANG then
        (case v of GNameWithLanguage s \<Rightarrow> map_option Inr (legacy_nameWithLanguage_MarshalIPP s)
                 | _ \<Rightarrow> Some (Inl InterfaceConversion))
      else if t = TAG_INTEGER then
        (case v of GInteger i \<Rightarrow> map_option Inr (legacy_integer_MarshalIPP i) | _ \<Rightarrow> Some (Inl InterfaceConversion))
      else if t = TAG_BOOLEAN then
        (case v of GBoolean i \<Rightarrow> map_option Inr (legacy_ippBoolean_MarshalIPP i) | _ \<Rightarrow> Some (Inl InterfaceConversion))
      else if t = TAG_ENUM then
        (case v of GEnum e \<Rightarrow> map_option Inr (legacy_enum_MarshalIPP e) | _ \<Rightarrow> Some (Inl InterfaceConversion))
      else if t = TAG_CHARSET then
        (case v of GCharset b \<Rightarrow> Some (Inr (legacy_charset_bytes b)) | _ \<Rightarrow> Some (Inl InterfaceConversion))
      else Some (Inl NilFuncCall))"

text \<open>The Length closures; \<open>uint16(b.len())\<close> wraps the Go \<open>int\<close> length.\<close>

definition legacy_refer_Length :: "byte \<Rightarrow> gvalue \<Rightarrow> uint16 go" where
  "legacy_refer_Length t v =
     (if t = TAG_STRING then
        (case v of GOctetString s \<Rightarrow> Inr (legacy_octetString_length s) | _ \<Rightarrow> Inl InterfaceConversion)
      else if t = TAG_DATE then Inr 9
      else if t = TAG_RESOLUTION then Inr 11
      else if t = TAG_RANGE then Inr 8
      else if t = TAG_TEXTLANG then
        (case v of GTextWithLanguage s \<Rightarrow> Inr (legacy_textWithLanguage_length s) | _ \<Rightarrow> Inl InterfaceConversion)
      else if t = TAG_LANGUAGE then
        (case v of GNaturalLanguage b \<Rightarrow> Inr (word_of_int (legacy_naturalLanguage_len b)) | _ \<Rightarrow> Inl InterfaceConversion)
      else if t = TAG_KEYWORD then
        (case v of GKeyword b \<Rightarrow> Inr (word_of_int (legacy_keyword_len b)) | _ \<Rightarrow> Inl InterfaceConversion)
      else if t = TAG_NAMELANG then
        (case v of GNameWithLanguage s \<Rightarrow> Inr (legacy_nameWithLanguage_length s) | _ \<Rightarrow> Inl InterfaceConversion)
      else if t = TAG_INTEGER then Inr 4
      else if t = TAG_BOOLEAN then Inr 1
      else if t = TAG_ENUM then Inr 4
      else if t = TAG_CHARSET then
        (case v of GCharset b \<Rightarrow> Inr (word_of_int (legacy_charset_len b)) | _ \<Rightarrow> Inl InterfaceConversion)
      else Inl NilFuncCall)"

section \<open>The CUPS client of the root package\<close>

text \<open>\<^verbatim>\<open>src/ipp.go\<close>: the server record is the one of theory \<open>Cups\<close>.
  \<open>GetPrinters\<close> builds its request with the unexported \<open>addAttribute\<close>.
  \<open>DoRequest\<close> encodes the message, writes it to a file and posts it; the value
  of the model is the posted bytes, the only result the caller can observe
  besides the printing.  The HTTP exchange is the parameter \<open>resp\<close>: \<open>None\<close>
  for a failed post, whose nil response is then dereferenced by
  \<open>resp.Body\<close>; the body read is only printed.\<close>

definition legacy_SetServer :: "CupsServer \<Rightarrow> string \<Rightarrow> CupsServer" where
  "legacy_SetServer c server = c\<lparr>uri := server\<rparr>"

definition legacy_CreateRequest :: "CupsServer \<Rightarrow> uint16 \<Rightarrow> Message" where
  "legacy_CreateRequest c operationId = newMessage operationId"

definition legacy_GetPrinters_request :: "CupsServer \<Rightarrow> Message go" where
  "legacy_GetPrinters_request c =
     go_bind (addAttribute (legacy_CreateRequest c CUPS_GET_PRINTERS)
                TAG_CHARSET (bstr ''attributes-charset'') (GCharset (bstr ''utf-8''))) (\<lambda>m.
     go_bind (addAttribute m TAG_LANGUAGE (bstr ''attributes-natural-language'')
                (GNaturalLanguage (bstr ''en-us''))) (\<lambda>m.
     go_bind (addAttribute m TAG_KEYWORD (bstr ''requested-attributes'') (GKeyword (bstr ''printer-name''))) (\<lambda>m.
     go_bind (addAttribute m TAG_ENUM (bstr ''printer-type'') (GEnum 0)) (\<lambda>m.
     addAttribute m TAG_ENUM (bstr ''printer-type-mask'') (GEnum 1)))))"

definition legacy_DoRequest :: "CupsServer \<Rightarrow> Message \<Rightarrow> bytes option \<Rightarrow> bytes go" where
  "legacy_DoRequest c m resp =
     go_bind (marshallMsg m) (\<lambda>s.
       case resp of
         None \<Rightarrow> Inl NilDereference
       | Some body \<Rightarrow> Inr s)"

definition legacy_GetPrinters :: "CupsServer \<Rightarrow> bytes option \<Rightarrow> bytes go" where
  "legacy_GetPrinters c resp = go_bind (legacy_GetPrinters_request c) (\<lambda>m. legacy_DoRequest c m resp)"

section \<open>The two copies compared\<close>

text \<open>Every shared method of the root copy computes what its \<open>ipp\<close> counterpart
  computes.\<close>

lemma legacy_methods_agree:
  "legacy_signedShort_bytes = signedShort_bytes" "legacy_signedByte_bytes = signedByte_bytes"
  "legacy_signedInteger_bytes = signedInteger_bytes" "legacy_charset_bytes = charset_bytes"
  "legacy_charset_len = charset_len" "legacy_uri_bytes = uri_bytes"
  "legacy_naturalLanguage_bytes = naturalLanguage_bytes" "legacy_naturalLanguage_len = naturalLanguage_len"
  "legacy_naturalLanguage_MarshalIPP = naturalLanguage_MarshalIPP"
  "legacy_mimeMediaType_bytes = mimeMediaType_bytes"
  "legacy_keyword_bytes = keyword_bytes" "legacy_keyword_len = keyword_len"
  "legacy_keyword_MarshalIPP = keyword_MarshalIPP"
  "legacy_octetString_MarshalIPP = octetString_MarshalIPP"
  "legacy_textWithLanguage_MarshalIPP = textWithLanguage_MarshalIPP"
  "legacy_octetString_length = octetString_len" "legacy_octetString_validate = octetString_validate"
  "legacy_textWithLanguage_length = textWithLanguage_length"
  "legacy_nameWithLanguage_length = nameWithLanguage_length"
  "legacy_dateTime_MarshalIPP = dateTime_MarshalIPP" "legacy_resolution_MarshalIPP = resolution_MarshalIPP"
  "legacy_rangeOfInteger_MarshalIPP = rangeOfInteger_MarshalIPP" "legacy_NewResolution = NewResolution"
  by (simp_all add: fun_eq_iff legacy_textWithoutLanguage_bytes_def legacy_textWithoutLanguage_len_def
      legacy_signedShort_bytes_def legacy_signedShort_len_def legacy_signedByte_bytes_def
      legacy_charset_bytes_def legacy_charset_len_def legacy_naturalLanguage_bytes_def
      legacy_naturalLanguage_len_def legacy_naturalLanguage_MarshalIPP_def legacy_mimeMediaType_bytes_def
      legacy_keyword_bytes_def legacy_keyword_len_def legacy_keyword_MarshalIPP_def legacy_uri_bytes_def
      legacy_signedInteger_bytes_def legacy_octetString_MarshalIPP_def legacy_octetString_length_def
      legacy_octetString_validate_def legacy_textWithLanguage_length_def legacy_textWithLanguage_MarshalIPP_def
      legacy_nameWithLanguage_length_def legacy_dateTime_MarshalIPP_def legacy_NewResolution_def
      legacy_resolution_MarshalIPP_def legacy_rangeOfInteger_MarshalIPP_def
      signedShort_bytes_def signedByte_bytes_def signedInteger_bytes_def string_methods_defs
      uri_bytes_def naturalLanguage_MarshalIPP_def keyword_MarshalIPP_def octetString_MarshalIPP_def
      textWithLanguage_MarshalIPP_def octetString_len_def octetString_validate_def
      textWithLanguage_length_def nameWithLanguage_length_def dateTime_MarshalIPP_def
      resolution_MarshalIPP_def rangeOfInteger_MarshalIPP_def NewResolution_def)

lemma legacy_MarshalIPP_None:
  "legacy_nameWithLanguage_MarshalIPP t = None" "legacy_ippBoolean_MarshalIPP i = None"
  "legacy_integer_MarshalIPP j = None" "legacy_enum_MarshalIPP e = None"
proof -
  have "\<forall>x y. legacy_nameWithLanguage_MarshalIPP x = Some y \<longrightarrow> False"
    by (rule legacy_nameWithLanguage_MarshalIPP.fixp_induct) (rule option_admissible, simp_all)
  then show "legacy_nameWithLanguage_MarshalIPP t = None" by (cases "legacy_nameWithLanguage_MarshalIPP t") auto
  have "\<forall>x y. legacy_ippBoolean_MarshalIPP x = Some y \<longrightarrow> False"
    by (rule legacy_ippBoolean_MarshalIPP.fixp_induct) (rule option_admissible, simp_all)
  then show "legacy_ippBoolean_MarshalIPP i = None" by (cases "legacy_ippBoolean_MarshalIPP i") auto
  have "\<forall>x y. legacy_integer_MarshalIPP x = Some y \<longrightarrow> False"
    by (rule legacy_integer_MarshalIPP.fixp_induct) (rule option_admissible, simp_all)
  then show "legacy_integer_MarshalIPP j = None" by (cases "legacy_integer_MarshalIPP j") auto
  have "\<forall>x y. legacy_enum_MarshalIPP x = Some y \<longrightarrow> False"
    by (rule legacy_enum_MarshalIPP.fixp_induct) (rule option_admissible, simp_all)
  then show "legacy_enum_MarshalIPP e = None" by (cases "legacy_enum_MarshalIPP e") auto
qed

text \<open>C30. The root package against the ipp package: the Length closures of
  refer() agree on every tag but TAG_URI, for which the root copy has none; the
  Marshal closures agree except on TAG_URI (a nil closure there) and on a
  nameWithLanguage or a boolean, whose root MarshalIPP never returns.  The root
  GetPrinters posts the bytes of the ipp package's GetPrinters request, and
  panics on a failed post.\<close>

theorem legacy_package_differences:
  "legacy_refer_Length t v = (if t = TAG_URI then Inl NilFuncCall else refer_Length t v) \<and>
   legacy_refer_Marshal t v =
     (if t = TAG_URI then Some (Inl NilFuncCall)
      else if (t = TAG_NAMELANG \<and> (\<exists>s. v = GNameWithLanguage s)) \<or> (t = TAG_BOOLEAN \<and> (\<exists>i. v = GBoolean i))
      then None else refer_Marshal t v) \<and>
   legacy_GetPrinters c None = Inl NilDereference \<and>
   legacy_GetPrinters c (Some body) = go_bind (GetPrinters_request c) marshallMsg"
proof (intro conjI)
  show "legacy_refer_Length t v = (if t = TAG_URI then Inl NilFuncCall else refer_Length t v)"
    by (cases v) (auto simp: legacy_refer_Length_def refer_Length_def legacy_methods_agree string_methods_defs)
  show "legacy_refer_Marshal t v =
     (if t = TAG_URI then Some (Inl NilFuncCall)
      else if (t = TAG_NAMELANG \<and> (\<exists>s. v = GNameWithLanguage s)) \<or> (t = TAG_BOOLEAN \<and> (\<exists>i. v = GBoolean i))
      then None else refer_Marshal t v)"
    by (cases v) (auto simp: legacy_refer_Marshal_def refer_Marshal_def legacy_MarshalIPP_None
        integer_MarshalIPP_None enum_MarshalIPP_None legacy_methods_agree string_methods_defs)
  show "legacy_GetPrinters c None = Inl NilDereference"
    by (simp add: legacy_GetPrinters_def legacy_DoRequest_def legacy_GetPrinters_request_def
        legacy_CreateRequest_def) code_simp
  have "legacy_GetPrinters_request c = GetPrinters_request c"
    by (simp add: legacy_GetPrinters_request_def GetPrinters_request_def AddAttribute_def
        legacy_CreateRequest_def CreateRequest_def)
  then show "legacy_GetPrinters c (Some body) = go_bind (GetPrinters_request c) marshallMsg"
    by (simp add: legacy_GetPrinters_def legacy_DoRequest_def go_bind_def split: sum.splits)
qed

end
