(* ===== verification/Decoded.thy ===== *)
theory Decoded
  imports Parse Methods
begin

text \<open>
  The closures that \<open>UnMarshallattribute\<close> (\<^verbatim>\<open>src/ipp/unMarshall.go\<close>)
  installs in the attribute value it returns, besides the \<open>UnMarshal\<close> closure
  it runs itself (theory \<open>Parse\<close>): \<open>Marshal\<close>, \<open>Length\<close> and, for seven tags,
  \<open>String\<close>.  Each closure asserts the dynamic type of \<open>a.value\<close> and calls that
  type's method (theory \<open>Methods\<close>); the closures of \<open>refer()\<close> differ from them
  for \<open>charset\<close>, which \<open>refer()\<close> marshals with \<open>bytes()\<close>, and for the tags
  only one of the two handles.  Each definition is the closure installed for
  the tag \<open>bi\<close>, applied to a value; \<open>Inl NilFuncCall\<close> is a call of a closure
  the tag leaves nil, and the outer \<open>option\<close> of \<open>Marshal\<close> is \<open>None\<close> for a
  \<open>MarshalIPP\<close> that never returns.  The theory then composes them with the
  decoder: what a decoded value's own closures make of it.
\<close>

section \<open>The closures of a decoded value\<close>

definition UnMarshallattribute_Marshal :: "byte \<Rightarrow> gvalue \<Rightarrow> bytes go option" where
  "UnMarshallattribute_Marshal bi v =
     (if bi = 0x21 then
        (case v of GInteger i \<Rightarrow> map_option Inr (integer_MarshalIPP i) | _ \<Rightarrow> Some (Inl InterfaceConversion))
      else if bi = 0x22 then
        (case v of GBoolean b \<Rightarrow> Some (Inr (ippBoolean_MarshalIPP b)) | _ \<Rightarrow> Some (Inl InterfaceConversion))
      else if bi = 0x23 then
        (case v of GEnum e \<Rightarrow> map_option Inr (enum_MarshalIPP e) | _ \<Rightarrow> Some (Inl InterfaceConversion))
      else if bi = 0x30 then
        (case v of GOctetString s \<Rightarrow> Some (Inr (octetString_MarshalIPP s)) | _ \<Rightarrow> Some (Inl InterfaceConversion))
      else if bi = 0x31 then
        (case v of GDateTime d \<Rightarrow> Some (Inr (dateTime_MarshalIPP d)) | _ \<Rightarrow> Some (Inl InterfaceConversion))
      else if bi = 0x32 then
        (case v of GResolution r \<Rightarrow> Some (Inr (resolution_MarshalIPP r)) | _ \<Rightarrow> Some (Inl InterfaceConversion))
      else if bi = 0x33 then
        (case v of GRangeOfInteger r \<Rightarrow> Some (Inr (rangeOfInteger_MarshalIPP r)) | _ \<Rightarrow> Some (Inl InterfaceConversion))
      else if bi = 0x35 then
        (case v of GTextWithLanguage s \<Rightarrow> Some (Inr (textWithLanguage_MarshalIPP s)) | _ \<Rightarrow> Some (Inl InterfaceConversion))
      else if bi = 0x36 then
        (case v of GNameWithLanguage s \<Rightarrow> Some (Inr (nameWithLanguage_MarshalIPP s)) | _ \<Rightarrow> Some (Inl InterfaceConversion))
      else if bi = 0x47 then
        (case v of GCharset b \<Rightarrow> Some (Inr (charset_MarshalIPP b)) | _ \<Rightarrow> Some (Inl InterfaceConversion))
      else if bi = 0x48 then
        (case v of GNaturalLanguage b \<Rightarrow> Some (Inr (naturalLanguage_MarshalIPP b)) | _ \<Rightarrow> Some (Inl InterfaceConversion))
      else if bi = 0x44 then
        (case v of GKeyword b \<Rightarrow> Some (Inr (keyword_MarshalIPP b)) | _ \<Rightarrow> Some (Inl InterfaceConversion))
      else if bi = 0x49 then
        (case v of GMimeMediaType b \<Rightarrow> Some (Inr (mimeMediaType_MarshalIPP b)) | _ \<Rightarrow> Some (Inl InterfaceConversion))
      else Some (Inl NilFuncCall))"

definition UnMarshallattribute_Length :: "byte \<Rightarrow> gvalue \<Rightarrow> uint16 go" where
  "UnMarshallattribute_Length bi v =
     (if bi = 0x21 then Inr 4
      else if bi = 0x22 then Inr 1
      else if bi = 0x23 then Inr 4
      else if bi = 0x30 then
        (case v of GOctetString s \<Rightarrow> Inr (octetString_len s) | _ \<Rightarrow> Inl InterfaceConversion)
      else if bi = 0x31 then Inr 9
      else if bi = 0x32 then Inr 11
      else if bi = 0x33 then Inr 8
      else if bi = 0x35 then
        (case v of GTextWithLanguage s \<Rightarrow> Inr (textWithLanguage_length s) | _ \<Rightarrow> Inl InterfaceConversion)
      else if bi = 0x36 then
        (case v of GNameWithLanguage s \<Rightarrow> Inr (nameWithLanguage_length s) | _ \<Rightarrow> Inl InterfaceConversion)
      else if bi = 0x47 then
        (case v of GCharset b \<Rightarrow> Inr (word_of_int (charset_len b)) | _ \<Rightarrow> Inl InterfaceConversion)
      else if bi = 0x48 then
        (case v of GNaturalLanguage b \<Rightarrow> Inr (word_of_int (naturalLanguage_len b)) | _ \<Rightarrow> Inl InterfaceConversion)
      else if bi = 0x44 then
        (case v of GKeyword b \<Rightarrow> Inr (word_of_int (keyword_len b)) | _ \<Rightarrow> Inl InterfaceConversion)
      else if bi = 0x49 then
        (case v of GMimeMediaType b \<Rightarrow> Inr (word_of_int (mimeMediaType_len b)) | _ \<Rightarrow> Inl InterfaceConversion)
      else Inl NilFuncCall)"

text \<open>The \<open>String\<close> closure, set for seven tags; Go strings are byte sequences,
  and the literals \<open>ippBoolean.String\<close> returns are their ASCII bytes.\<close>

definition UnMarshallattribute_String :: "byte \<Rightarrow> gvalue \<Rightarrow> bytes go" where
  "UnMarshallattribute_String bi v =
     (if bi = 0x22 then
        (case v of GBoolean x \<Rightarrow> Inr (bstr (ippBoolean_String x)) | _ \<Rightarrow> Inl InterfaceConversion)
      else if bi = 0x23 then
        (case v of GEnum x \<Rightarrow> Inr (enum_String x) | _ \<Rightarrow> Inl InterfaceConversion)
      else if bi = 0x33 then
        (case v of GRangeOfInteger x \<Rightarrow> Inr (rangeOfInteger_String x) | _ \<Rightarrow> Inl InterfaceConversion)
      else if bi = 0x47 then
        (case v of GCharset x \<Rightarrow> Inr (charset_String x) | _ \<Rightarrow> Inl InterfaceConversion)
      else if bi = 0x48 then
        (case v of GNaturalLanguage x \<Rightarrow> Inr (naturalLanguage_String x) | _ \<Rightarrow> Inl InterfaceConversion)
      else if bi = 0x44 then
        (case v of GKeyword x \<Rightarrow> Inr (keyword_String x) | _ \<Rightarrow> Inl InterfaceConversion)
      else if bi = 0x49 then
        (case v of GMimeMediaType x \<Rightarrow> Inr (mimeMediaType_String x) | _ \<Rightarrow> Inl InterfaceConversion)
      else Inl NilFuncCall)"

section \<open>Decoded values through their own closures\<close>

lemma boolean_String_table:
  "\<forall>n\<in>{0..<256::nat}. ippBoolean_String (ippBoolean_UnMarshalIPP [of_nat n]) =
     (if n = 2 then ''true'' else if n = 0 \<or> 128 \<le> n then ''false'' else '''')"
  by code_simp

lemma boolean_String_byte:
  "ippBoolean_String (ippBoolean_UnMarshalIPP [b]) =
     (if b = 2 then ''true'' else if b = 0 \<or> 0x80 \<le> b then ''false'' else '''')"
proof -
  have "unat b \<in> {0..<256}" using unsigned_less [of b, where ?'a = nat] by simp
  from bspec [OF boolean_String_table this] show ?thesis
    by (simp add: word_unat_eq_iff word_le_nat_alt)
qed

text \<open>C21. A boolean written by the encoder comes back from the decoder zig-zag
  decoded (the true byte 0x01 as -1, 0x02 as 1), and the String closure of the
  decoded value prints the true byte 0x01 as the empty string and 0x00 as
  "false"; only the byte 0x02 prints as "true".\<close>

theorem boolean_write_decode_String:
  "\<exists>av. go_bind (go_write (GBoolean b)) (UnMarshallattribute TAG_BOOLEAN) = Inr av \<and>
     value_go av = GBoolean (if b < 0x80 then (if bit b 0 then NOT (drop_bit 1 b) else drop_bit 1 b) else 0) \<and>
     UnMarshallattribute_String (valueTag av) (value_go av) =
       Inr (bstr (if b = 2 then ''true'' else if b = 0 \<or> 0x80 \<le> b then ''false'' else ''''))"
  using boolean_String_byte [of b]
  by (simp add: UnMarshallattribute_def UnMarshallattribute_String_def ippBoolean_UnMarshalIPP_def
      signedByte_UnMarshall_def Varint_single)

text \<open>C22. What the Marshal closure of a decoded value writes: the bytes it was
  decoded from for charset, naturalLanguage, keyword and mimeMediaType; the
  zig-zag decoded byte for a boolean; the varint of the whole input twice, as
  two little-endian integers, for a rangeOfInteger; and nothing for an enum,
  whose MarshalIPP never returns.\<close>

theorem decoded_value_remarshal:
  assumes "UnMarshallattribute t b = Inr av"
  shows "UnMarshallattribute_Marshal t (value_go av) =
    (if t \<in> {0x44, 0x47, 0x48, 0x49} then Some (Inr b)
     else if t = 0x23 then None
     else if t = 0x22 then Some (Inr [ucast (fst (Varint b))])
     else Some (Inr (signedInteger_bytes (signedInteger_UnMarshall b) @ signedInteger_bytes (signedInteger_UnMarshall b))))"
proof -
  have "t = 0x22 \<or> t = 0x23 \<or> t = 0x33 \<or> t = 0x44 \<or> t = 0x47 \<or> t = 0x48 \<or> t = 0x49"
    using assms by (auto simp: UnMarshallattribute_def split: if_splits)
  then show ?thesis
    using assms
    by (elim disjE) (auto simp: UnMarshallattribute_def UnMarshallattribute_Marshal_def string_methods_defs
      ippBoolean_MarshalIPP_def signedByte_bytes_def ippBoolean_UnMarshalIPP_def signedByte_UnMarshall_def
      enum_MarshalIPP_None rangeOfInteger_MarshalIPP_def rangeOfInteger_UnMarshalIPP_def)
qed

section \<open>Witnesses\<close>

theorem decoded_value_remarshal_witness:
  "UnMarshallattribute 0x22 [1] =
     Inr (zero_attributeValue\<lparr>valueTag := TAG_BOOLEAN, valueTagStr := ''TAG_BOOLEAN'', value_go := GBoolean 0xFF\<rparr>) \<and>
   UnMarshallattribute_Marshal 0x22 (GBoolean 0xFF) = Some (Inr [0xFF])"
proof -
  have u: "(ucast (- 1 :: int64) :: int8) = 0xFF" by code_simp
  have d: "UnMarshallattribute 0x22 [1] =
     Inr (zero_attributeValue\<lparr>valueTag := TAG_BOOLEAN, valueTagStr := ''TAG_BOOLEAN'', value_go := GBoolean 0xFF\<rparr>)"
    by (simp add: UnMarshallattribute_def ippBoolean_UnMarshalIPP_def signedByte_UnMarshall_def
        Varint_def Uvarint_def u)
  show ?thesis
    using decoded_value_remarshal [OF d] d by (simp add: Varint_def Uvarint_def u)
qed

end
