(* ===== verification/Spec2Isabelle.thy ===== *)
theory Spec2Isabelle
  imports Cups Methods Runs Legacy Decoded
begin

text \<open>
  \<^bold>\<open>A verification development for goIPP\<close>, a Go library that encodes and
  decodes Internet Printing Protocol messages (RFC 2910/8010) and sends a few
  CUPS requests over HTTP.  The program is a shallow embedding: every Go struct
  is a \<open>record\<close>, the \<open>interface{}\<close> value field is the datatype \<open>gvalue\<close>, every
  function or method a HOL function returning \<open>'a go = go_panic + 'a\<close>, where
  \<open>Inl\<close> is the run-time panic the Go code would raise (nil function call, failed
  type assertion, nil dereference, slice or index out of range).  Bytes are
  \<open>8 word\<close>, the Go \<open>int16\<close>, \<open>uint16\<close>, \<open>int32\<close> fields are words of their width,
  Go \<open>int\<close> is \<open>int\<close>.  All definitions are executable; the concrete examples are
  evaluated by \<open>simp\<close> or \<open>code_simp\<close>.

  \<^bold>\<open>Parts of the program and where they are modelled.\<close>
  \<^item> Tag registry, \<^verbatim>\<open>src/ipp/constants.go\<close> and \<open>checkGroupTag\<close> of
    \<^verbatim>\<open>src/ipp/unMarshall.go\<close>: theory \<open>Tags\<close>, the constants \<open>TAG_*\<close>, the
    tables of operation ids, CUPS operation ids, status codes, enum values,
    parser states and CUPS printer flags, the single constants, and the
    delimiter classifier.
  \<^item> Value codecs, \<^verbatim>\<open>src/ipp/ippParser.go\<close>: theory \<open>Values\<close>, the value types
    (\<open>octetString\<close>, \<open>dateTime\<close>, \<open>resolution\<close>, \<open>rangeOfInteger\<close> records and the
    \<open>gvalue\<close> constructors), \<open>go_write\<close> (what \<open>binary.Write\<close> appends for each
    dynamic type), the \<open>Length\<close> closures \<open>refer()\<close> installs (\<open>refer_Length\<close>),
    the \<open>UnMarshall\<close> methods, and \<open>binary.Uvarint\<close>/\<open>binary.Varint\<close> of the Go
    library, which the decoder calls.  Theory \<open>Methods\<close> holds the methods
    of the value types that neither the encoder nor the decoder calls: the
    little-endian \<open>bytes()\<close> of \<open>signedShort\<close>/\<open>signedByte\<close>/\<open>signedInteger\<close>,
    every \<open>len()\<close>, \<open>MarshalIPP\<close> and \<open>UnMarshalIPP\<close>, \<open>validate\<close>, the \<open>String\<close>
    methods, \<open>DateTime\<close>, \<open>Now\<close> (of a clock reading), \<open>NewDateTime\<close>,
    \<open>NewResolution\<close> and the \<open>Marshal\<close>
    closures of \<open>refer()\<close> (\<open>refer_Marshal\<close>).  The self-recursive
    \<open>integer.MarshalIPP\<close> and \<open>enum.MarshalIPP\<close> are \<open>partial_function (option)\<close>
    definitions, proved to be \<open>None\<close> (never returning) by fixpoint induction.
  \<^item> Attribute model, \<^verbatim>\<open>src/ipp/ippMsg.go\<close> and \<^verbatim>\<open>src/ipp/ipp.go\<close>: theory
    \<open>Model\<close>, the records \<open>attributeValue\<close>, \<open>attribute_go\<close>, \<open>attributeGroup\<close>,
    \<open>Message\<close> and the builders \<open>newMessage\<close>, \<open>NewAttribute\<close>, \<open>addValue\<close>/
    \<open>AddValue\<close>, \<open>addAttribute\<close>/\<open>AddAttribute\<close>, \<open>AppendAttribute\<close>, the
    display method \<open>Str\<close>, and \<open>UUID4\<close> over the 16 random bytes it reads, with
    \<open>fmt\<close>'s hexadecimal formatting and \<open>strconv.Atoi\<close> of the Go library.
  \<^item> Byte scanner, \<^verbatim>\<open>src/utils/iter.go\<close>: theory \<open>Iter\<close>, the record
    \<open>iterator\<close> with every method.
  \<^item> Step counter, \<^verbatim>\<open>src/utils/util.go\<close>: theory \<open>Counter\<close>, the record
    \<open>counter\<close> of its integer fields (what the decoder reads) extended by
    \<open>clocked_counter\<close> with the three timestamps and the closure field; the
    comparison methods are generic over the record scheme, the methods that
    read the clock (\<open>StartAt\<close>, \<open>Finished\<close>, \<open>plus\<close>, \<open>minus\<close>, \<open>Plus\<close>,
    \<open>Minus\<close>) take its reading as an argument (an instant is an \<open>int\<close> of
    nanoseconds since Go's zero time), and \<open>counter_reach\<close> is the inductive
    set of counters a sequence of calls reaches.
  \<^item> Encoder, \<^verbatim>\<open>src/IppGenerator.go\<close>: theory \<open>Marshal\<close>, \<open>marshallMsg\<close> and
    \<open>marshallAtrib\<close> with each \<open>binary.Write\<close> as a step of \<open>go_concat_map\<close>.
  \<^item> Decoder, \<^verbatim>\<open>src/ipp/unMarshall.go\<close>: theory \<open>Parse\<close>, \<open>ParseMessage\<close>,
    \<open>UnMarshallattribute\<close> and \<open>splitAValues\<close>, whose loop is the step function
    \<open>split_step\<close> on the record \<open>splitState\<close> of the loop's variables (scanner,
    open group, pending attribute, closed groups, last tag) and the loop
    \<open>splitLoop\<close>, a \<open>function\<close> that terminates by the measure of unread bytes
    (every pass that continues consumes input), so no fuel is needed.
  \<^item> The closures a decoded value carries: theory \<open>Decoded\<close>, the
    \<open>Marshal\<close>, \<open>Length\<close> and \<open>String\<close> closures \<open>UnMarshallattribute\<close>
    installs (\<open>UnMarshallattribute_Marshal\<close>, \<open>_Length\<close>, \<open>_String\<close>), each
    calling the method of the value's type in \<open>Methods\<close>.
  \<^item> Runs of the decoder: theory \<open>Runs\<close>, the inductive relation
    \<open>decoder_reach b\<close> of the configurations (loop state, whether the loop goes
    on) that \<open>splitAValues b\<close> passes through, and \<open>loop_fuel\<close>, the loop
    with a bound on its passes.
  \<^item> The root package's older copy, \<^verbatim>\<open>src/ippParser.go\<close> and
    \<^verbatim>\<open>src/ipp.go\<close>: theory \<open>Legacy\<close>, every method of its value types
    (\<open>legacy_*\<close>, the shared ones shown equal to the \<open>ipp\<close> package's by
    \<open>legacy_methods_agree\<close>), its \<open>refer()\<close>, and its \<open>CupsServer\<close> with
    \<open>GetPrinters\<close> and a \<open>DoRequest\<close> whose value is the posted bytes.  The
    root package declares none of \<open>Message\<close>, \<open>newMessage\<close>,
    \<open>addAttribute\<close> and the tag constants it uses; they are the \<open>ipp\<close>
    package's.
  \<^item> How the decoder reads what the encoder writes: theory \<open>Codec\<close>, which
    proves one pass of the loop over one framed value (\<open>split_step_frame\<close>) and
    runs the loop over whole encoded attribute sections.
  \<^item> CUPS client, \<^verbatim>\<open>src/ipp/cups.go\<close>: theory \<open>Cups\<close>, the \<open>CupsServer\<close>
    record, the messages \<open>GetPrinters\<close>, \<open>GetPrinterAttributes\<close> and
    \<open>PrintTestPage\<close> build (\<open>*_request\<close>), and \<open>DoRequest\<close> with the HTTP
    exchange as a parameter (the response body, or \<open>None\<close> for a failed post).

  \<^bold>\<open>What is proved.\<close>  The decoder state machine: every decoded group but the
  last holds exactly one attribute and the pending attribute is never reset
  (\<open>Parse\<close>), because its reset is guarded by a counter that is always 0; the
  exact bytes \<open>marshallMsg\<close> writes and when it panics (\<open>Marshal\<close>); the
  multi-value naming rule of the builders and the tags they cannot handle
  (\<open>Model\<close>); the scanner invariant (\<open>Iter\<close>); by rule induction over
  \<open>counter_reach\<close>, that \<open>stopTime\<close> is never set, so the clock never
  decides \<open>Finished\<close>, and that \<open>Minus\<close> adds (\<open>Counter\<close>); the Length closures against the
  bytes written (\<open>Values\<close>); which Marshal closures never return, the byte
  order of \<open>MarshalIPP\<close> against \<open>binary.Write\<close>, and what the
  \<open>UnMarshalIPP\<close> methods make of \<open>MarshalIPP\<close>'s bytes (\<open>Methods\<close>); that
  \<open>UUID4\<close> always fails (\<open>Model\<close>); that the scanner implements an abstract
  cursor over the unread bytes (\<open>Iter\<close>, a refinement); by rule induction over
  \<open>decoder_reach\<close>, the loop's safety invariants and that every decoded
  value has the type its tag names, and the bound on the loop's passes
  (\<open>Runs\<close>); what the decoder makes of a section of delimiters only
  (\<open>Codec\<close>); how the two
  copies of \<open>refer()\<close> and of \<open>GetPrinters\<close> differ (\<open>Legacy\<close>); what a decoded value's own
  \<open>Marshal\<close> and \<open>String\<close> closures make of it (\<open>Decoded\<close>); when the
  CUPS client's \<open>DoRequest\<close> panics (\<open>Cups\<close>).  Evaluations on fixed inputs
  document findings without being properties: \<open>typeCheck\<close> accepts every
  operation id and status code (\<open>Model\<close>), the exact bytes of the client's
  requests and the collisions of the CUPS printer flags (\<open>Cups\<close>), and the
  spec's Print-Job scenario (this theory).  This theory holds the properties that span the
  encoder and the decoder: what \<open>ParseMessage (marshallMsg m)\<close> is for every
  well-formed message (\<open>decode_encode_values\<close>, \<open>decode_encode_header\<close>,
  \<open>decode_encode_requestId\<close>), when it panics (\<open>decode_encode_panics\<close>), the
  fate of an unterminated input and of enums.  Most of them show that the code does not meet its spec:
  the round trip of the spec's section 8 holds for no message with more than
  one attribute.

  \<^bold>\<open>Bounds.\<close>  A value is framed well (\<open>frame_ok\<close>) when its name and value are
  shorter than \<open>2^15\<close> bytes: the decoder reads the length fields as signed
  \<open>int16\<close>, so only those lengths come back non-negative; longer fields make
  \<open>GetNextN\<close> panic, which \<open>Iter\<close> proves separately.  The decoder loop
  needs no fuel (\<open>splitLoop\<close> terminates by the measure of unread bytes);
  \<open>loop_fuel\<close> shows that \<open>1 +\<close> that measure is enough passes for every
  state: each pass that goes on reads at least one byte.  The round trip of a language-tagged value is stated for name
  lengths below 128, the values whose little-endian length is a one-byte
  varint.  Slices are lists checked against their length (\<open>go_slice\<close>)
  where the sliced buffer's capacity is its length; \<open>dateTime.UnMarshalIPP\<close>,
  whose argument may have spare capacity, takes a \<open>go_sl\<close> (backing elements
  up to the capacity, and the length), and its bounds are checked against the
  capacity, as Go does.  \<open>DateTime_zone\<close> is stated for the zones of real
  clocks, -12 to +14 hours.

  \<^bold>\<open>Not modelled.\<close>  HTTP transport, file dumps and logging (\<open>DoRequest\<close>'s
  I/O, \<open>log.Println\<close>, the scanner's hex dumps); the system clock itself
  (\<open>time.Now()\<close> is an argument, \<open>DateTime\<close> takes the fields of a
  \<open>time.Time\<close> as a record); UUID4's failed random read (the process exits);
  the file written and the response printed by the root package's
  \<open>DoRequest\<close>; \<open>UUID_SOURCE\<close>, a path no code opens; the
  comments of \<^verbatim>\<open>src/docs.go\<close> and \<^verbatim>\<open>src/ipp/jobOperations.go\<close>.
\<close>

section \<open>The Print-Job example of RFC 2910\<close>

text \<open>The message of the spec's concrete scenario (RFC 2910, section 13.1),
  its attributes built with \<open>AddValue\<close> on fresh attributes as the library's
  builders do, and the bytes the RFC gives for it.\<close>

definition example_attr :: "byte \<Rightarrow> string \<Rightarrow> gvalue \<Rightarrow> attribute_go" where
  "example_attr t n v = projr (AddValue NewAttribute t (bstr n) v)"

definition print_job_example :: Message where
  "print_job_example =
     \<lparr>majorVer = 1, minorVer = 1, operationIdStatusCode = 2, operationOrStatusCode = 0, requestId = 1,
      attributeGroups =
        [\<lparr>beginAttributeGroupTag = TAG_OPERATION, attributes =
            [example_attr TAG_CHARSET ''attributes-charset'' (GCharset (bstr ''us-ascii'')),
             example_attr TAG_LANGUAGE ''attributes-natural-language'' (GNaturalLanguage (bstr ''en-us''))]\<rparr>,
         \<lparr>beginAttributeGroupTag = TAG_JOB, attributes =
            [example_attr TAG_INTEGER ''copies'' (GInteger 20),
             example_attr TAG_KEYWORD ''sides'' (GKeyword (bstr ''two-sided-long-edge''))]\<rparr>],
      endAttributeTag = TAG_END, Data = [], IsResponse = False\<rparr>"

definition rfc_print_job_bytes :: bytes where
  "rfc_print_job_bytes =
     [1, 1, 0, 2, 0, 0, 0, 1, 1, 0x47, 0, 18] @ bstr ''attributes-charset'' @ [0, 8] @ bstr ''us-ascii'' @
     [0x48, 0, 27] @ bstr ''attributes-natural-language'' @ [0, 5] @ bstr ''en-us'' @
     [2, 0x21, 0, 6] @ bstr ''copies'' @ [0, 4, 0, 0, 0, 20] @
     [0x44, 0, 5] @ bstr ''sides'' @ [0, 19] @ bstr ''two-sided-long-edge'' @ [3]"

section \<open>Decoding what the encoder writes\<close>

text \<open>C5. Decoding an encoded well-formed message keeps every value, with its tag,
  its name and its Go value, in the order the encoder wrote them, but not the
  structure around them: the decoded message has exactly one group, tagged as an
  operation-attributes group, whose only attribute holds all the values of all
  attributes of all groups, followed by an empty group for the
  end-of-attributes tag.\<close>

theorem decode_encode_values:
  assumes "wire_ok m"
  shows "\<exists>m'. go_bind (marshallMsg m) ParseMessage = Inr m' \<and>
    map beginAttributeGroupTag (attributeGroups m') = [TAG_OPERATION, TAG_END] \<and>
    map (\<lambda>g. map (\<lambda>a. map (\<lambda>v. (valueTag v, name v, value_go v)) (values_go a)) (attributes g))
        (attributeGroups m') =
      [[map (\<lambda>v. (valueTag v, name v, value_go v)) (all_values m)], []]"
proof -
  have "\<forall>v \<in> set (all_values m). value_ok v"
    using assms by (simp add: wire_ok_def)
  then have d: "map (\<lambda>v. (valueTag v, name v, value_go v)) (map dec_av (all_values m)) =
      map (\<lambda>v. (valueTag v, name v, value_go v)) (all_values m)"
    by (rule dec_av_map)
  show ?thesis
    using ParseMessage_marshallMsg [OF assms] d by simp
qed

theorem decode_encode_values_witness:
  "wire_ok (newMessage 0x0B\<lparr>attributeGroups :=
      [\<lparr>beginAttributeGroupTag = 1, attributes =
         [\<lparr>values_go = [zero_attributeValue\<lparr>valueTag := 0x47, nameLength := 1, name := [97],
                                              valueLength := 1, value_go := GCharset [117]\<rparr>]\<rparr>,
          \<lparr>values_go = [zero_attributeValue\<lparr>valueTag := 0x44, nameLength := 1, name := [98],
                                              valueLength := 1, value_go := GKeyword [120]\<rparr>,
                        zero_attributeValue\<lparr>valueTag := 0x44, valueLength := 1, value_go := GKeyword [121]\<rparr>]\<rparr>]\<rparr>,
       \<lparr>beginAttributeGroupTag = 4, attributes =
         [\<lparr>values_go = [zero_attributeValue\<lparr>valueTag := 0x48, nameLength := 1, name := [99],
                                              valueLength := 2, value_go := GNaturalLanguage [101, 110]\<rparr>]\<rparr>]\<rparr>]\<rparr>) \<and>
   (\<exists>m'. go_bind (marshallMsg (newMessage 0x0B\<lparr>attributeGroups :=
      [\<lparr>beginAttributeGroupTag = 1, attributes =
         [\<lparr>values_go = [zero_attributeValue\<lparr>valueTag := 0x47, nameLength := 1, name := [97],
                                              valueLength := 1, value_go := GCharset [117]\<rparr>]\<rparr>,
          \<lparr>values_go = [zero_attributeValue\<lparr>valueTag := 0x44, nameLength := 1, name := [98],
                                              valueLength := 1, value_go := GKeyword [120]\<rparr>,
                        zero_attributeValue\<lparr>valueTag := 0x44, valueLength := 1, value_go := GKeyword [121]\<rparr>]\<rparr>]\<rparr>,
       \<lparr>beginAttributeGroupTag = 4, attributes =
         [\<lparr>values_go = [zero_attributeValue\<lparr>valueTag := 0x48, nameLength := 1, name := [99],
                                              valueLength := 2, value_go := GNaturalLanguage [101, 110]\<rparr>]\<rparr>]\<rparr>]\<rparr>))
      ParseMessage = Inr m' \<and>
    map beginAttributeGroupTag (attributeGroups m') = [1, 3] \<and>
    map (\<lambda>g. map (\<lambda>a. map (\<lambda>v. (valueTag v, name v, value_go v)) (values_go a)) (attributes g))
        (attributeGroups m') =
      [[[(0x47, [97], GCharset [117]), (0x44, [98], GKeyword [120]), (0x44, [], GKeyword [121]),
         (0x48, [99], GNaturalLanguage [101, 110])]], []])"
proof -
  have w: "wire_ok (newMessage 0x0B\<lparr>attributeGroups :=
      [\<lparr>beginAttributeGroupTag = 1, attributes =
         [\<lparr>values_go = [zero_attributeValue\<lparr>valueTag := 0x47, nameLength := 1, name := [97],
                                              valueLength := 1, value_go := GCharset [117]\<rparr>]\<rparr>,
          \<lparr>values_go = [zero_attributeValue\<lparr>valueTag := 0x44, nameLength := 1, name := [98],
                                              valueLength := 1, value_go := GKeyword [120]\<rparr>,
                        zero_attributeValue\<lparr>valueTag := 0x44, valueLength := 1, value_go := GKeyword [121]\<rparr>]\<rparr>]\<rparr>,
       \<lparr>beginAttributeGroupTag = 4, attributes =
         [\<lparr>values_go = [zero_attributeValue\<lparr>valueTag := 0x48, nameLength := 1, name := [99],
                                              valueLength := 2, value_go := GNaturalLanguage [101, 110]\<rparr>]\<rparr>]\<rparr>]\<rparr>)"
    by (simp add: wire_ok_def all_values_def attr_wf_def value_ok_def wire_string_value_def
                  frame_ok_def checkGroupTag_def
                  value_bytes_def newMessage_def zero_attributeValue_def)
  show ?thesis
    using w decode_encode_values [OF w]
    by (simp add: all_values_def newMessage_def zero_attributeValue_def)
qed

text \<open>C6. The header does not survive the round trip: each version byte comes back
  zig-zag decoded (halved, complemented when odd; 0 from \<open>0x80\<close> on), so version
  2.1 reads as 1.-1 (the byte 0xFF); the operation field comes back as its low byte, or 0 when
  that byte is \<open>0x80\<close> or more; IsResponse is always set; the document data
  is dropped.\<close>

theorem decode_encode_header:
  assumes "wire_ok m"
  shows "\<exists>m'. go_bind (marshallMsg m) ParseMessage = Inr m' \<and>
    majorVer m' = (if majorVer m < 0x80 then
                     (if bit (majorVer m) 0 then NOT (drop_bit 1 (majorVer m)) else drop_bit 1 (majorVer m))
                   else 0) \<and>
    minorVer m' = (if minorVer m < 0x80 then
                     (if bit (minorVer m) 0 then NOT (drop_bit 1 (minorVer m)) else drop_bit 1 (minorVer m))
                   else 0) \<and>
    operationIdStatusCode m' =
      (if (ucast (operationIdStatusCode m) :: byte) < 0x80
       then ucast (ucast (operationIdStatusCode m) :: byte) else 0) \<and>
    IsResponse m' \<and> Data m' = []"
  using ParseMessage_marshallMsg [OF assms]
  by (simp add: Varint_single Uvarint_byte_u16 typeCheck_byte typeCheck_0)

theorem decode_encode_header_witness:
  "wire_ok (newMessage 0x0B\<lparr>attributeGroups :=
      [newAg \<lparr>values_go = [zero_attributeValue\<lparr>valueTag := 0x47, nameLength := 1, name := [97],
                                valueLength := 1, value_go := GCharset [117]\<rparr>]\<rparr>]\<rparr>) \<and>
   (\<exists>m'. go_bind (marshallMsg (newMessage 0x0B\<lparr>attributeGroups :=
      [newAg \<lparr>values_go = [zero_attributeValue\<lparr>valueTag := 0x47, nameLength := 1, name := [97],
                                valueLength := 1, value_go := GCharset [117]\<rparr>]\<rparr>]\<rparr>)) ParseMessage = Inr m' \<and>
      majorVer m' = 1 \<and> minorVer m' = - 1 \<and> operationIdStatusCode m' = 0x0B \<and>
      IsResponse m' \<and> Data m' = [])"
proof -
  have w: "wire_ok (newMessage 0x0B\<lparr>attributeGroups :=
      [newAg \<lparr>values_go = [zero_attributeValue\<lparr>valueTag := 0x47, nameLength := 1, name := [97],
                                valueLength := 1, value_go := GCharset [117]\<rparr>]\<rparr>]\<rparr>)"
    by (simp add: wire_ok_def all_values_def attr_wf_def value_ok_def wire_string_value_def
                  frame_ok_def checkGroupTag_def
                  value_bytes_def newMessage_def newAg_def zero_attributeValue_def)
  show ?thesis
    using w decode_encode_header [OF w]
    by (simp add: newMessage_def)
qed

text \<open>C7. The request id does not survive the round trip: every id below \<open>2^24\<close>,
  the library's own id 1 included, decodes as 0, because \<open>binary.Varint\<close> stops
  at the first byte of the big-endian field.\<close>

theorem decode_encode_requestId:
  assumes "wire_ok m" and "requestId m < 0x1000000"
  shows "\<exists>m'. go_bind (marshallMsg m) ParseMessage = Inr m' \<and> requestId m' = 0"
proof -
  have "Varint (be32 (requestId m)) = (0, 1)"
    by (subst be32_small [OF assms(2)]) (rule Varint_Cons_0)
  with ParseMessage_marshallMsg [OF assms(1)] show ?thesis
    by simp
qed

theorem decode_encode_requestId_witness:
  "wire_ok (newMessage 0x0B\<lparr>attributeGroups :=
      [newAg \<lparr>values_go = [zero_attributeValue\<lparr>valueTag := 0x47, nameLength := 1, name := [97],
                                valueLength := 1, value_go := GCharset [117]\<rparr>]\<rparr>]\<rparr>) \<and> requestId (newMessage 0x0B\<lparr>attributeGroups :=
      [newAg \<lparr>values_go = [zero_attributeValue\<lparr>valueTag := 0x47, nameLength := 1, name := [97],
                                valueLength := 1, value_go := GCharset [117]\<rparr>]\<rparr>]\<rparr>) < 0x1000000 \<and>
   (\<exists>m'. go_bind (marshallMsg (newMessage 0x0B\<lparr>attributeGroups :=
      [newAg \<lparr>values_go = [zero_attributeValue\<lparr>valueTag := 0x47, nameLength := 1, name := [97],
                                valueLength := 1, value_go := GCharset [117]\<rparr>]\<rparr>]\<rparr>)) ParseMessage = Inr m' \<and> requestId (newMessage 0x0B\<lparr>attributeGroups :=
      [newAg \<lparr>values_go = [zero_attributeValue\<lparr>valueTag := 0x47, nameLength := 1, name := [97],
                                valueLength := 1, value_go := GCharset [117]\<rparr>]\<rparr>]\<rparr>) = 1 \<and> requestId m' = 0)"
proof -
  have w: "wire_ok (newMessage 0x0B\<lparr>attributeGroups :=
      [newAg \<lparr>values_go = [zero_attributeValue\<lparr>valueTag := 0x47, nameLength := 1, name := [97],
                                valueLength := 1, value_go := GCharset [117]\<rparr>]\<rparr>]\<rparr>)"
    by (simp add: wire_ok_def all_values_def attr_wf_def value_ok_def wire_string_value_def
                  frame_ok_def checkGroupTag_def
                  value_bytes_def newMessage_def newAg_def zero_attributeValue_def)
  have r: "requestId (newMessage 0x0B\<lparr>attributeGroups :=
      [newAg \<lparr>values_go = [zero_attributeValue\<lparr>valueTag := 0x47, nameLength := 1, name := [97],
                                valueLength := 1, value_go := GCharset [117]\<rparr>]\<rparr>]\<rparr>) < 0x1000000" and r1: "requestId (newMessage 0x0B\<lparr>attributeGroups :=
      [newAg \<lparr>values_go = [zero_attributeValue\<lparr>valueTag := 0x47, nameLength := 1, name := [97],
                                valueLength := 1, value_go := GCharset [117]\<rparr>]\<rparr>]\<rparr>) = 1"
    by (simp_all add: newMessage_def newID_def)
  show ?thesis
    using w r r1 decode_encode_requestId [OF w r] by simp
qed

text \<open>C17. Decoding an encoded message panics at the first value whose tag the
  decoder cannot handle, when the values before it are well formed: a nil
  closure call for uri, text, name and every other unhandled tag, a failed type
  assertion for integer, octetString, dateTime, resolution and the with-language
  types.  Every IPP request names its printer with a uri value, so no request
  the library builds can be read back.\<close>

theorem decode_encode_panics:
  assumes "\<forall>g \<in> set (attributeGroups m). \<forall>a \<in> set (attributes g). attr_wf a"
    and "\<forall>v \<in> set (all_values m). value_go v \<noteq> GNil"
    and "all_values m = vs @ w # ws" and "\<forall>v \<in> set vs. value_ok v" and "frame_ok w"
    and "valueTag w \<notin> {0x22, 0x23, 0x33, 0x44, 0x47, 0x48, 0x49}"
  shows "go_bind (marshallMsg m) ParseMessage =
    Inl (if valueTag w \<in> {0x21, 0x30, 0x31, 0x32, 0x35, 0x36} then InterfaceConversion else NilFuncCall)"
  by (rule ParseMessage_marshallMsg_fail [OF assms(1-5) UnMarshallattribute_Inl [OF assms(6)]])

theorem decode_encode_panics_witness:
  "go_bind (marshallMsg (newMessage 0x0B\<lparr>attributeGroups := [newAg \<lparr>values_go = [zero_attributeValue\<lparr>valueTag := 0x47, nameLength := 18, name := bstr ''attributes-charset'',
                         valueLength := 5, value_go := GCharset (bstr ''utf-8'')\<rparr>]\<rparr>, newAg \<lparr>values_go = [zero_attributeValue\<lparr>valueTag := 0x45, nameLength := 11, name := bstr ''printer-uri'',
                         valueLength := 7, value_go := GUri (bstr ''ipp://p'')\<rparr>]\<rparr>]\<rparr>)) ParseMessage = Inl NilFuncCall"
proof -
  have h1: "\<forall>g \<in> set (attributeGroups (newMessage 0x0B\<lparr>attributeGroups := [newAg \<lparr>values_go = [zero_attributeValue\<lparr>valueTag := 0x47, nameLength := 18, name := bstr ''attributes-charset'',
                         valueLength := 5, value_go := GCharset (bstr ''utf-8'')\<rparr>]\<rparr>, newAg \<lparr>values_go = [zero_attributeValue\<lparr>valueTag := 0x45, nameLength := 11, name := bstr ''printer-uri'',
                         valueLength := 7, value_go := GUri (bstr ''ipp://p'')\<rparr>]\<rparr>]\<rparr>)). \<forall>a \<in> set (attributes g). attr_wf a"
    by (simp add: newMessage_def newAg_def attr_wf_def)
  have h2: "\<forall>v \<in> set (all_values (newMessage 0x0B\<lparr>attributeGroups := [newAg \<lparr>values_go = [zero_attributeValue\<lparr>valueTag := 0x47, nameLength := 18, name := bstr ''attributes-charset'',
                         valueLength := 5, value_go := GCharset (bstr ''utf-8'')\<rparr>]\<rparr>, newAg \<lparr>values_go = [zero_attributeValue\<lparr>valueTag := 0x45, nameLength := 11, name := bstr ''printer-uri'',
                         valueLength := 7, value_go := GUri (bstr ''ipp://p'')\<rparr>]\<rparr>]\<rparr>)). value_go v \<noteq> GNil"
    by (simp add: all_values_def newMessage_def newAg_def zero_attributeValue_def)
  have h3: "all_values (newMessage 0x0B\<lparr>attributeGroups := [newAg \<lparr>values_go = [zero_attributeValue\<lparr>valueTag := 0x47, nameLength := 18, name := bstr ''attributes-charset'',
                         valueLength := 5, value_go := GCharset (bstr ''utf-8'')\<rparr>]\<rparr>, newAg \<lparr>values_go = [zero_attributeValue\<lparr>valueTag := 0x45, nameLength := 11, name := bstr ''printer-uri'',
                         valueLength := 7, value_go := GUri (bstr ''ipp://p'')\<rparr>]\<rparr>]\<rparr>) = [zero_attributeValue\<lparr>valueTag := 0x47, nameLength := 18, name := bstr ''attributes-charset'',
                         valueLength := 5, value_go := GCharset (bstr ''utf-8'')\<rparr>] @ (zero_attributeValue\<lparr>valueTag := 0x45, nameLength := 11, name := bstr ''printer-uri'',
                         valueLength := 7, value_go := GUri (bstr ''ipp://p'')\<rparr>) # []"
    by (simp add: all_values_def newMessage_def newAg_def)
  have h4: "\<forall>v \<in> set [zero_attributeValue\<lparr>valueTag := 0x47, nameLength := 18, name := bstr ''attributes-charset'',
                         valueLength := 5, value_go := GCharset (bstr ''utf-8'')\<rparr>]. value_ok v"
    by (simp add: value_ok_def wire_string_value_def frame_ok_def checkGroupTag_def value_bytes_def
                  zero_attributeValue_def bstr_def)
  have h5: "frame_ok (zero_attributeValue\<lparr>valueTag := 0x45, nameLength := 11, name := bstr ''printer-uri'',
                         valueLength := 7, value_go := GUri (bstr ''ipp://p'')\<rparr>)"
    by (simp add: frame_ok_def checkGroupTag_def value_bytes_def zero_attributeValue_def bstr_def)
  have h6: "valueTag (zero_attributeValue\<lparr>valueTag := 0x45, nameLength := 11, name := bstr ''printer-uri'',
                         valueLength := 7, value_go := GUri (bstr ''ipp://p'')\<rparr>) \<notin> {0x22, 0x23, 0x33, 0x44, 0x47, 0x48, 0x49}"
    by (simp add: zero_attributeValue_def)
  show ?thesis
    using decode_encode_panics [OF h1 h2 h3 h4 h5 h6] by (simp add: zero_attributeValue_def)
qed

section \<open>Inputs the decoder should reject\<close>

text \<open>C19. An attribute section that ends without the end-of-attributes tag is not
  rejected: the decoder returns a message with a single empty
  operation-attributes group, and every value read before the input ran out is
  silently dropped.\<close>

theorem ParseMessage_unterminated:
  assumes "length hdr = 8" and "\<forall>v \<in> set vs. value_ok v"
  shows "\<exists>m'. ParseMessage (hdr @ TAG_OPERATION # concat (map first_bytes vs)) = Inr m' \<and>
    attributeGroups m' = [\<lparr>beginAttributeGroupTag = TAG_OPERATION, attributes = []\<rparr>]"
  using splitAValues_unterminated [OF assms(2)] assms(1)
  by (simp add: ParseMessage_def Let_def)

theorem ParseMessage_unterminated_witness:
  "length [2, 1, 0, 0x0B, 0, 0, 0, 1 :: byte] = 8 \<and> value_ok (zero_attributeValue\<lparr>valueTag := 0x47, nameLength := 18, name := bstr ''attributes-charset'',
                         valueLength := 5, value_go := GCharset (bstr ''utf-8'')\<rparr>) \<and>
   (\<exists>m'. ParseMessage ([2, 1, 0, 0x0B, 0, 0, 0, 1] @ TAG_OPERATION # concat (map first_bytes [zero_attributeValue\<lparr>valueTag := 0x47, nameLength := 18, name := bstr ''attributes-charset'',
                         valueLength := 5, value_go := GCharset (bstr ''utf-8'')\<rparr>])) = Inr m' \<and>
     attributeGroups m' = [\<lparr>beginAttributeGroupTag = TAG_OPERATION, attributes = []\<rparr>])"
proof -
  have l: "length [2, 1, 0, 0x0B, 0, 0, 0, 1 :: byte] = 8"
    by simp
  have v: "value_ok (zero_attributeValue\<lparr>valueTag := 0x47, nameLength := 18, name := bstr ''attributes-charset'',
                         valueLength := 5, value_go := GCharset (bstr ''utf-8'')\<rparr>)"
    by (simp add: value_ok_def wire_string_value_def frame_ok_def checkGroupTag_def value_bytes_def
                  zero_attributeValue_def bstr_def)
  then have "\<forall>v \<in> set [zero_attributeValue\<lparr>valueTag := 0x47, nameLength := 18, name := bstr ''attributes-charset'',
                         valueLength := 5, value_go := GCharset (bstr ''utf-8'')\<rparr>]. value_ok v"
    by simp
  with l v ParseMessage_unterminated [OF l] show ?thesis
    by blast
qed

section \<open>Fixed-width values\<close>

text \<open>C23. An enum comes back from the decoder as 0 whenever it is below
  \<open>2^24\<close>: the four big-endian bytes the encoder writes start with 0, which
  binary.Varint reads as a complete varint.  printer-type-mask 1 reads back as
  0.\<close>

theorem enum_encode_decode:
  assumes "e < 0x1000000"
  shows "\<exists>av. go_bind (go_write (GEnum e)) (UnMarshallattribute TAG_ENUM) = Inr av \<and> value_go av = GEnum 0"
proof -
  have "Varint (be32 e) = (0, 1)"
    by (subst be32_small [OF assms]) (rule Varint_Cons_0)
  then show ?thesis
    by (simp add: UnMarshallattribute_def enum_UnMarshalIPP_def)
qed

theorem enum_encode_decode_witness:
  "(1 :: int32) < 0x1000000 \<and>
   (\<exists>av. go_bind (go_write (GEnum 1)) (UnMarshallattribute TAG_ENUM) = Inr av \<and> value_go av = GEnum 0)"
  using enum_encode_decode [of 1] by simp

section \<open>The spec's Print-Job scenario\<close>

text \<open>The Print-Job message of RFC 2910 section 13.1 encodes to the RFC's
  bytes with one byte missing: the job-attributes group tag 0x02 at offset 77.
  Decoding the result panics (a failed type assertion on the integer value of
  copies).\<close>

theorem print_job_example_encoding:
  "marshallMsg print_job_example = Inr (take 77 rfc_print_job_bytes @ drop 78 rfc_print_job_bytes) \<and>
   rfc_print_job_bytes ! 77 = TAG_JOB \<and>
   go_bind (marshallMsg print_job_example) ParseMessage = Inl InterfaceConversion"
  by code_simp

end
